theory Spec2Isabelle
  imports Complex_Main "HOL-Library.AList" "HOL-Library.Log_Nat"
begin

chapter \<open>Referral economy and duel engine\<close>

text \<open>
  The repository holds the same engine twice: a monolithic program (\<^verbatim>\<open>roombot.py\<close>, all
  state in the process-wide dictionary \<^verbatim>\<open>bot_data\<close>) and a modular one
  (\<^verbatim>\<open>user_manager.py\<close>, \<^verbatim>\<open>invite_manager.py\<close>, \<^verbatim>\<open>handlers.py\<close>,
  \<^verbatim>\<open>callbacks.py\<close>, \<^verbatim>\<open>message_handlers.py\<close>, balances in a database table).
  Both are embedded below. Definitions of the monolith keep the names of its functions;
  definitions of the modular program carry the prefix of their class
  (\<open>um_\<close> UserManager, \<open>im_\<close> InviteManager, \<open>ch_\<close> CommandHandlers,
  \<open>cb_\<close> CallbackHandlers, \<open>mh_\<close> MessageHandlers).

  Conventions of the embedding.
  \<^item> A finite Python float is the rational number it stands for. Where the code
    computes with floats, the embedding rounds the exact result to the nearest double
    (\<open>binary64\<close>, section ``Python values''), as IEEE 754 arithmetic does. The deadlines
    of a verification and of a blacklisting, and the age of the last success in
    \<open>update_invite_streak\<close>, are kept exact: a clock reading plus or minus a whole
    number of seconds. A result beyond the largest double is not modelled: no amount of
    this program comes near it.
  \<^item> \<^verbatim>\<open>time.time()\<close> is an argument \<open>now\<close> of the function that reads the clock; a
    function that reads it more than once gets the same reading.
  \<^item> A result of the \<^verbatim>\<open>random\<close> module is an argument (the sampled symbols, the
    chosen duellist).
  \<^item> A raised exception is the value \<open>Inl e\<close>; where the state the exception leaves
    behind matters, the function returns the state together with the exception.
  \<^item> Sending messages, logging and \<^verbatim>\<open>save_data\<close> do not change the state and are
    left out; the database of the modular program always answers.
\<close>

section \<open>Python values\<close>

datatype py_error = KeyError | NameError | TypeError | ValueError

text \<open>\<^verbatim>\<open>int(x)\<close> of a float: truncation towards zero.\<close>

definition py_int :: "rat \<Rightarrow> int" where
  "py_int x = (if 0 \<le> x then \<lfloor>x\<rfloor> else \<lceil>x\<rceil>)"

text \<open>
  Rounding to two decimal places, a tie to the even neighbour: \<^verbatim>\<open>round(x, 2)\<close> applies
  it to the exact value of the float \<open>x\<close> and returns the double nearest to the result
  (\<open>fl_round2\<close> below).
\<close>

definition round_half_even :: "rat \<Rightarrow> int" where
  "round_half_even x =
     (let f = \<lfloor>x\<rfloor>; d = x - of_int f
      in if d < 1 / 2 then f else if 1 / 2 < d then f + 1 else if even f then f else f + 1)"

definition py_round2 :: "rat \<Rightarrow> rat" where
  "py_round2 x = of_int (round_half_even (x * 100)) / 100"

text \<open>
  Doubles. For \<open>x > 0\<close>, \<open>ilog2 x\<close> is the exponent \<open>e\<close> with \<open>2 powi e \<le> x < 2 powi (e + 1)\<close>.
  \<open>binary64 x\<close> is the double nearest to \<open>x\<close>, a tie to the one with the even
  significand: a multiple of the unit in the last place, which is \<open>2 powi (e - 52)\<close> for
  a normal number and \<open>2 powi (- 1074)\<close> below \<open>2 powi (- 1022)\<close>. The arithmetic of floats
  rounds the exact result; an int that meets a float is converted first.
\<close>

definition ilog2 :: "rat \<Rightarrow> int" where
  "ilog2 x = (if 1 \<le> x then bitlen \<lfloor>x\<rfloor> - 1 else - bitlen (\<lceil>1 / x\<rceil> - 1))"

definition binary64 :: "rat \<Rightarrow> rat" where
  "binary64 x =
     (if x = 0 then 0
      else let u = 2 powi (max (ilog2 \<bar>x\<bar>) (- 1022) - 52)
           in of_int (round_half_even (x / u)) * u)"

definition fl_add :: "rat \<Rightarrow> rat \<Rightarrow> rat" where "fl_add x y = binary64 (x + y)"
definition fl_sub :: "rat \<Rightarrow> rat \<Rightarrow> rat" where "fl_sub x y = binary64 (x - y)"
definition fl_mul :: "rat \<Rightarrow> rat \<Rightarrow> rat" where "fl_mul x y = binary64 (x * y)"
definition fl_div :: "rat \<Rightarrow> rat \<Rightarrow> rat" where "fl_div x y = binary64 (x / y)"
definition fl_of_int :: "int \<Rightarrow> rat" where "fl_of_int n = binary64 (of_int n)"
definition fl_round2 :: "rat \<Rightarrow> rat" where "fl_round2 x = binary64 (py_round2 x)"

text \<open>
  A float of the ledger is finite or NaN: \<^verbatim>\<open>float("nan")\<close> is accepted as an amount by
  \<^verbatim>\<open>/wager\<close> and \<^verbatim>\<open>/gift\<close>. Arithmetic with NaN gives NaN, a comparison with NaN is
  false, \<^verbatim>\<open>max(0, nan)\<close> is 0 and \<^verbatim>\<open>int(nan)\<close> raises ValueError. The infinities are
  turned away by the range tests of both commands and are values of no variable.
\<close>

datatype pyfloat = Finite rat | NaN

text \<open>An amount that is an int or a finite float; a sum of two ints is exact.\<close>

datatype py_num = An_int int | A_float rat

fun pf_add :: "pyfloat \<Rightarrow> pyfloat \<Rightarrow> pyfloat" where
  "pf_add (Finite x) (Finite y) = Finite (fl_add x y)"
| "pf_add x y = NaN"

fun pf_sub :: "pyfloat \<Rightarrow> pyfloat \<Rightarrow> pyfloat" where
  "pf_sub (Finite x) (Finite y) = Finite (fl_sub x y)"
| "pf_sub x y = NaN"

fun pf_mul :: "pyfloat \<Rightarrow> pyfloat \<Rightarrow> pyfloat" where
  "pf_mul (Finite x) (Finite y) = Finite (fl_mul x y)"
| "pf_mul x y = NaN"

fun pf_less :: "pyfloat \<Rightarrow> pyfloat \<Rightarrow> bool" where
  "pf_less (Finite x) (Finite y) = (x < y)"
| "pf_less x y = False"

fun pf_round2 :: "pyfloat \<Rightarrow> pyfloat" where
  "pf_round2 (Finite x) = Finite (fl_round2 x)"
| "pf_round2 NaN = NaN"

fun pf_int :: "pyfloat \<Rightarrow> py_error + int" where
  "pf_int (Finite x) = Inr (py_int x)"
| "pf_int NaN = Inl ValueError"

text \<open>\<^verbatim>\<open>max(0, x)\<close> returns \<open>x\<close> when \<^verbatim>\<open>x > 0\<close> and its first argument otherwise.\<close>

fun pf_max0 :: "pyfloat \<Rightarrow> pyfloat" where
  "pf_max0 (Finite x) = Finite (max 0 x)"
| "pf_max0 NaN = Finite 0"

section \<open>The monolith: configuration and data (roombot.py)\<close>

definition VERIFICATION_TIMEOUT :: rat where "VERIFICATION_TIMEOUT = 300"
definition WAGER_EXPIRY :: rat where "WAGER_EXPIRY = 60"
definition BLACKLIST_DURATION :: rat where "BLACKLIST_DURATION = 86400"
definition DAILY_BONUS_COOLDOWN :: rat where "DAILY_BONUS_COOLDOWN = 86400"
definition INVITE_BASE_POINTS :: rat where "INVITE_BASE_POINTS = 1"
definition ACTIVITY_XP_DAILY :: int where "ACTIVITY_XP_DAILY = 50"
definition LEVEL_XP_REQUIRED :: int where "LEVEL_XP_REQUIRED = 100"
definition WAGER_XP_MULTIPLIER :: rat where "WAGER_XP_MULTIPLIER = binary64 (1 / 10)"
definition STREAK_BONUS_MULTIPLIER :: rat where "STREAK_BONUS_MULTIPLIER = binary64 (1 / 10)"
definition HEAT_DECAY_HOURS :: rat where "HEAT_DECAY_HOURS = 24"
definition MILESTONE_ANNOUNCES :: "int list" where
  "MILESTONE_ANNOUNCES = [10, 25, 50, 100, 250, 500, 1000]"

type_synonym uid = string

text \<open>
  A user dictionary. The last five keys are not created by \<open>init_user\<close>: they exist only
  once some function has stored them, so they are optional here.
\<close>

record user =
  lover_points :: pyfloat
  xp :: int
  level :: int
  invites_successful :: int
  last_daily_bonus :: rat
  blacklisted_until :: rat
  days_active :: int
  wagers_won :: int
  wagers_lost :: int
  total_points_earned :: pyfloat
  total_points_spent :: pyfloat
  last_invite_success :: "rat option"
  invite_streak :: "int option"
  heat_score :: "rat option"
  milestones_reached :: "int list option"
  total_xp_earned :: "int option"

definition new_user :: user where
  "new_user =
     \<lparr>lover_points = Finite 0, xp = 0, level = 1, invites_successful = 0, last_daily_bonus = 0,
      blacklisted_until = 0, days_active = 0, wagers_won = 0, wagers_lost = 0,
      total_points_earned = Finite 0, total_points_spent = Finite 0, last_invite_success = None,
      invite_streak = None, heat_score = None, milestones_reached = None,
      total_xp_earned = None\<rparr>"

text \<open>
  The keys \<^verbatim>\<open>invite_code\<close>, \<^verbatim>\<open>invites_sent\<close>, \<^verbatim>\<open>last_invite_time\<close>,
  \<^verbatim>\<open>last_message_xp\<close>, \<^verbatim>\<open>verification_attempts\<close>, \<^verbatim>\<open>messages_sent\<close>,
  \<^verbatim>\<open>last_active\<close> and \<^verbatim>\<open>loveliness_score\<close> are read and written only by functions
  that are not embedded (message tracking, invite issuing, the loveliness score, whose
  value is an argument of the duel) and are left out of the record.

  Invites, verification challenges and wagers have the same shape in both programs; only
  the type of an account id differs (a string in the monolith, an integer in the
  modular program), and the stake of a wager, which may be NaN in the monolith and is
  finite in the modular program (there \<^verbatim>\<open>int(nan)\<close> raises before the wager is
  created).
\<close>

record 'u invite =
  inviter_id :: 'u
  group_id :: int
  active :: bool
  total_uses :: int
  used_by_list :: "'u list"

text \<open>A Python string that may hold any Unicode character is the list of its code points.\<close>

type_synonym py_str = "nat list"

record verification =
  answer :: py_str
  invite_code :: string
  v_expires_at :: rat
  attempts :: int

record ('u, 'p) wager =
  challenger_id :: 'u
  points :: 'p
  expires_at :: rat
  accepted :: bool

text \<open>
  A wager id is \<^verbatim>\<open>f"wager_{int(time.time())}_{challenger_id[:8]}"\<close>: the pair of the
  two interpolated values. \<^verbatim>\<open>pending_wagers\<close> is iterated, so it is an association list
  in insertion order, as a Python dictionary is.
\<close>

type_synonym wager_id = "int \<times> string"

record bot_data =
  users :: "uid \<rightharpoonup> user"
  invites :: "string \<rightharpoonup> uid invite"
  verifications :: "uid \<rightharpoonup> verification"
  relationships :: "uid \<rightharpoonup> uid"
  pending_wagers :: "(wager_id \<times> (uid, pyfloat) wager) list"

definition initialize_data :: bot_data where
  "initialize_data =
     \<lparr>users = Map.empty, invites = Map.empty, verifications = Map.empty,
      relationships = Map.empty, pending_wagers = []\<rparr>"

section \<open>The monolith: users, levels, heat, streaks, milestones\<close>

definition init_user :: "uid \<Rightarrow> bot_data \<Rightarrow> bot_data" where
  "init_user user_id s =
     (if user_id \<in> dom (users s) then s else s\<lparr>users := (users s)(user_id \<mapsto> new_user)\<rparr>)"

definition calculate_level_xp :: "int \<Rightarrow> int" where
  "calculate_level_xp lvl = LEVEL_XP_REQUIRED * lvl * (1 + lvl div 10)"

definition check_level_up :: "uid \<Rightarrow> bot_data \<Rightarrow> (py_error + bool) \<times> bot_data" where
  "check_level_up user_id s =
     (case users s user_id of
        None \<Rightarrow> (Inl KeyError, s)
      | Some u \<Rightarrow>
          let required_xp = calculate_level_xp (level u) in
          if required_xp \<le> xp u
          then (Inr True,
                s\<lparr>users := (users s)(user_id \<mapsto> u\<lparr>level := level u + 1, xp := xp u - required_xp\<rparr>)\<rparr>)
          else (Inr False, s))"

definition calculate_heat_score :: "uid \<Rightarrow> rat \<Rightarrow> bot_data \<Rightarrow> py_error + rat" where
  "calculate_heat_score user_id now s =
     (case users s user_id of
        None \<Rightarrow> Inl KeyError
      | Some u \<Rightarrow>
          let last_success = (case last_invite_success u of None \<Rightarrow> 0 | Some t \<Rightarrow> t);
              hours_since = fl_div (fl_sub now last_success) 3600
          in if HEAT_DECAY_HOURS < hours_since then Inr 0
             else let base_heat = fl_of_int (invites_successful u);
                      decay = fl_div (fl_sub HEAT_DECAY_HOURS hours_since) HEAT_DECAY_HOURS
                  in Inr (fl_round2 (fl_mul base_heat decay)))"

text \<open>
  \<^verbatim>\<open>user["invite_streak"] += 1\<close> raises KeyError when the key was never stored;
  \<^verbatim>\<open>user["invite_streak"] = 1\<close> creates it.
\<close>

definition update_invite_streak :: "uid \<Rightarrow> rat \<Rightarrow> bot_data \<Rightarrow> (py_error + unit) \<times> bot_data" where
  "update_invite_streak user_id now s =
     (case users s user_id of
        None \<Rightarrow> (Inl KeyError, s)
      | Some u \<Rightarrow>
          let last_success = (case last_invite_success u of None \<Rightarrow> 0 | Some t \<Rightarrow> t);
              bumped =
                (if now - last_success < 86400
                 then (case invite_streak u of None \<Rightarrow> Inl KeyError | Some k \<Rightarrow> Inr (k + 1))
                 else Inr 1)
          in case bumped of
               Inl e \<Rightarrow> (Inl e, s)
             | Inr k \<Rightarrow>
                 let u1 = u\<lparr>invite_streak := Some k, last_invite_success := Some now\<rparr>;
                     s1 = s\<lparr>users := (users s)(user_id \<mapsto> u1)\<rparr>
                 in case calculate_heat_score user_id now s1 of
                      Inl e \<Rightarrow> (Inl e, s1)
                    | Inr h \<Rightarrow> (Inr (), s1\<lparr>users := (users s1)(user_id \<mapsto> u1\<lparr>heat_score := Some h\<rparr>)\<rparr>))"

text \<open>
  The loop of \<open>check_milestones\<close> over \<open>MILESTONE_ANNOUNCES\<close>. The condition
  \<^verbatim>\<open>successful >= milestone and milestone not in user["milestones_reached"]\<close> reads the
  key only when the first conjunct holds. The announcement is sent inside
  \<^verbatim>\<open>try ... except: pass\<close> and changes nothing; the milestones announced are the
  returned list \<open>milestones_hit\<close>.
\<close>

fun milestones_loop :: "int list \<Rightarrow> int \<Rightarrow> user \<Rightarrow> int list \<Rightarrow> py_error + (user \<times> int list)" where
  "milestones_loop [] successful u milestones_hit = Inr (u, milestones_hit)"
| "milestones_loop (milestone # rest) successful u milestones_hit =
     (if milestone \<le> successful
      then (case milestones_reached u of
              None \<Rightarrow> Inl KeyError
            | Some reached \<Rightarrow>
                if milestone \<notin> set reached
                then milestones_loop rest successful
                       (u\<lparr>milestones_reached := Some (reached @ [milestone])\<rparr>)
                       (milestones_hit @ [milestone])
                else milestones_loop rest successful u milestones_hit)
      else milestones_loop rest successful u milestones_hit)"

definition check_milestones :: "uid \<Rightarrow> bot_data \<Rightarrow> (py_error + int list) \<times> bot_data" where
  "check_milestones user_id s =
     (case users s user_id of
        None \<Rightarrow> (Inl KeyError, s)
      | Some u \<Rightarrow>
          (case milestones_loop MILESTONE_ANNOUNCES (invites_successful u) u [] of
             Inl e \<Rightarrow> (Inl e, s)
           | Inr (u', milestones_hit) \<Rightarrow>
               (Inr milestones_hit, s\<lparr>users := (users s)(user_id \<mapsto> u')\<rparr>)))"

section \<open>The monolith: verification\<close>

definition is_blacklisted :: "uid \<Rightarrow> rat \<Rightarrow> bot_data \<Rightarrow> py_error + bool" where
  "is_blacklisted user_id now s =
     (case users s user_id of None \<Rightarrow> Inl KeyError | Some u \<Rightarrow> Inr (now < blacklisted_until u))"

definition blacklist_user :: "uid \<Rightarrow> rat \<Rightarrow> bot_data \<Rightarrow> py_error + bot_data" where
  "blacklist_user user_id now s =
     (case users s user_id of
        None \<Rightarrow> Inl KeyError
      | Some u \<Rightarrow>
          Inr (s\<lparr>users := (users s)(user_id \<mapsto> u\<lparr>blacklisted_until := now + BLACKLIST_DURATION\<rparr>)\<rparr>))"

text \<open>The palette: a red heart with its variation selector, then seven single code points.\<close>

definition emojis :: "py_str list" where
  "emojis = [[0x2764, 0xFE0F], [0x1F495], [0x1F496], [0x1F497], [0x1F49D], [0x1F498],
             [0x1F49C], [0x1F499]]"

text \<open>
  \<^verbatim>\<open>random.sample(pool, k)\<close> returns the entries at \<open>k\<close> distinct positions of the pool;
  the entries of both palettes are pairwise different, so the result is a list of \<open>k\<close>
  different entries.
\<close>

definition is_sample :: "'a list \<Rightarrow> nat \<Rightarrow> 'a list \<Rightarrow> bool" where
  "is_sample pool k selected \<longleftrightarrow> length selected = k \<and> distinct selected \<and> set selected \<subseteq> set pool"

definition str_of :: "string \<Rightarrow> py_str" where
  "str_of cs = map of_char cs"

fun join :: "py_str \<Rightarrow> py_str list \<Rightarrow> py_str" where
  "join sep [] = []"
| "join sep [x] = x"
| "join sep (x # y # ys) = x @ sep @ join sep (y # ys)"

text \<open>
  \<open>create_verification\<close> returns \<open>None\<close> for a blacklisted account and the question
  otherwise; \<open>selected\<close> is the result of \<^verbatim>\<open>random.sample(emojis, 4)\<close>.
\<close>

definition create_verification ::
  "uid \<Rightarrow> string \<Rightarrow> rat \<Rightarrow> py_str list \<Rightarrow> bot_data \<Rightarrow> (py_error + py_str option) \<times> bot_data" where
  "create_verification user_id code now selected s =
     (case is_blacklisted user_id now s of
        Inl e \<Rightarrow> (Inl e, s)
      | Inr True \<Rightarrow> (Inr None, s)
      | Inr False \<Rightarrow>
          let question = str_of ''Type these emojis in order: '' @ join [0x20] selected;
              answer = concat selected
          in (Inr (Some question),
              s\<lparr>verifications := (verifications s)(user_id \<mapsto>
                   \<lparr>answer = answer, invite_code = code,
                    v_expires_at = now + VERIFICATION_TIMEOUT, attempts = 0\<rparr>)\<rparr>))"

text \<open>
  \<^verbatim>\<open>str.strip()\<close> removes the white space of Unicode at both ends;
  \<^verbatim>\<open>replace(' ', '')\<close> removes every U+0020.
\<close>

definition py_isspace :: "nat \<Rightarrow> bool" where
  "py_isspace c \<longleftrightarrow>
     (0x09 \<le> c \<and> c \<le> 0x0D) \<or> (0x1C \<le> c \<and> c \<le> 0x20) \<or> c = 0x85 \<or> c = 0xA0 \<or> c = 0x1680 \<or>
     (0x2000 \<le> c \<and> c \<le> 0x200A) \<or> c = 0x2028 \<or> c = 0x2029 \<or> c = 0x202F \<or> c = 0x205F \<or>
     c = 0x3000"

definition strip :: "py_str \<Rightarrow> py_str" where
  "strip cs = rev (dropWhile py_isspace (rev (dropWhile py_isspace cs)))"

definition remove_spaces :: "py_str \<Rightarrow> py_str" where
  "remove_spaces cs = filter (\<lambda>c. c \<noteq> 0x20) cs"

text \<open>
  \<open>verify_answer\<close> returns the pair (verified, invite code). The attempt is counted
  before the comparison; \<open>blacklist_user\<close> raises KeyError for an account that is not
  in \<open>users\<close>, after the attempt was counted.
\<close>

definition verify_answer ::
  "uid \<Rightarrow> py_str \<Rightarrow> rat \<Rightarrow> bot_data \<Rightarrow> (py_error + bool \<times> string option) \<times> bot_data" where
  "verify_answer user_id ans now s =
     (case verifications s user_id of
        None \<Rightarrow> (Inr (False, None), s)
      | Some verif \<Rightarrow>
          if v_expires_at verif < now
          then (Inr (False, None), s\<lparr>verifications := (verifications s)(user_id := None)\<rparr>)
          else
            let verif1 = verif\<lparr>attempts := attempts verif + 1\<rparr>;
                s1 = s\<lparr>verifications := (verifications s)(user_id \<mapsto> verif1)\<rparr>;
                answer_clean = remove_spaces (strip ans);
                expected_clean = remove_spaces (answer verif1)
            in if answer_clean = expected_clean
               then (Inr (True, Some (invite_code verif1)),
                     s1\<lparr>verifications := (verifications s1)(user_id := None)\<rparr>)
               else if 3 \<le> attempts verif1
               then (case blacklist_user user_id now s1 of
                       Inl e \<Rightarrow> (Inl e, s1)
                     | Inr s2 \<Rightarrow>
                         (Inr (False, None), s2\<lparr>verifications := (verifications s2)(user_id := None)\<rparr>))
               else (Inr (False, None), s1))"

section \<open>The monolith: points and the reward cascade\<close>

definition award_points :: "uid \<Rightarrow> rat \<Rightarrow> bot_data \<Rightarrow> py_error + bot_data" where
  "award_points user_id pts s =
     (case users s user_id of
        None \<Rightarrow> Inl KeyError
      | Some u \<Rightarrow>
          Inr (s\<lparr>users := (users s)(user_id \<mapsto>
                 u\<lparr>lover_points := pf_add (lover_points u) (Finite pts),
                   total_points_earned := pf_add (total_points_earned u) (Finite pts)\<rparr>)\<rparr>))"

text \<open>
  The \<^verbatim>\<open>while\<close> loop of \<open>award_points_cascade\<close>; an empty string is the only account id
  that Python takes for false, and the literal \<^verbatim>\<open>0.01\<close> is the double nearest to 1/100.
  An exception of \<open>award_points\<close> leaves the credits made so far in place.
\<close>

function cascade_loop :: "uid \<Rightarrow> rat \<Rightarrow> nat \<Rightarrow> bot_data \<Rightarrow> (py_error + unit) \<times> bot_data" where
  "cascade_loop current_id current_points depth s =
     (if current_id \<noteq> [] \<and> binary64 (1 / 100) \<le> current_points \<and> depth < 10
      then (case award_points current_id current_points s of
              Inl e \<Rightarrow> (Inl e, s)
            | Inr s' \<Rightarrow>
                (case relationships s' current_id of
                   Some parent \<Rightarrow> cascade_loop parent (fl_div current_points 2) (depth + 1) s'
                 | None \<Rightarrow> (Inr (), s')))
      else (Inr (), s))"
  by pat_completeness auto
termination
  by (relation "measure (\<lambda>(current_id, current_points, depth, s). 10 - depth)") auto

definition award_points_cascade :: "uid \<Rightarrow> rat \<Rightarrow> bot_data \<Rightarrow> (py_error + unit) \<times> bot_data" where
  "award_points_cascade user_id base_points s =
     (case users s user_id of
        None \<Rightarrow> (Inl KeyError, s)
      | Some u \<Rightarrow>
          let streak_bonus =
                fl_add 1 (fl_mul (fl_of_int (case invite_streak u of None \<Rightarrow> 0 | Some k \<Rightarrow> k))
                                 STREAK_BONUS_MULTIPLIER)
          in cascade_loop user_id (fl_mul base_points streak_bonus) 0 s)"

section \<open>The monolith: wagers, gifts, the daily bonus\<close>

fun refund_expired ::
  "rat \<Rightarrow> (wager_id \<times> (uid, pyfloat) wager) list \<Rightarrow> (uid \<rightharpoonup> user) \<Rightarrow> (uid \<rightharpoonup> user)" where
  "refund_expired now [] us = us"
| "refund_expired now ((wid, w) # ws) us =
     refund_expired now ws
       (if expires_at w < now \<and> \<not> accepted w
        then (case us (challenger_id w) of
                Some u \<Rightarrow> us(challenger_id w \<mapsto> u\<lparr>lover_points := pf_add (lover_points u) (points w)\<rparr>)
              | None \<Rightarrow> us)
        else us)"

definition cleanup_expired_wagers :: "rat \<Rightarrow> bot_data \<Rightarrow> bot_data" where
  "cleanup_expired_wagers now s =
     s\<lparr>users := refund_expired now (pending_wagers s) (users s),
       pending_wagers := filter (\<lambda>(wid, w). \<not> expires_at w < now) (pending_wagers s)\<rparr>"

text \<open>
  What a handler answers: the message it sends, or the exception it ends with. An
  argument of a command is missing, or \<^verbatim>\<open>float(arg)\<close> raises ValueError, or the
  argument is the numeral of a number \<open>q\<close> and \<^verbatim>\<open>float\<close> returns the double nearest to
  \<open>q\<close>, or it returns NaN or an infinity.
\<close>

datatype 'u reply =
    Usage
  | Points_out_of_range
  | Not_enough_points
  | Duel_opened
  | Gift_not_positive
  | Gift_too_large
  | Gift_to_self
  | Gift_sent
  | Daily_not_ready
  | Daily_claimed rat bool
  | Duel_expired
  | Own_duel
  | Already_accepted
  | Need_points
  | Duel_complete 'u 'u int int bool bool
  | Only_challenger
  | Duel_cancelled
  | No_reply
  | Invite_unknown
  | Invite_deactivated
  | Already_joined
  | Self_invite
  | Challenge py_str
  | Blocked
  | Already_in_network
  | Link_sent
  | Link_failed
  | Wrong_answer int
  | Welcome
  | Member_welcomed "int list"
  | Raised py_error

datatype cmd_arg = Missing | Malformed | Number rat | Nan | Pos_inf | Neg_inf

text \<open>
  \<open>cmd_wager\<close> from the balance check on: a comparison with NaN is false, so a stake
  of NaN passes the range tests and the balance check.
\<close>

definition place_wager :: "uid \<Rightarrow> pyfloat \<Rightarrow> rat \<Rightarrow> bot_data \<Rightarrow> uid reply \<times> bot_data" where
  "place_wager challenger pts now s =
     (case users s challenger of
        None \<Rightarrow> (Raised KeyError, s)
      | Some u \<Rightarrow>
          if pf_less (lover_points u) pts then (Not_enough_points, s)
          else
            let wid = (py_int now, take 8 challenger);
                s1 = s\<lparr>pending_wagers :=
                       AList.update wid
                         \<lparr>challenger_id = challenger, points = pts,
                          expires_at = fl_add now WAGER_EXPIRY, accepted = False\<rparr>
                         (pending_wagers s)\<rparr>
            in (Duel_opened,
                s1\<lparr>users := (users s1)(challenger \<mapsto>
                      u\<lparr>lover_points := pf_sub (lover_points u) pts\<rparr>)\<rparr>))"

definition cmd_wager :: "uid \<Rightarrow> cmd_arg \<Rightarrow> rat \<Rightarrow> bot_data \<Rightarrow> uid reply \<times> bot_data" where
  "cmd_wager challenger arg now s0 =
     (let s = cleanup_expired_wagers now (init_user challenger s0) in
      case arg of
        Missing \<Rightarrow> (Usage, s)
      | Malformed \<Rightarrow> (Points_out_of_range, s)
      | Pos_inf \<Rightarrow> (Points_out_of_range, s)
      | Neg_inf \<Rightarrow> (Points_out_of_range, s)
      | Nan \<Rightarrow> place_wager challenger NaN now s
      | Number q \<Rightarrow>
          let p = binary64 q in
          if p \<le> 0 \<or> 1000 < p then (Points_out_of_range, s)
          else place_wager challenger (Finite (fl_round2 p)) now s)"

text \<open>\<open>recipient\<close> is the author of the message replied to, if the command is a reply.\<close>

definition transfer_gift :: "uid \<Rightarrow> uid \<Rightarrow> pyfloat \<Rightarrow> bot_data \<Rightarrow> uid reply \<times> bot_data" where
  "transfer_gift giver recipient_id pts s =
     (if recipient_id = giver then (Gift_to_self, s)
      else
        let s1 = init_user recipient_id s in
        case (users s1 giver, users s1 recipient_id) of
          (Some g, Some r) \<Rightarrow>
            if pf_less (lover_points g) pts then (Not_enough_points, s1)
            else
              (Gift_sent,
               s1\<lparr>users := (users s1)
                    (giver \<mapsto> g\<lparr>lover_points := pf_sub (lover_points g) pts,
                                  total_points_spent := pf_add (total_points_spent g) pts\<rparr>,
                     recipient_id \<mapsto> r\<lparr>lover_points := pf_add (lover_points r) pts,
                                         total_points_earned := pf_add (total_points_earned r) pts\<rparr>)\<rparr>)
        | _ \<Rightarrow> (Raised KeyError, s1))"

definition cmd_gift :: "uid \<Rightarrow> uid option \<Rightarrow> cmd_arg \<Rightarrow> bot_data \<Rightarrow> uid reply \<times> bot_data" where
  "cmd_gift giver recipient arg s0 =
     (let s = init_user giver s0 in
      case recipient of
        None \<Rightarrow> (Usage, s)
      | Some recipient_id \<Rightarrow>
          (case arg of
             Missing \<Rightarrow> (Usage, s)
           | Malformed \<Rightarrow> (Usage, s)
           | Pos_inf \<Rightarrow> (Gift_too_large, s)
           | Neg_inf \<Rightarrow> (Gift_not_positive, s)
           | Nan \<Rightarrow> transfer_gift giver recipient_id NaN s
           | Number q \<Rightarrow>
               let p = binary64 q in
               if p \<le> 0 then (Gift_not_positive, s)
               else if 10000 < p then (Gift_too_large, s)
               else transfer_gift giver recipient_id (Finite (fl_round2 p)) s))"

definition cmd_daily :: "uid \<Rightarrow> rat \<Rightarrow> bot_data \<Rightarrow> uid reply \<times> bot_data" where
  "cmd_daily user_id now s0 =
     (let s = init_user user_id s0 in
      case users s user_id of
        None \<Rightarrow> (Raised KeyError, s)
      | Some u \<Rightarrow>
          if fl_sub now (last_daily_bonus u) < DAILY_BONUS_COOLDOWN then (Daily_not_ready, s)
          else
            let base_bonus = 10;
                level_bonus = level u * 2;
                streak_bonus = min (days_active u) 30;
                total_bonus = base_bonus + level_bonus + streak_bonus;
                xp_bonus = ACTIVITY_XP_DAILY;
                u1 = u\<lparr>lover_points := pf_add (lover_points u) (Finite (fl_of_int total_bonus)),
                       total_points_earned :=
                         pf_add (total_points_earned u) (Finite (fl_of_int total_bonus)),
                       xp := xp u + xp_bonus,
                       total_xp_earned :=
                         Some ((case total_xp_earned u of None \<Rightarrow> 0 | Some x \<Rightarrow> x) + xp_bonus),
                       last_daily_bonus := now\<rparr>;
                s1 = s\<lparr>users := (users s)(user_id \<mapsto> u1)\<rparr>
            in case check_level_up user_id s1 of
                 (Inl e, s2) \<Rightarrow> (Raised e, s2)
               | (Inr leveled, s2) \<Rightarrow> (Daily_claimed (of_int total_bonus) leveled, s2))"

section \<open>The monolith: the duel (handle\_callback\_query)\<close>

text \<open>
  \<^verbatim>\<open>bot_data["users"][id]["xp"] += n\<close> followed by
  \<^verbatim>\<open>bot_data["users"][id]["total_xp_earned"] += n\<close>: the second statement raises
  KeyError for an account whose \<^verbatim>\<open>total_xp_earned\<close> was never stored, after the first
  one has been executed.
\<close>

definition add_xp :: "uid \<Rightarrow> int \<Rightarrow> bot_data \<Rightarrow> (py_error + unit) \<times> bot_data" where
  "add_xp user_id n s =
     (case users s user_id of
        None \<Rightarrow> (Inl KeyError, s)
      | Some u \<Rightarrow>
          let u1 = u\<lparr>xp := xp u + n\<rparr>;
              s1 = s\<lparr>users := (users s)(user_id \<mapsto> u1)\<rparr>
          in case total_xp_earned u1 of
               None \<Rightarrow> (Inl KeyError, s1)
             | Some x \<Rightarrow>
                 (Inr (), s1\<lparr>users := (users s1)(user_id \<mapsto> u1\<lparr>total_xp_earned := Some (x + n)\<rparr>)\<rparr>))"

text \<open>
  \<^verbatim>\<open>bot_data["users"][wager["challenger_id"]]["lover_points"] += wager["points"]\<close>, the
  refund of an expired or cancelled wager.
\<close>

definition refund_stake :: "(uid, pyfloat) wager \<Rightarrow> bot_data \<Rightarrow> py_error + bot_data" where
  "refund_stake w s =
     (case users s (challenger_id w) of
        None \<Rightarrow> Inl KeyError
      | Some u \<Rightarrow>
          Inr (s\<lparr>users := (users s)(challenger_id w \<mapsto>
                 u\<lparr>lover_points := pf_add (lover_points u) (points w)\<rparr>)\<rparr>))"

text \<open>The transfer of the points, lines 1052 to 1059 of the handler.\<close>

definition transfer_points :: "uid \<Rightarrow> uid \<Rightarrow> pyfloat \<Rightarrow> bot_data \<Rightarrow> py_error + bot_data" where
  "transfer_points winner_id loser_id pts s =
     (case users s winner_id of
        None \<Rightarrow> Inl KeyError
      | Some w \<Rightarrow>
          let s1 = s\<lparr>users := (users s)(winner_id \<mapsto>
                       w\<lparr>lover_points := pf_add (lover_points w) (pf_mul pts (Finite 2)),
                         wagers_won := wagers_won w + 1,
                         total_points_earned := pf_add (total_points_earned w) pts\<rparr>)\<rparr>
          in case users s1 loser_id of
               None \<Rightarrow> Inl KeyError
             | Some l \<Rightarrow>
                 Inr (s1\<lparr>users := (users s1)(loser_id \<mapsto>
                        l\<lparr>lover_points := pf_sub (lover_points l) pts,
                          wagers_lost := wagers_lost l + 1,
                          total_points_spent := pf_add (total_points_spent l) pts\<rparr>)\<rparr>))"

text \<open>
  \<^verbatim>\<open>int(points * WAGER_XP_MULTIPLIER * (1 + loveliness / 100))\<close>: the product is taken
  from the left, each step rounded; for a stake of NaN \<^verbatim>\<open>int\<close> raises ValueError.
\<close>

definition wager_xp :: "pyfloat \<Rightarrow> rat \<Rightarrow> py_error + int" where
  "wager_xp pts loveliness =
     pf_int (pf_mul (pf_mul pts (Finite WAGER_XP_MULTIPLIER))
                    (Finite (fl_add 1 (fl_div loveliness 100))))"

text \<open>
  The accepted duel, from \<^verbatim>\<open>wager["accepted"] = True\<close> to the removal of the wager.
  The two loveliness scores are arguments (\<open>calculate_loveliness_score\<close> raises a float
  to a fractional power); \<open>first\<close> says that \<^verbatim>\<open>random.choice\<close> returned the first
  entry of \<^verbatim>\<open>[challenger_id, user_id]\<close>. Both amounts of xp are computed before either
  is added.
\<close>

definition execute_duel ::
  "wager_id \<Rightarrow> (uid, pyfloat) wager \<Rightarrow> uid \<Rightarrow> rat \<Rightarrow> rat \<Rightarrow> bool \<Rightarrow> bot_data
     \<Rightarrow> uid reply \<times> bot_data" where
  "execute_duel wid w user_id challenger_loveliness acceptor_loveliness first s0 =
     (let s = s0\<lparr>pending_wagers := AList.update wid (w\<lparr>accepted := True\<rparr>) (pending_wagers s0)\<rparr>;
          challenger = challenger_id w;
          pts = points w
      in case wager_xp pts challenger_loveliness of
           Inl e \<Rightarrow> (Raised e, s)
         | Inr challenger_xp \<Rightarrow>
        (case wager_xp pts acceptor_loveliness of
           Inl e \<Rightarrow> (Raised e, s)
         | Inr acceptor_xp \<Rightarrow>
        (case add_xp challenger challenger_xp s of
           (Inl e, s1) \<Rightarrow> (Raised e, s1)
         | (Inr _, s1) \<Rightarrow>
        (case add_xp user_id acceptor_xp s1 of
           (Inl e, s2) \<Rightarrow> (Raised e, s2)
         | (Inr _, s2) \<Rightarrow>
        (let winner_id = (if first then challenger else user_id);
             loser_id = (if winner_id = challenger then user_id else challenger)
         in case transfer_points winner_id loser_id pts s2 of
              Inl e \<Rightarrow> (Raised e, s2)
            | Inr s3 \<Rightarrow>
           (case check_level_up challenger s3 of
              (Inl e, s4) \<Rightarrow> (Raised e, s4)
            | (Inr challenger_leveled, s4) \<Rightarrow>
           (case check_level_up user_id s4 of
              (Inl e, s5) \<Rightarrow> (Raised e, s5)
            | (Inr acceptor_leveled, s5) \<Rightarrow>
                (Duel_complete winner_id loser_id challenger_xp acceptor_xp
                   challenger_leveled acceptor_leveled,
                 s5\<lparr>pending_wagers := AList.delete wid (pending_wagers s5)\<rparr>))))))))"

datatype action = Accept | Cancel | Other_action

definition handle_callback_query ::
  "action \<Rightarrow> wager_id \<Rightarrow> uid \<Rightarrow> rat \<Rightarrow> rat \<Rightarrow> rat \<Rightarrow> bool \<Rightarrow> bot_data \<Rightarrow> uid reply \<times> bot_data" where
  "handle_callback_query act wid user_id now challenger_loveliness acceptor_loveliness first s =
     (case map_of (pending_wagers s) wid of
        None \<Rightarrow> (Duel_expired, s)
      | Some w \<Rightarrow>
          if expires_at w < now
          then (case refund_stake w s of
                  Inl e \<Rightarrow> (Raised e, s)
                | Inr s1 \<Rightarrow> (Duel_expired, s1\<lparr>pending_wagers := AList.delete wid (pending_wagers s1)\<rparr>))
          else
            (case act of
               Accept \<Rightarrow>
                 if user_id = challenger_id w then (Own_duel, s)
                 else if accepted w then (Already_accepted, s)
                 else
                   let s1 = init_user user_id s in
                   (case users s1 user_id of
                      None \<Rightarrow> (Raised KeyError, s1)
                    | Some a \<Rightarrow>
                        if pf_less (lover_points a) (points w) then (Need_points, s1)
                        else execute_duel wid w user_id challenger_loveliness
                               acceptor_loveliness first s1)
             | Cancel \<Rightarrow>
                 if user_id \<noteq> challenger_id w then (Only_challenger, s)
                 else (case refund_stake w s of
                         Inl e \<Rightarrow> (Raised e, s)
                       | Inr s1 \<Rightarrow>
                           (Duel_cancelled, s1\<lparr>pending_wagers := AList.delete wid (pending_wagers s1)\<rparr>))
             | Other_action \<Rightarrow> (No_reply, s)))"

section \<open>The monolith: redeeming an invite, joining and leaving\<close>

definition cmd_start ::
  "uid \<Rightarrow> string option \<Rightarrow> rat \<Rightarrow> py_str list \<Rightarrow> bot_data \<Rightarrow> uid reply \<times> bot_data" where
  "cmd_start user_id arg now selected s0 =
     (let s = init_user user_id s0 in
      case arg of
        None \<Rightarrow> (Welcome, s)
      | Some code \<Rightarrow>
          (case invites s code of
             None \<Rightarrow> (Invite_unknown, s)
           | Some invite_data \<Rightarrow>
               if \<not> active invite_data then (Invite_deactivated, s)
               else if relationships s user_id = Some (inviter_id invite_data) then (Already_joined, s)
               else if inviter_id invite_data = user_id then (Self_invite, s)
               else (case create_verification user_id code now selected s of
                       (Inl e, s1) \<Rightarrow> (Raised e, s1)
                     | (Inr (Some question), s1) \<Rightarrow> (Challenge question, s1)
                     | (Inr None, s1) \<Rightarrow> (Blocked, s1))))"

text \<open>
  \<open>link_created\<close> says that \<^verbatim>\<open>create_chat_invite_link\<close> returned; when it raises, the
  handler catches the exception and records nothing. The last branch of the handler
  calls \<^verbatim>\<open>track_activity\<close>, which is not embedded: it changes message counters, xp
  and level only.
\<close>

definition handle_private_message ::
  "uid \<Rightarrow> py_str \<Rightarrow> rat \<Rightarrow> bool \<Rightarrow> bot_data \<Rightarrow> uid reply \<times> bot_data" where
  "handle_private_message user_id txt now link_created s0 =
     (let s = init_user user_id s0 in
      case verify_answer user_id (strip txt) now s of
        (Inl e, s1) \<Rightarrow> (Raised e, s1)
      | (Inr (verified, code), s1) \<Rightarrow>
          if verified \<and> code \<noteq> None \<and> code \<noteq> Some []
          then (case code of
                  None \<Rightarrow> (No_reply, s1)
                | Some c \<Rightarrow>
                    (case invites s1 c of
                       None \<Rightarrow> (Raised KeyError, s1)
                     | Some invite_data \<Rightarrow>
                         if user_id \<in> dom (relationships s1) then (Already_in_network, s1)
                         else if \<not> link_created then (Link_failed, s1)
                         else
                           (Link_sent,
                            s1\<lparr>invites := (invites s1)(c \<mapsto>
                                   invite_data\<lparr>total_uses := total_uses invite_data + 1,
                                               used_by_list := used_by_list invite_data @ [user_id]\<rparr>),
                               relationships := (relationships s1)(user_id \<mapsto> inviter_id invite_data)\<rparr>)))
          else if \<not> verified \<and> user_id \<in> dom (verifications s1)
          then (case verifications s1 user_id of
                  Some verif \<Rightarrow> (Wrong_answer (3 - attempts verif), s1)
                | None \<Rightarrow> (No_reply, s1))
          else (No_reply, s1))"

text \<open>\<open>handle_new_member\<close> for one entry of \<^verbatim>\<open>new_chat_members\<close>.\<close>

definition handle_new_member :: "uid \<Rightarrow> rat \<Rightarrow> bot_data \<Rightarrow> uid reply \<times> bot_data" where
  "handle_new_member user_id now s0 =
     (let s = init_user user_id s0 in
      case relationships s user_id of
        None \<Rightarrow> (No_reply, s)
      | Some inviter \<Rightarrow>
          (case update_invite_streak inviter now s of
             (Inl e, s1) \<Rightarrow> (Raised e, s1)
           | (Inr _, s1) \<Rightarrow>
          (case award_points_cascade inviter INVITE_BASE_POINTS s1 of
             (Inl e, s2) \<Rightarrow> (Raised e, s2)
           | (Inr _, s2) \<Rightarrow>
          (case users s2 inviter of
             None \<Rightarrow> (Raised KeyError, s2)
           | Some u \<Rightarrow>
               let s3 = s2\<lparr>users := (users s2)(inviter \<mapsto>
                              u\<lparr>invites_successful := invites_successful u + 1\<rparr>)\<rparr>
               in case check_milestones inviter s3 of
                    (Inl e, s4) \<Rightarrow> (Raised e, s4)
                  | (Inr milestones_hit, s4) \<Rightarrow> (Member_welcomed milestones_hit, s4)))))"

definition handle_member_left :: "uid \<Rightarrow> rat \<Rightarrow> bot_data \<Rightarrow> bot_data" where
  "handle_member_left user_id now s =
     (case relationships s user_id of
        None \<Rightarrow> s
      | Some inviter \<Rightarrow>
          (case users s inviter of
             None \<Rightarrow> s
           | Some u \<Rightarrow>
               let penalty = Finite (1 / 2);
                   u1 = u\<lparr>lover_points := pf_sub (lover_points u) penalty\<rparr>;
                   u2 = u1\<lparr>lover_points := pf_max0 (lover_points u1)\<rparr>;
                   s1 = s\<lparr>users := (users s)(inviter \<mapsto> u2)\<rparr>
               in case calculate_heat_score inviter now s1 of
                    Inl e \<Rightarrow> s1
                  | Inr h \<Rightarrow> s1\<lparr>users := (users s1)(inviter \<mapsto> u2\<lparr>heat_score := Some h\<rparr>)\<rparr>))"

chapter \<open>The modular program\<close>

section \<open>Data: the users table, the session cache, the invite store\<close>

text \<open>
  \<^verbatim>\<open>config.py\<close> has the constants of the monolith, except for the reward of an invite.
\<close>

definition Config_INVITE_BASE_POINTS :: rat where "Config_INVITE_BASE_POINTS = 10"

text \<open>An entry of \<^verbatim>\<open>UserManager.user_cache\<close>; \<^verbatim>\<open>last_invite_success\<close> is not created with it.\<close>

record session =
  c_level :: int
  c_xp :: int
  c_last_daily_bonus :: rat
  c_blacklisted_until :: rat
  c_days_active :: int
  c_heat_score :: rat
  c_invite_streak :: int
  c_invites_successful :: int
  c_wagers_won :: int
  c_wagers_lost :: int
  c_total_points_earned :: rat
  c_total_points_spent :: rat
  c_milestones_reached :: "int list"
  c_last_invite_success :: "rat option"

definition new_session :: session where
  "new_session =
     \<lparr>c_level = 1, c_xp = 0, c_last_daily_bonus = 0, c_blacklisted_until = 0, c_days_active = 0,
      c_heat_score = 0, c_invite_streak = 0, c_invites_successful = 0, c_wagers_won = 0,
      c_wagers_lost = 0, c_total_points_earned = 0, c_total_points_spent = 0,
      c_milestones_reached = [], c_last_invite_success = None\<rparr>"

text \<open>
  The state of the modular program. \<open>points_table\<close> is the column \<^verbatim>\<open>Points\<close> of the table
  \<^verbatim>\<open>users\<close>, keyed by \<^verbatim>\<open>TelegramID\<close>: every write is \<^verbatim>\<open>int(...)\<close>, so it holds integers.
  The schema is not part of the repository; \<open>points_default\<close> is the value the column
  gets in a row inserted by \<^verbatim>\<open>create_user\<close>. The keys of \<open>im_relationships\<close> are
  \<^verbatim>\<open>str(user_id)\<close>, here the integer itself. A wager id is
  \<^verbatim>\<open>f"wager_{int(time.time())}_{user_id}"\<close>.
\<close>

record app =
  points_table :: "int \<rightharpoonup> int"
  points_default :: int
  user_cache :: "int \<rightharpoonup> session"
  verification_cache :: "int \<rightharpoonup> verification"
  im_invites :: "string \<rightharpoonup> int invite"
  im_relationships :: "int \<rightharpoonup> int"
  im_pending_wagers :: "((int \<times> int) \<times> (int, rat) wager) list"

section \<open>UserManager\<close>

text \<open>
  \<open>um_get_or_create_user\<close> returns the row's points and the session; it inserts the row
  and creates the session when they are missing.
\<close>

definition um_get_or_create_user :: "int \<Rightarrow> app \<Rightarrow> (int \<times> session) \<times> app" where
  "um_get_or_create_user telegram_id s =
     (let pts = (case points_table s telegram_id of None \<Rightarrow> points_default s | Some p \<Rightarrow> p);
          c = (case user_cache s telegram_id of None \<Rightarrow> new_session | Some c \<Rightarrow> c)
      in ((pts, c),
          s\<lparr>points_table := (points_table s)(telegram_id \<mapsto> pts),
            user_cache := (user_cache s)(telegram_id \<mapsto> c)\<rparr>))"

text \<open>\<^verbatim>\<open>UPDATE users SET Points = %s WHERE TelegramID = %s\<close> changes a row that exists.\<close>

definition um_update_user_points :: "int \<Rightarrow> int \<Rightarrow> app \<Rightarrow> app" where
  "um_update_user_points telegram_id pts s =
     (if telegram_id \<in> dom (points_table s)
      then s\<lparr>points_table := (points_table s)(telegram_id \<mapsto> pts)\<rparr> else s)"

text \<open>
  \<open>um_award_points\<close> returns False for an account without a session;
  \<^verbatim>\<open>self.db.get_user(telegram_id)['points']\<close> raises TypeError when there is no row.
  The amount is an int (the daily bonus) or a float (a refund, a cascade reward); the
  value written is \<^verbatim>\<open>int(current_points + points)\<close>.
\<close>

definition um_award_points :: "int \<Rightarrow> py_num \<Rightarrow> app \<Rightarrow> (py_error + bool) \<times> app" where
  "um_award_points telegram_id pts s =
     (case user_cache s telegram_id of
        None \<Rightarrow> (Inr False, s)
      | Some c \<Rightarrow>
          (case points_table s telegram_id of
             None \<Rightarrow> (Inl TypeError, s)
           | Some current_points \<Rightarrow>
               let new_points =
                     (case pts of
                        An_int n \<Rightarrow> current_points + n
                      | A_float x \<Rightarrow> py_int (fl_add (fl_of_int current_points) x));
                   s1 = um_update_user_points telegram_id new_points s
               in (Inr True,
                   s1\<lparr>user_cache := (user_cache s1)(telegram_id \<mapsto>
                         c\<lparr>c_total_points_earned :=
                             fl_add (c_total_points_earned c)
                               (case pts of An_int n \<Rightarrow> fl_of_int n | A_float x \<Rightarrow> x)\<rparr>)\<rparr>)))"

definition um_is_blacklisted :: "int \<Rightarrow> rat \<Rightarrow> app \<Rightarrow> bool" where
  "um_is_blacklisted telegram_id now s =
     (case user_cache s telegram_id of None \<Rightarrow> False | Some c \<Rightarrow> now < c_blacklisted_until c)"

definition um_blacklist_user :: "int \<Rightarrow> rat \<Rightarrow> app \<Rightarrow> app" where
  "um_blacklist_user telegram_id now s =
     (case user_cache s telegram_id of
        None \<Rightarrow> s
      | Some c \<Rightarrow>
          s\<lparr>user_cache := (user_cache s)(telegram_id \<mapsto>
               c\<lparr>c_blacklisted_until := now + BLACKLIST_DURATION\<rparr>)\<rparr>)"

definition um_check_level_up :: "int \<Rightarrow> app \<Rightarrow> bool \<times> app" where
  "um_check_level_up telegram_id s =
     (case user_cache s telegram_id of
        None \<Rightarrow> (False, s)
      | Some c \<Rightarrow>
          let required_xp = calculate_level_xp (c_level c) in
          if required_xp \<le> c_xp c
          then (True,
                s\<lparr>user_cache := (user_cache s)(telegram_id \<mapsto>
                     c\<lparr>c_level := c_level c + 1, c_xp := c_xp c - required_xp\<rparr>)\<rparr>)
          else (False, s))"

definition um_calculate_heat_score :: "int \<Rightarrow> rat \<Rightarrow> app \<Rightarrow> rat" where
  "um_calculate_heat_score telegram_id now s =
     (case user_cache s telegram_id of
        None \<Rightarrow> 0
      | Some c \<Rightarrow>
          let last_success = (case c_last_invite_success c of None \<Rightarrow> 0 | Some t \<Rightarrow> t);
              hours_since = fl_div (fl_sub now last_success) 3600
          in if HEAT_DECAY_HOURS < hours_since then 0
             else let base_heat = fl_of_int (c_invites_successful c);
                      decay = fl_div (fl_sub HEAT_DECAY_HOURS hours_since) HEAT_DECAY_HOURS
                  in fl_round2 (fl_mul base_heat decay))"

text \<open>The palette as \<^verbatim>\<open>user_manager.py\<close> spells it.\<close>

definition um_emojis :: "py_str list" where
  "um_emojis = [[0xE2, 0xA4, 0xEF, 0xB8], [0xF0, 0x178, 0x2019, 0x2022],
                [0xF0, 0x178, 0x2019, 0x2013], [0xF0, 0x178, 0x2019, 0x2014],
                [0xF0, 0x178, 0x2019], [0xF0, 0x178, 0x2019, 0x2DC],
                [0xF0, 0x178, 0x2019, 0x153], [0xF0, 0x178, 0x2019, 0x2122]]"

definition um_create_verification ::
  "int \<Rightarrow> string \<Rightarrow> rat \<Rightarrow> py_str list \<Rightarrow> app \<Rightarrow> py_str option \<times> app" where
  "um_create_verification telegram_id code now selected s =
     (if um_is_blacklisted telegram_id now s then (None, s)
      else
        let question = str_of ''Type these emojis in order: '' @ join [0x20] selected;
            answer = concat selected
        in (Some question,
            s\<lparr>verification_cache := (verification_cache s)(telegram_id \<mapsto>
                 \<lparr>answer = answer, invite_code = code,
                  v_expires_at = now + VERIFICATION_TIMEOUT, attempts = 0\<rparr>)\<rparr>))"

definition um_verify_answer ::
  "int \<Rightarrow> py_str \<Rightarrow> rat \<Rightarrow> app \<Rightarrow> (bool \<times> string option) \<times> app" where
  "um_verify_answer telegram_id ans now s =
     (case verification_cache s telegram_id of
        None \<Rightarrow> ((False, None), s)
      | Some verif \<Rightarrow>
          if v_expires_at verif < now
          then ((False, None), s\<lparr>verification_cache := (verification_cache s)(telegram_id := None)\<rparr>)
          else
            let verif1 = verif\<lparr>attempts := attempts verif + 1\<rparr>;
                s1 = s\<lparr>verification_cache := (verification_cache s)(telegram_id \<mapsto> verif1)\<rparr>;
                answer_clean = remove_spaces (strip ans);
                expected_clean = remove_spaces (answer verif1)
            in if answer_clean = expected_clean
               then ((True, Some (invite_code verif1)),
                     s1\<lparr>verification_cache := (verification_cache s1)(telegram_id := None)\<rparr>)
               else if 3 \<le> attempts verif1
               then (let s2 = um_blacklist_user telegram_id now s1
                     in ((False, None),
                         s2\<lparr>verification_cache := (verification_cache s2)(telegram_id := None)\<rparr>))
               else ((False, None), s1))"

section \<open>InviteManager\<close>

definition im_get_inviter :: "int \<Rightarrow> app \<Rightarrow> int option" where
  "im_get_inviter user_id s = im_relationships s user_id"

definition im_is_invite_active :: "string \<Rightarrow> app \<Rightarrow> bool" where
  "im_is_invite_active code s = (case im_invites s code of None \<Rightarrow> False | Some i \<Rightarrow> active i)"

definition im_use_invite :: "string \<Rightarrow> int \<Rightarrow> app \<Rightarrow> bool \<times> app" where
  "im_use_invite code user_id s =
     (case im_invites s code of
        None \<Rightarrow> (False, s)
      | Some i \<Rightarrow>
          if user_id \<notin> set (used_by_list i)
          then (True,
                s\<lparr>im_invites := (im_invites s)(code \<mapsto>
                     i\<lparr>used_by_list := used_by_list i @ [user_id], total_uses := total_uses i + 1\<rparr>),
                  im_relationships := (im_relationships s)(user_id \<mapsto> inviter_id i)\<rparr>)
          else (False, s))"

definition im_create_wager :: "int \<times> int \<Rightarrow> int \<Rightarrow> rat \<Rightarrow> rat \<Rightarrow> app \<Rightarrow> app" where
  "im_create_wager wid challenger pts now s =
     s\<lparr>im_pending_wagers :=
         AList.update wid
           \<lparr>challenger_id = challenger, points = pts, expires_at = fl_add now WAGER_EXPIRY,
            accepted = False\<rparr>
           (im_pending_wagers s)\<rparr>"

definition im_get_wager :: "int \<times> int \<Rightarrow> app \<Rightarrow> (int, rat) wager option" where
  "im_get_wager wid s = map_of (im_pending_wagers s) wid"

definition im_accept_wager :: "int \<times> int \<Rightarrow> app \<Rightarrow> app" where
  "im_accept_wager wid s =
     (case map_of (im_pending_wagers s) wid of
        None \<Rightarrow> s
      | Some w \<Rightarrow> s\<lparr>im_pending_wagers := AList.update wid (w\<lparr>accepted := True\<rparr>) (im_pending_wagers s)\<rparr>)"

definition im_remove_wager :: "int \<times> int \<Rightarrow> app \<Rightarrow> app" where
  "im_remove_wager wid s = s\<lparr>im_pending_wagers := AList.delete wid (im_pending_wagers s)\<rparr>"

text \<open>\<open>im_cleanup_expired_wagers\<close> returns the expired wagers and removes them.\<close>

definition im_cleanup_expired_wagers :: "rat \<Rightarrow> app \<Rightarrow> (int, rat) wager list \<times> app" where
  "im_cleanup_expired_wagers now s =
     (map snd (filter (\<lambda>(wid, w). expires_at w < now) (im_pending_wagers s)),
      s\<lparr>im_pending_wagers := filter (\<lambda>(wid, w). \<not> expires_at w < now) (im_pending_wagers s)\<rparr>)"

section \<open>CommandHandlers\<close>

text \<open>
  \<^verbatim>\<open>if session: session[...] = ...\<close>: an update of a session that is made only when
  the session exists.
\<close>

definition upd_session :: "int \<Rightarrow> (session \<Rightarrow> session) \<Rightarrow> app \<Rightarrow> app" where
  "upd_session telegram_id f s =
     (case user_cache s telegram_id of
        None \<Rightarrow> s
      | Some c \<Rightarrow> s\<lparr>user_cache := (user_cache s)(telegram_id \<mapsto> f c)\<rparr>)"

text \<open>
  An account id or an inviter id is tested for truth (\<^verbatim>\<open>if inviter_id:\<close>): \<open>None\<close>
  and 0 are false.
\<close>

definition truthy :: "int option \<Rightarrow> bool" where
  "truthy v = (case v of None \<Rightarrow> False | Some n \<Rightarrow> n \<noteq> 0)"

text \<open>The loop of \<open>cmd_wager\<close> that refunds the expired wagers nobody accepted.\<close>

fun ch_refund_expired :: "(int, rat) wager list \<Rightarrow> app \<Rightarrow> (py_error + unit) \<times> app" where
  "ch_refund_expired [] s = (Inr (), s)"
| "ch_refund_expired (expired # rest) s =
     (if \<not> accepted expired
      then (case um_award_points (challenger_id expired) (A_float (points expired)) s of
              (Inl e, s1) \<Rightarrow> (Inl e, s1)
            | (Inr _, s1) \<Rightarrow> ch_refund_expired rest s1)
      else ch_refund_expired rest s)"

text \<open>
  \<open>ch_cmd_wager\<close> reads the row of the challenger first, then cleans up, and checks and
  debits the balance it read first. The comparison of the int balance with the float
  stake is exact; the difference is a float. A stake of NaN passes the tests and
  \<^verbatim>\<open>int(new_points)\<close> raises ValueError.
\<close>

definition ch_cmd_wager :: "int \<Rightarrow> cmd_arg \<Rightarrow> rat \<Rightarrow> app \<Rightarrow> int reply \<times> app" where
  "ch_cmd_wager user_id arg now s0 =
     (case um_get_or_create_user user_id s0 of
        ((user_points, c), s1) \<Rightarrow>
     (case im_cleanup_expired_wagers now s1 of
        (expired_wagers, s2) \<Rightarrow>
     (case ch_refund_expired expired_wagers s2 of
        (Inl e, s) \<Rightarrow> (Raised e, s)
      | (Inr _, s) \<Rightarrow>
          (case arg of
             Missing \<Rightarrow> (Usage, s)
           | Malformed \<Rightarrow> (Points_out_of_range, s)
           | Pos_inf \<Rightarrow> (Points_out_of_range, s)
           | Neg_inf \<Rightarrow> (Points_out_of_range, s)
           | Nan \<Rightarrow> (Raised ValueError, s)
           | Number q \<Rightarrow>
               let p = binary64 q in
               if p \<le> 0 \<or> 1000 < p then (Points_out_of_range, s)
               else
                 let pts = fl_round2 p in
                 if of_int user_points < pts then (Not_enough_points, s)
                 else
                   let new_points = fl_sub (fl_of_int user_points) pts;
                       s3 = um_update_user_points user_id (py_int new_points) s;
                       wid = (py_int now, user_id)
                   in (Duel_opened, im_create_wager wid user_id pts now s3)))))"

text \<open>
  \<open>cmd_gift\<close> from the self-gift test on; for an amount of NaN the first
  \<^verbatim>\<open>int(...)\<close> raises ValueError, after both accounts were loaded.
\<close>

definition ch_transfer_gift :: "int \<Rightarrow> int \<Rightarrow> pyfloat \<Rightarrow> app \<Rightarrow> int reply \<times> app" where
  "ch_transfer_gift giver_id recipient_id amount s =
     (if recipient_id = giver_id then (Gift_to_self, s)
      else
        (case um_get_or_create_user giver_id s of
           ((giver_points, gc), s1) \<Rightarrow>
        (case um_get_or_create_user recipient_id s1 of
           ((recipient_points, rc), s2) \<Rightarrow>
             (case amount of
                NaN \<Rightarrow> (Raised ValueError, s2)
              | Finite pts \<Rightarrow>
                  if of_int giver_points < pts then (Not_enough_points, s2)
                  else
                    let giver_new_points = fl_sub (fl_of_int giver_points) pts;
                        recipient_new_points = fl_add (fl_of_int recipient_points) pts;
                        s3 = um_update_user_points giver_id (py_int giver_new_points) s2;
                        s4 = um_update_user_points recipient_id (py_int recipient_new_points) s3;
                        s5 = upd_session giver_id
                               (\<lambda>c. c\<lparr>c_total_points_spent := fl_add (c_total_points_spent c) pts\<rparr>) s4;
                        s6 = upd_session recipient_id
                               (\<lambda>c. c\<lparr>c_total_points_earned := fl_add (c_total_points_earned c) pts\<rparr>) s5
                    in (Gift_sent, s6)))))"

definition ch_cmd_gift :: "int \<Rightarrow> int option \<Rightarrow> cmd_arg \<Rightarrow> app \<Rightarrow> int reply \<times> app" where
  "ch_cmd_gift giver_id recipient arg s =
     (case recipient of
        None \<Rightarrow> (Usage, s)
      | Some recipient_id \<Rightarrow>
          (case arg of
             Missing \<Rightarrow> (Usage, s)
           | Malformed \<Rightarrow> (Usage, s)
           | Pos_inf \<Rightarrow> (Gift_too_large, s)
           | Neg_inf \<Rightarrow> (Gift_not_positive, s)
           | Nan \<Rightarrow> ch_transfer_gift giver_id recipient_id NaN s
           | Number q \<Rightarrow>
               let p = binary64 q in
               if p \<le> 0 then (Gift_not_positive, s)
               else if 10000 < p then (Gift_too_large, s)
               else ch_transfer_gift giver_id recipient_id (Finite (fl_round2 p)) s))"

definition ch_cmd_daily :: "int \<Rightarrow> rat \<Rightarrow> app \<Rightarrow> int reply \<times> app" where
  "ch_cmd_daily user_id now s0 =
     (case um_get_or_create_user user_id s0 of
        ((user_points, c), s) \<Rightarrow>
          if fl_sub now (c_last_daily_bonus c) < DAILY_BONUS_COOLDOWN then (Daily_not_ready, s)
          else
            let base_bonus = 10;
                level_bonus = c_level c * 2;
                streak_bonus = min (c_days_active c) 30;
                total_bonus = base_bonus + level_bonus + streak_bonus
            in case um_award_points user_id (An_int total_bonus) s of
                 (Inl e, s1) \<Rightarrow> (Raised e, s1)
               | (Inr False, s1) \<Rightarrow> (No_reply, s1)
               | (Inr True, s1) \<Rightarrow>
                   let s2 = upd_session user_id
                              (\<lambda>c. c\<lparr>c_xp := c_xp c + ACTIVITY_XP_DAILY, c_last_daily_bonus := now\<rparr>) s1
                   in case um_check_level_up user_id s2 of
                        (leveled, s3) \<Rightarrow> (Daily_claimed (of_int total_bonus) leveled, s3))"

text \<open>\<open>cmd_start\<close> with \<open>_handle_invite_code\<close>.\<close>

definition ch_cmd_start ::
  "int \<Rightarrow> string option \<Rightarrow> rat \<Rightarrow> py_str list \<Rightarrow> app \<Rightarrow> int reply \<times> app" where
  "ch_cmd_start user_id arg now selected s0 =
     (case um_get_or_create_user user_id s0 of
        (user, s) \<Rightarrow>
          (case arg of
             None \<Rightarrow> (Welcome, s)
           | Some code \<Rightarrow>
               if \<not> im_is_invite_active code s then (Invite_unknown, s)
               else
                 (case im_invites s code of
                    None \<Rightarrow> (Raised TypeError, s)
                  | Some invite_data \<Rightarrow>
                      if inviter_id invite_data = user_id then (Self_invite, s)
                      else if truthy (im_get_inviter user_id s) then (Already_in_network, s)
                      else (case um_create_verification user_id code now selected s of
                              (Some question, s1) \<Rightarrow> (Challenge question, s1)
                            | (None, s1) \<Rightarrow> (Blocked, s1)))))"

section \<open>CallbackHandlers\<close>

definition cb_handle_expired_wager :: "int \<times> int \<Rightarrow> (int, rat) wager \<Rightarrow> app \<Rightarrow> int reply \<times> app" where
  "cb_handle_expired_wager wid w s =
     (case (if \<not> accepted w then um_award_points (challenger_id w) (A_float (points w)) s
            else (Inr True, s)) of
        (Inl e, s1) \<Rightarrow> (Raised e, s1)
      | (Inr _, s1) \<Rightarrow> (Duel_expired, im_remove_wager wid s1))"

text \<open>
  \<open>cb_execute_wager_duel\<close>. Both sessions exist once \<open>um_get_or_create_user\<close> has run.
  The last statement of the source,
  \<^verbatim>\<open>remove_wager(wager["wager_id"] if "wager_id" in wager else "")\<close>, removes nothing:
  the dictionary of a pending wager has no key \<^verbatim>\<open>wager_id\<close>, and no wager is stored
  under the empty id.
\<close>

definition cb_execute_wager_duel ::
  "(int, rat) wager \<Rightarrow> int \<Rightarrow> rat \<Rightarrow> rat \<Rightarrow> bool \<Rightarrow> app \<Rightarrow> int reply \<times> app" where
  "cb_execute_wager_duel w acceptor_id challenger_loveliness acceptor_loveliness first s0 =
     (let challenger = challenger_id w; pts = points w in
      case um_get_or_create_user challenger s0 of
        ((challenger_points, cc), s1) \<Rightarrow>
     (case um_get_or_create_user acceptor_id s1 of
        ((acceptor_points, ac), s2) \<Rightarrow>
      let challenger_xp =
            py_int (fl_mul (fl_mul pts WAGER_XP_MULTIPLIER) (fl_add 1 (fl_div challenger_loveliness 100)));
          acceptor_xp =
            py_int (fl_mul (fl_mul pts WAGER_XP_MULTIPLIER) (fl_add 1 (fl_div acceptor_loveliness 100)));
          s3 = upd_session challenger (\<lambda>c. c\<lparr>c_xp := c_xp c + challenger_xp\<rparr>) s2;
          s4 = upd_session acceptor_id (\<lambda>c. c\<lparr>c_xp := c_xp c + acceptor_xp\<rparr>) s3;
          winner_id = (if first then challenger else acceptor_id);
          loser_id = (if winner_id = challenger then acceptor_id else challenger);
          challenger_new_points =
            (if winner_id = challenger then fl_add (fl_of_int challenger_points) (fl_mul pts 2)
             else of_int challenger_points);
          acceptor_new_points =
            (if winner_id = challenger then fl_sub (fl_of_int acceptor_points) pts
             else fl_add (fl_of_int acceptor_points) pts);
          s5 = upd_session winner_id (\<lambda>c. c\<lparr>c_wagers_won := c_wagers_won c + 1\<rparr>) s4;
          s6 = upd_session loser_id (\<lambda>c. c\<lparr>c_wagers_lost := c_wagers_lost c + 1\<rparr>) s5;
          s7 = um_update_user_points challenger (py_int challenger_new_points) s6;
          s8 = um_update_user_points acceptor_id (py_int acceptor_new_points) s7;
          s9 = upd_session winner_id
                 (\<lambda>c. c\<lparr>c_total_points_earned := fl_add (c_total_points_earned c) pts\<rparr>) s8;
          s10 = upd_session loser_id
                  (\<lambda>c. c\<lparr>c_total_points_spent := fl_add (c_total_points_spent c) pts\<rparr>) s9
      in case um_check_level_up challenger s10 of
           (challenger_leveled, s11) \<Rightarrow>
        (case um_check_level_up acceptor_id s11 of
           (acceptor_leveled, s12) \<Rightarrow>
             (Duel_complete winner_id loser_id challenger_xp acceptor_xp
                challenger_leveled acceptor_leveled, s12))))"

definition cb_handle_accept_wager ::
  "int \<times> int \<Rightarrow> (int, rat) wager \<Rightarrow> int \<Rightarrow> rat \<Rightarrow> rat \<Rightarrow> bool \<Rightarrow> app \<Rightarrow> int reply \<times> app" where
  "cb_handle_accept_wager wid w user_id challenger_loveliness acceptor_loveliness first s =
     (if user_id = challenger_id w then (Own_duel, s)
      else if accepted w then (Already_accepted, s)
      else
        (case um_get_or_create_user user_id s of
           ((acceptor_points, ac), s1) \<Rightarrow>
             if of_int acceptor_points < points w then (Need_points, s1)
             else cb_execute_wager_duel w user_id challenger_loveliness acceptor_loveliness first
                    (im_accept_wager wid s1)))"

definition cb_handle_cancel_wager :: "int \<times> int \<Rightarrow> (int, rat) wager \<Rightarrow> int \<Rightarrow> app \<Rightarrow> int reply \<times> app" where
  "cb_handle_cancel_wager wid w user_id s =
     (if user_id \<noteq> challenger_id w then (Only_challenger, s)
      else (case um_award_points (challenger_id w) (A_float (points w)) s of
              (Inl e, s1) \<Rightarrow> (Raised e, s1)
            | (Inr _, s1) \<Rightarrow> (Duel_cancelled, im_remove_wager wid s1)))"

definition cb_handle_callback_query ::
  "action \<Rightarrow> int \<times> int \<Rightarrow> int \<Rightarrow> rat \<Rightarrow> rat \<Rightarrow> rat \<Rightarrow> bool \<Rightarrow> app \<Rightarrow> int reply \<times> app" where
  "cb_handle_callback_query act wid user_id now challenger_loveliness acceptor_loveliness first s =
     (case im_get_wager wid s of
        None \<Rightarrow> (Duel_expired, s)
      | Some w \<Rightarrow>
          if expires_at w < now then cb_handle_expired_wager wid w s
          else
            (case act of
               Accept \<Rightarrow>
                 cb_handle_accept_wager wid w user_id challenger_loveliness
                   acceptor_loveliness first s
             | Cancel \<Rightarrow> cb_handle_cancel_wager wid w user_id s
             | Other_action \<Rightarrow> (No_reply, s)))"

section \<open>MessageHandlers\<close>

text \<open>
  The \<^verbatim>\<open>while\<close> loop of \<open>_award_cascade_points\<close>. The result of \<open>award_points\<close> is not
  looked at; its TypeError ends the walk.
\<close>

function mh_cascade_loop :: "int \<Rightarrow> rat \<Rightarrow> nat \<Rightarrow> app \<Rightarrow> (py_error + unit) \<times> app" where
  "mh_cascade_loop current_id current_points depth s =
     (if current_id \<noteq> 0 \<and> binary64 (1 / 100) \<le> current_points \<and> depth < 10
      then (case um_award_points current_id (A_float current_points) s of
              (Inl e, s') \<Rightarrow> (Inl e, s')
            | (Inr b, s') \<Rightarrow>
                (let parent_id = im_get_inviter current_id s' in
                 case parent_id of
                   Some parent \<Rightarrow>
                     if parent \<noteq> 0
                     then mh_cascade_loop parent (fl_div current_points 2) (depth + 1) s'
                     else (Inr (), s')
                 | None \<Rightarrow> (Inr (), s')))
      else (Inr (), s))"
  by pat_completeness auto
termination
  by (relation "measure (\<lambda>(current_id, current_points, depth, s). 10 - depth)") auto

text \<open>The equations of the two loops are unfolded only where a proof names them.\<close>

declare cascade_loop.simps [simp del] mh_cascade_loop.simps [simp del]

definition mh_award_cascade_points :: "int \<Rightarrow> rat \<Rightarrow> app \<Rightarrow> (py_error + unit) \<times> app" where
  "mh_award_cascade_points user_id base_points s =
     (let current_points =
            (case user_cache s user_id of
               None \<Rightarrow> base_points
             | Some c \<Rightarrow>
                 fl_mul base_points
                   (fl_add 1 (fl_mul (fl_of_int (c_invite_streak c)) STREAK_BONUS_MULTIPLIER)))
      in mh_cascade_loop user_id current_points 0 s)"

text \<open>
  The loop of \<open>_check_milestones\<close>: it returns the session's list and the milestones it
  appended.
\<close>

fun mh_milestones_loop :: "int list \<Rightarrow> int \<Rightarrow> int list \<Rightarrow> int list \<Rightarrow> int list \<times> int list" where
  "mh_milestones_loop [] successful reached hit = (reached, hit)"
| "mh_milestones_loop (milestone # rest) successful reached hit =
     (if milestone \<le> successful \<and> milestone \<notin> set reached
      then mh_milestones_loop rest successful (reached @ [milestone]) (hit @ [milestone])
      else mh_milestones_loop rest successful reached hit)"

text \<open>
  \<open>mh_check_milestones\<close> returns the milestones it announced: the announcement is sent
  only when the inviter has a row in the table.
\<close>

definition mh_check_milestones :: "int \<Rightarrow> app \<Rightarrow> int list \<times> app" where
  "mh_check_milestones inviter s =
     (case user_cache s inviter of
        None \<Rightarrow> ([], s)
      | Some c \<Rightarrow>
          (case mh_milestones_loop MILESTONE_ANNOUNCES (c_invites_successful c)
                  (c_milestones_reached c) [] of
             (reached, hit) \<Rightarrow>
               (if inviter \<in> dom (points_table s) then hit else [],
                s\<lparr>user_cache := (user_cache s)(inviter \<mapsto> c\<lparr>c_milestones_reached := reached\<rparr>)\<rparr>)))"

text \<open>
  \<open>_process_successful_invite\<close>. \<^verbatim>\<open>message_handlers.py\<close> does not import \<^verbatim>\<open>time\<close>:
  for an inviter with a session, the statement
  \<^verbatim>\<open>inviter_session['last_invite_success'] = time.time()\<close> raises NameError, after the
  two counters were incremented and before anything else runs.
\<close>

definition mh_process_successful_invite :: "int \<Rightarrow> app \<Rightarrow> int reply \<times> app" where
  "mh_process_successful_invite inviter s =
     (case user_cache s inviter of
        Some c \<Rightarrow>
          (Raised NameError,
           s\<lparr>user_cache := (user_cache s)(inviter \<mapsto>
                c\<lparr>c_invites_successful := c_invites_successful c + 1,
                  c_invite_streak := c_invite_streak c + 1\<rparr>)\<rparr>)
      | None \<Rightarrow>
          (case mh_award_cascade_points inviter Config_INVITE_BASE_POINTS s of
             (Inl e, s1) \<Rightarrow> (Raised e, s1)
           | (Inr _, s1) \<Rightarrow>
               (case mh_check_milestones inviter s1 of
                  (announced, s2) \<Rightarrow> (Member_welcomed announced, s2))))"

text \<open>\<open>handle_new_member\<close> for one entry of \<^verbatim>\<open>new_chat_members\<close>.\<close>

definition mh_handle_new_member :: "int \<Rightarrow> app \<Rightarrow> int reply \<times> app" where
  "mh_handle_new_member user_id s0 =
     (case um_get_or_create_user user_id s0 of
        (user, s) \<Rightarrow>
          (case im_get_inviter user_id s of
             None \<Rightarrow> (No_reply, s)
           | Some inviter \<Rightarrow>
               if inviter \<noteq> 0 then mh_process_successful_invite inviter s else (No_reply, s)))"

definition mh_handle_member_left :: "int \<Rightarrow> rat \<Rightarrow> app \<Rightarrow> app" where
  "mh_handle_member_left user_id now s =
     (case im_get_inviter user_id s of
        None \<Rightarrow> s
      | Some inviter \<Rightarrow>
          if inviter = 0 then s
          else
            let penalty = fl_mul Config_INVITE_BASE_POINTS (1 / 2) in
            (case points_table s inviter of
               None \<Rightarrow> s
             | Some inviter_points \<Rightarrow>
                 let new_points = max 0 (fl_sub (fl_of_int inviter_points) penalty);
                     s1 = um_update_user_points inviter (py_int new_points) s
                 in upd_session inviter
                      (\<lambda>c. c\<lparr>c_heat_score := um_calculate_heat_score inviter now s1\<rparr>) s1))"

text \<open>
  \<open>_handle_successful_verification\<close>; \<open>link_created\<close> says that
  \<^verbatim>\<open>create_chat_invite_link\<close> returned.
\<close>

definition mh_handle_successful_verification :: "string \<Rightarrow> int \<Rightarrow> bool \<Rightarrow> app \<Rightarrow> int reply \<times> app" where
  "mh_handle_successful_verification code user_id link_created s =
     (case im_invites s code of
        None \<Rightarrow> (Invite_unknown, s)
      | Some invite_data \<Rightarrow>
          if truthy (im_get_inviter user_id s) then (Already_in_network, s)
          else if \<not> link_created then (Link_failed, s)
          else (Link_sent, snd (im_use_invite code user_id s)))"

text \<open>
  \<open>handle_private_message\<close>; its last branch calls \<^verbatim>\<open>track_activity\<close>, which is not
  embedded.
\<close>

definition mh_handle_private_message ::
  "int \<Rightarrow> py_str \<Rightarrow> rat \<Rightarrow> bool \<Rightarrow> app \<Rightarrow> int reply \<times> app" where
  "mh_handle_private_message user_id txt now link_created s0 =
     (case um_get_or_create_user user_id s0 of
        (user, s) \<Rightarrow>
          (case um_verify_answer user_id (strip txt) now s of
             ((verified, code), s1) \<Rightarrow>
               if verified \<and> code \<noteq> None \<and> code \<noteq> Some []
               then (case code of
                       None \<Rightarrow> (No_reply, s1)
                     | Some c \<Rightarrow> mh_handle_successful_verification c user_id link_created s1)
               else if \<not> verified \<and> user_id \<in> dom (verification_cache s1)
               then (case verification_cache s1 user_id of
                       Some verif \<Rightarrow> (Wrong_answer (3 - attempts verif), s1)
                     | None \<Rightarrow> (No_reply, s1))
               else (No_reply, s1)))"

chapter \<open>Runs of the two programs\<close>

section \<open>Events of the ledger\<close>

text \<open>
  The handlers that change a balance, as the events of a run. A wager expires in
  \<open>cmd_wager\<close> (the cleanup) or in the callback of a button pressed too late; the reward
  cascade runs in \<open>handle_new_member\<close>.
\<close>

datatype event =
    Cmd_wager uid cmd_arg rat
  | Callback action wager_id uid rat rat rat bool
  | Cmd_gift uid "uid option" cmd_arg
  | Cmd_daily uid rat
  | New_member uid rat
  | Member_left uid rat

fun handle :: "event \<Rightarrow> bot_data \<Rightarrow> bot_data" where
  "handle (Cmd_wager challenger arg now) s = snd (cmd_wager challenger arg now s)"
| "handle (Callback act wid user_id now cl al first) s =
     snd (handle_callback_query act wid user_id now cl al first s)"
| "handle (Cmd_gift giver recipient arg) s = snd (cmd_gift giver recipient arg s)"
| "handle (Cmd_daily user_id now) s = snd (cmd_daily user_id now s)"
| "handle (New_member user_id now) s = snd (handle_new_member user_id now s)"
| "handle (Member_left user_id now) s = handle_member_left user_id now s"

definition run :: "event list \<Rightarrow> bot_data \<Rightarrow> bot_data" where
  "run es s = fold handle es s"

text \<open>The press of the accept button in which \<^verbatim>\<open>random.choice\<close> picks the acceptor.\<close>

fun acceptor_drawn :: "event \<Rightarrow> bool" where
  "acceptor_drawn (Callback Accept wid user_id now cl al first) = (\<not> first)"
| "acceptor_drawn e = False"

text \<open>The command whose amount is NaN.\<close>

fun nan_amount :: "event \<Rightarrow> bool" where
  "nan_amount (Cmd_wager challenger arg now) = (arg = Nan)"
| "nan_amount (Cmd_gift giver recipient arg) = (arg = Nan)"
| "nan_amount e = False"

datatype m_event =
    M_wager int cmd_arg rat
  | M_callback action "int \<times> int" int rat rat rat bool
  | M_gift int "int option" cmd_arg
  | M_daily int rat
  | M_new_member int
  | M_member_left int rat

fun m_handle :: "m_event \<Rightarrow> app \<Rightarrow> app" where
  "m_handle (M_wager user_id arg now) a = snd (ch_cmd_wager user_id arg now a)"
| "m_handle (M_callback act wid user_id now cl al first) a =
     snd (cb_handle_callback_query act wid user_id now cl al first a)"
| "m_handle (M_gift giver recipient arg) a = snd (ch_cmd_gift giver recipient arg a)"
| "m_handle (M_daily user_id now) a = snd (ch_cmd_daily user_id now a)"
| "m_handle (M_new_member user_id) a = snd (mh_handle_new_member user_id a)"
| "m_handle (M_member_left user_id now) a = mh_handle_member_left user_id now a"

definition m_run :: "m_event list \<Rightarrow> app \<Rightarrow> app" where
  "m_run es a = fold m_handle es a"

text \<open>The modular program before its first event, for a table whose column default is \<open>d\<close>.\<close>

definition new_app :: "int \<Rightarrow> app" where
  "new_app d =
     \<lparr>points_table = Map.empty, points_default = d, user_cache = Map.empty,
      verification_cache = Map.empty, im_invites = Map.empty, im_relationships = Map.empty,
      im_pending_wagers = []\<rparr>"

text \<open>The balance of an account; an account that does not exist yet holds nothing.\<close>

definition balance :: "uid \<Rightarrow> bot_data \<Rightarrow> pyfloat" where
  "balance user_id s = (case users s user_id of None \<Rightarrow> Finite 0 | Some u \<Rightarrow> lover_points u)"

definition m_balance :: "int \<Rightarrow> app \<Rightarrow> int" where
  "m_balance telegram_id a =
     (case points_table a telegram_id of None \<Rightarrow> points_default a | Some p \<Rightarrow> p)"

text \<open>
  Every balance and every stake is a number and not negative; levels and day counters
  are in the range the daily bonus assumes.
\<close>

fun nonneg :: "pyfloat \<Rightarrow> bool" where
  "nonneg (Finite x) = (0 \<le> x)"
| "nonneg NaN = False"

definition solvent :: "bot_data \<Rightarrow> bool" where
  "solvent s \<longleftrightarrow>
     (\<forall>user_id u. users s user_id = Some u \<longrightarrow>
        nonneg (lover_points u) \<and> 1 \<le> level u \<and> 0 \<le> days_active u) \<and>
     (\<forall>wid w. (wid, w) \<in> set (pending_wagers s) \<longrightarrow> nonneg (points w))"

definition m_solvent :: "app \<Rightarrow> bool" where
  "m_solvent a \<longleftrightarrow>
     0 \<le> points_default a \<and>
     (\<forall>telegram_id p. points_table a telegram_id = Some p \<longrightarrow> 0 \<le> p) \<and>
     (\<forall>telegram_id c. user_cache a telegram_id = Some c \<longrightarrow> 1 \<le> c_level c \<and> 0 \<le> c_days_active c) \<and>
     (\<forall>wid w. (wid, w) \<in> set (im_pending_wagers a) \<longrightarrow> 0 \<le> points w)"

section \<open>Redeeming invites\<close>

text \<open>
  An invite is redeemed in two steps: \<^verbatim>\<open>/start <code>\<close>, which issues the challenge,
  and the private message with the answer, which records the parent.
\<close>

datatype redeem_step = Start uid string rat "py_str list" | Answer uid py_str rat bool

fun redeem :: "redeem_step \<Rightarrow> bot_data \<Rightarrow> bot_data" where
  "redeem (Start user_id code now selected) s = snd (cmd_start user_id (Some code) now selected s)"
| "redeem (Answer user_id txt now link_created) s =
     snd (handle_private_message user_id txt now link_created s)"

datatype m_redeem_step = M_start int string rat "py_str list" | M_answer int py_str rat bool

fun m_redeem :: "m_redeem_step \<Rightarrow> app \<Rightarrow> app" where
  "m_redeem (M_start user_id code now selected) a =
     snd (ch_cmd_start user_id (Some code) now selected a)"
| "m_redeem (M_answer user_id txt now link_created) a =
     snd (mh_handle_private_message user_id txt now link_created a)"

text \<open>The parent relation of a relationship store, as pairs (child, parent).\<close>

definition parent_rel :: "('u \<rightharpoonup> 'u) \<Rightarrow> ('u \<times> 'u) set" where
  "parent_rel rel = {(child, parent). rel child = Some parent}"

text \<open>
  What the two steps of a redemption keep true: a pending challenge belongs to an invite
  of somebody else, and nobody is their own parent. In the modular program an inviter id
  is tested for truth, so no inviter id is 0.
\<close>

definition linkable :: "bot_data \<Rightarrow> bool" where
  "linkable s \<longleftrightarrow>
     (\<forall>user_id v i. verifications s user_id = Some v \<and> invites s (invite_code v) = Some i
        \<longrightarrow> inviter_id i \<noteq> user_id) \<and>
     (\<forall>user_id. relationships s user_id \<noteq> Some user_id)"

definition m_linkable :: "app \<Rightarrow> bool" where
  "m_linkable a \<longleftrightarrow>
     (\<forall>user_id v i. verification_cache a user_id = Some v \<and> im_invites a (invite_code v) = Some i
        \<longrightarrow> inviter_id i \<noteq> user_id) \<and>
     (\<forall>code i. im_invites a code = Some i \<longrightarrow> inviter_id i \<noteq> 0) \<and>
     (\<forall>user_id p. im_relationships a user_id = Some p \<longrightarrow> p \<noteq> 0 \<and> p \<noteq> user_id)"

section \<open>Concrete states of the closed theorems\<close>

text \<open>A challenge as issued, and one with two wrong answers counted.\<close>

definition pending_example :: verification where
  "pending_example =
     \<lparr>answer = concat (take 4 emojis), invite_code = ''LOVE0A1B2C3D'', v_expires_at = 1000,
      attempts = 0\<rparr>"

definition half_used :: verification where
  "half_used =
     \<lparr>answer = concat (take 4 emojis), invite_code = ''LOVE0A1B2C3D'', v_expires_at = 1000,
      attempts = 2\<rparr>"

text \<open>Three accounts of the monolith, two of them with an invite; the same invites in the
  modular program.\<close>

definition two_inviters :: bot_data where
  "two_inviters =
     initialize_data
       \<lparr>users := [''1'' \<mapsto> new_user, ''2'' \<mapsto> new_user, ''3'' \<mapsto> new_user],
        invites :=
          [''LOVEAAAAAAAA'' \<mapsto>
             \<lparr>inviter_id = ''1'', group_id = - 1001, active = True, total_uses = 0, used_by_list = []\<rparr>,
           ''LOVEBBBBBBBB'' \<mapsto>
             \<lparr>inviter_id = ''2'', group_id = - 1001, active = True, total_uses = 0, used_by_list = []\<rparr>]\<rparr>"

definition m_two_inviters :: app where
  "m_two_inviters =
     (new_app 0)
       \<lparr>im_invites :=
          [''LOVEAAAAAAAA'' \<mapsto>
             \<lparr>inviter_id = 1, group_id = - 1001, active = True, total_uses = 0, used_by_list = []\<rparr>,
           ''LOVEBBBBBBBB'' \<mapsto>
             \<lparr>inviter_id = 2, group_id = - 1001, active = True, total_uses = 0, used_by_list = []\<rparr>]\<rparr>"



chapter \<open>Theorems\<close>

section \<open>Doubles\<close>

text \<open>The exponent of a positive number.\<close>

lemma ilog2_bounds:
  assumes "0 < x"
  shows "2 powi (ilog2 x) \<le> x \<and> x < 2 powi (ilog2 x + 1)"
proof (cases "1 \<le> x")
  case True
  then have f: "0 < \<lfloor>x\<rfloor>" by simp
  let ?b = "bitlen \<lfloor>x\<rfloor>"
  from bitlen_bounds [OF f] have b: "2 ^ nat (?b - 1) \<le> \<lfloor>x\<rfloor>" "\<lfloor>x\<rfloor> < 2 ^ nat ?b" by simp_all
  have b1: "1 \<le> ?b" using f bitlen_eq_zero_iff [of "\<lfloor>x\<rfloor>"] bitlen_nonneg [of "\<lfloor>x\<rfloor>"] by linarith
  have "(2::rat) powi (?b - 1) = 2 ^ nat (?b - 1)" using b1 by (simp add: power_int_nonneg_exp)
  also have "\<dots> = of_int (2 ^ nat (?b - 1))" by simp
  also have "\<dots> \<le> of_int \<lfloor>x\<rfloor>" using b(1) by (simp only: of_int_le_iff)
  also have "\<dots> \<le> x" by simp
  finally have l: "2 powi (?b - 1) \<le> x" .
  have "\<lfloor>x\<rfloor> + 1 \<le> 2 ^ nat ?b" using b(2) by simp
  then have "(of_int (\<lfloor>x\<rfloor> + 1) :: rat) \<le> of_int (2 ^ nat ?b)" by (simp only: of_int_le_iff)
  moreover have "x < of_int (\<lfloor>x\<rfloor> + 1)" by linarith
  ultimately have "x < of_int (2 ^ nat ?b)" by linarith
  also have "\<dots> = 2 powi ?b" using b1 by (simp add: power_int_nonneg_exp)
  finally have u: "x < 2 powi ?b" .
  show ?thesis using True l u by (simp add: ilog2_def)
next
  case False
  then have x1: "x < 1" by simp
  let ?y = "1 / x"
  have y1: "1 < ?y" using assms x1 by simp
  let ?n = "\<lceil>?y\<rceil>"
  have n2: "2 \<le> ?n" using y1 by linarith
  then have p: "0 < ?n - 1" by simp
  let ?k = "bitlen (?n - 1)"
  from bitlen_bounds [OF p] have b: "2 ^ nat (?k - 1) \<le> ?n - 1" "?n - 1 < 2 ^ nat ?k" by simp_all
  have k1: "1 \<le> ?k" using p bitlen_eq_zero_iff [of "?n - 1"] bitlen_nonneg [of "?n - 1"] by linarith
  have "(of_int (2 ^ nat (?k - 1)) :: rat) \<le> of_int (?n - 1)" using b(1) by (simp only: of_int_le_iff)
  moreover have "of_int (?n - 1) < ?y" by linarith
  moreover have "(of_int (2 ^ nat (?k - 1)) :: rat) = 2 ^ nat (?k - 1)" by simp
  ultimately have ylow: "2 ^ nat (?k - 1) < ?y" by linarith
  have "?n \<le> 2 ^ nat ?k" using b(2) by simp
  then have "(of_int ?n :: rat) \<le> of_int (2 ^ nat ?k)" by (simp only: of_int_le_iff)
  moreover have "?y \<le> of_int ?n" by linarith
  moreover have "(of_int (2 ^ nat ?k) :: rat) = 2 ^ nat ?k" by simp
  ultimately have yup: "?y \<le> 2 ^ nat ?k" by linarith
  have xl: "1 / 2 ^ nat ?k \<le> x"
    using yup assms by (simp add: field_simps)
  have xu: "x < 1 / 2 ^ nat (?k - 1)"
    using ylow assms by (simp add: field_simps)
  have e1: "(2::rat) powi (- ?k) = 1 / 2 ^ nat ?k"
    using k1 by (simp add: power_int_minus_divide power_int_nonneg_exp)
  have e2: "(2::rat) powi (- ?k + 1) = 1 / 2 ^ nat (?k - 1)"
  proof -
    have "- ?k + 1 = - (?k - 1)" by simp
    then show ?thesis using k1 by (simp only: power_int_minus_divide) (simp add: power_int_nonneg_exp)
  qed
  show ?thesis using False xl xu e1 e2 by (simp add: ilog2_def)
qed

lemma ilog2_eqI:
  assumes "2 powi e \<le> x" and "x < 2 powi (e + 1)"
  shows "ilog2 x = e"
proof -
  have x: "0 < x" using assms(1) by (rule less_le_trans [rotated]) simp
  note b = ilog2_bounds [OF x]
  have lt: "(2::rat) powi e < 2 powi (ilog2 x + 1)" using assms(1) b by linarith
  have 1: "e < ilog2 x + 1"
  proof (rule ccontr)
    assume "\<not> e < ilog2 x + 1"
    then have "(2::rat) powi (ilog2 x + 1) \<le> 2 powi e" by (intro power_int_increasing) simp_all
    with lt show False by simp
  qed
  have lt': "(2::rat) powi (ilog2 x) < 2 powi (e + 1)" using assms(2) b by linarith
  have 2: "ilog2 x < e + 1"
  proof (rule ccontr)
    assume "\<not> ilog2 x < e + 1"
    then have "(2::rat) powi (e + 1) \<le> 2 powi (ilog2 x)" by (intro power_int_increasing) simp_all
    with lt' show False by simp
  qed
  show ?thesis using 1 2 by simp
qed

text \<open>
  Rounding to the nearest integer, and to the nearest double: a double is its own rounding,
  rounding never passes a double, and keeps the sign.
\<close>

lemma round_half_even_of_int: "round_half_even (of_int n) = n"
  by (simp add: round_half_even_def)

lemma round_half_even_ge: "of_int n \<le> y \<Longrightarrow> n \<le> round_half_even y"
proof -
  assume "of_int n \<le> y"
  then have "n \<le> \<lfloor>y\<rfloor>" by (simp add: le_floor_iff)
  then show ?thesis by (simp add: round_half_even_def Let_def)
qed

lemma round_half_even_le: "y \<le> of_int n \<Longrightarrow> round_half_even y \<le> n"
proof (cases "y = of_int n")
  case True
  then show ?thesis by (simp add: round_half_even_of_int)
next
  case False
  assume "y \<le> of_int n"
  with False have "y < of_int n" by simp
  then have "\<lfloor>y\<rfloor> < n" by (simp add: floor_less_iff)
  then show ?thesis by (simp add: round_half_even_def Let_def)
qed

lemma round_half_even_error: "\<bar>of_int (round_half_even y) - y\<bar> \<le> 1 / 2"
proof -
  have b: "of_int \<lfloor>y\<rfloor> \<le> y" "y < of_int \<lfloor>y\<rfloor> + 1" by linarith+
  consider "y - of_int \<lfloor>y\<rfloor> < 1 / 2" | "1 / 2 < y - of_int \<lfloor>y\<rfloor>"
    | "y - of_int \<lfloor>y\<rfloor> = 1 / 2" by linarith
  then show ?thesis
  proof cases
    case 1
    then have "round_half_even y = \<lfloor>y\<rfloor>" by (simp add: round_half_even_def Let_def)
    then show ?thesis using 1 b by simp
  next
    case 2
    then have "round_half_even y = \<lfloor>y\<rfloor> + 1" by (simp add: round_half_even_def Let_def)
    then show ?thesis using 2 b by simp
  next
    case 3
    then have "round_half_even y = \<lfloor>y\<rfloor> \<or> round_half_even y = \<lfloor>y\<rfloor> + 1"
      by (simp add: round_half_even_def Let_def)
    then show ?thesis using 3 by auto
  qed
qed

lemma binary64_0: "binary64 0 = 0"
  by (simp add: binary64_def)

lemma binary64_eval:
  assumes "2 powi e \<le> \<bar>x\<bar>" and "\<bar>x\<bar> < 2 powi (e + 1)"
  shows "binary64 x =
           of_int (round_half_even (x / 2 powi (max e (- 1022) - 52))) * 2 powi (max e (- 1022) - 52)"
proof -
  have "0 < \<bar>x\<bar>" using assms(1) by (rule less_le_trans [rotated]) simp
  then have "x \<noteq> 0" by simp
  then show ?thesis using ilog2_eqI [OF assms] by (simp add: binary64_def Let_def)
qed

lemma binary64_nonneg: "0 \<le> x \<Longrightarrow> 0 \<le> binary64 x"
proof -
  assume x: "0 \<le> x"
  have "0 \<le> round_half_even (x / u)" if "0 < u" for u
    using x that by (intro round_half_even_ge) simp
  then show ?thesis by (simp add: binary64_def Let_def)
qed

lemma binary64_exact:
  assumes c: "x = of_int m * 2 powi k" and m: "\<bar>m\<bar> < 2 ^ 53" and k: "- 1074 \<le> k"
  shows "binary64 x = x"
proof (cases "m = 0")
  case True
  then show ?thesis using c by (simp add: binary64_0)
next
  case False
  then have x0: "x \<noteq> 0" using c by simp
  then have ax: "0 < \<bar>x\<bar>" by simp
  let ?e = "ilog2 \<bar>x\<bar>"
  let ?E = "max ?e (- 1022) - 52"
  note b = ilog2_bounds [OF ax]
  have "\<bar>x\<bar> = of_int \<bar>m\<bar> * 2 powi k" using c by (simp add: abs_mult)
  also have "\<dots> < of_int (2 ^ 53) * 2 powi k"
    using m by (intro mult_strict_right_mono) (simp_all only: of_int_less_iff zero_less_power_int zero_less_numeral)
  also have "\<dots> = 2 powi (53 + k)" by (simp add: power_int_add)
  finally have "(2::rat) powi ?e < 2 powi (53 + k)" using b by linarith
  then have "?e < 53 + k"
  proof -
    assume lt: "(2::rat) powi ?e < 2 powi (53 + k)"
    show ?thesis
    proof (rule ccontr)
      assume "\<not> ?e < 53 + k"
      then have "(2::rat) powi (53 + k) \<le> 2 powi ?e" by (intro power_int_increasing) simp_all
      with lt show False by simp
    qed
  qed
  then have ek: "?E \<le> k" using k by simp
  then have "0 \<le> k - ?E" by simp
  then obtain n where n: "k - ?E = int n" using nonneg_int_cases by blast
  have "x / 2 powi ?E = of_int m * 2 powi (k - ?E)"
    unfolding c by (simp add: power_int_diff)
  also have "\<dots> = of_int (m * 2 ^ n)" by (simp add: n)
  finally have q: "x / 2 powi ?E = of_int (m * 2 ^ n)" .
  have "binary64 x = of_int (round_half_even (x / 2 powi ?E)) * 2 powi ?E"
    using x0 by (simp add: binary64_def Let_def)
  also have "\<dots> = x / 2 powi ?E * 2 powi ?E"
    unfolding q round_half_even_of_int ..
  also have "\<dots> = x" by simp
  finally show ?thesis .
qed

lemma binary64_of_int: "\<bar>n\<bar> < 2 ^ 53 \<Longrightarrow> binary64 (of_int n) = of_int n"
  using binary64_exact [of "of_int n" n 0] by simp

lemma binary64_ge:
  assumes c: "c = of_int m * 2 powi k" and m: "0 < m" "m < 2 ^ 53" and k: "- 1074 \<le> k"
    and x: "c \<le> x"
  shows "c \<le> binary64 x"
proof -
  have c0: "0 < c" unfolding c using m(1) by simp
  then have x0: "0 < x" using x by simp
  then have ax: "\<bar>x\<bar> = x" by simp
  let ?e = "ilog2 x"
  let ?E = "max ?e (- 1022) - 52"
  let ?u = "(2::rat) powi ?E"
  note b = ilog2_bounds [OF x0]
  have bx: "binary64 x = of_int (round_half_even (x / ?u)) * ?u"
    using x0 by (simp add: binary64_def Let_def ax)
  show ?thesis
  proof (cases "?E \<le> k")
    case True
    then obtain n where n: "k - ?E = int n" using nonneg_int_cases [of "k - ?E"] by auto
    have "c / ?u = of_int m * 2 powi (k - ?E)" unfolding c by (simp add: power_int_diff)
    also have "\<dots> = of_int (m * 2 ^ n)" by (simp add: n)
    finally have q: "c / ?u = of_int (m * 2 ^ n)" .
    have "c / ?u \<le> x / ?u" using x by (intro divide_right_mono) simp_all
    then have "m * 2 ^ n \<le> round_half_even (x / ?u)" unfolding q by (rule round_half_even_ge)
    then have "(of_int (m * 2 ^ n) :: rat) \<le> of_int (round_half_even (x / ?u))"
      by (simp only: of_int_le_iff)
    then have "c / ?u * ?u \<le> of_int (round_half_even (x / ?u)) * ?u"
      unfolding q by (intro mult_right_mono) simp_all
    then show ?thesis unfolding bx by simp
  next
    case False
    then have ke: "k + 53 \<le> ?e" and E: "?E = ?e - 52" using k by simp_all
    have "c < of_int (2 ^ 53) * 2 powi k"
      unfolding c using m(2)
      by (intro mult_strict_right_mono) (simp_all only: of_int_less_iff zero_less_power_int zero_less_numeral)
    also have "\<dots> = 2 powi (k + 53)" by (simp add: power_int_add)
    also have "\<dots> \<le> 2 powi ?e" using ke by (intro power_int_increasing) simp_all
    finally have ce: "c < 2 powi ?e" .
    have "2 powi ?e / ?u = (2::rat) powi (?e - ?E)" by (simp add: power_int_diff)
    also have "\<dots> = of_int (2 ^ 52)" unfolding E by simp
    finally have q: "2 powi ?e / ?u = (of_int (2 ^ 52) :: rat)" .
    have "2 powi ?e / ?u \<le> x / ?u" using b by (intro divide_right_mono) simp_all
    then have "2 ^ 52 \<le> round_half_even (x / ?u)" unfolding q by (rule round_half_even_ge)
    then have "(of_int (2 ^ 52) :: rat) \<le> of_int (round_half_even (x / ?u))"
      by (simp only: of_int_le_iff)
    then have "2 powi ?e / ?u * ?u \<le> of_int (round_half_even (x / ?u)) * ?u"
      unfolding q by (intro mult_right_mono) simp_all
    then have "2 powi ?e \<le> binary64 x" unfolding bx by simp
    then show ?thesis using ce by simp
  qed
qed

lemma binary64_numeral: "numeral n < (2::int) ^ 53 \<Longrightarrow> binary64 (numeral n) = numeral n"
  using binary64_of_int [of "numeral n"] by simp

text \<open>Evaluating floors of quotients of numerals.\<close>

lemma floor_numeral_div:
  "\<lfloor>numeral a / numeral b :: rat\<rfloor> = numeral a div numeral b"
  "\<lfloor>- numeral a / numeral b :: rat\<rfloor> = - numeral a div numeral b"
  using floor_divide_of_int_eq [of "numeral a" "numeral b", where ?'a = rat]
    floor_divide_of_int_eq [of "- numeral a" "numeral b", where ?'a = rat]
  by simp_all

lemmas fl_eval = round_half_even_def Let_def floor_numeral_div

text \<open>Rounding twice is rounding once: \<open>binary64 x\<close> is a double.\<close>

lemma binary64_idem: "binary64 (binary64 x) = binary64 x"
proof (cases "x = 0")
  case True
  then show ?thesis by (simp add: binary64_0)
next
  case False
  then have ax: "0 < \<bar>x\<bar>" by simp
  let ?e = "ilog2 \<bar>x\<bar>"
  let ?E = "max ?e (- 1022) - 52"
  let ?u = "(2::rat) powi ?E"
  let ?m = "round_half_even (x / ?u)"
  note b = ilog2_bounds [OF ax]
  have y: "binary64 x = of_int ?m * ?u" using False by (simp add: binary64_def Let_def)
  have E: "- 1074 \<le> ?E" by simp
  have "\<bar>x / ?u\<bar> = \<bar>x\<bar> / ?u" by (simp add: abs_divide)
  also have "\<dots> < 2 powi (?e + 1) / ?u" using b by (intro divide_strict_right_mono) simp_all
  also have "\<dots> = 2 powi (?e + 1 - ?E)" by (rule power_int_diff [symmetric]) simp
  also have "\<dots> \<le> 2 powi 53" by (intro power_int_increasing) simp_all
  finally have q: "\<bar>x / ?u\<bar> < 2 ^ 53" by simp
  have "x / ?u \<le> of_int (2 ^ 53)" "of_int (- (2 ^ 53)) \<le> x / ?u" using q by (simp_all add: abs_if split: if_splits)
  then have m: "?m \<le> 2 ^ 53" "- (2 ^ 53) \<le> ?m"
    by (auto intro: round_half_even_le round_half_even_ge)
  have p1: "(2::rat) powi (?E + 1) = 2 powi ?E * 2" by (rule power_int_add_1) simp
  consider "\<bar>?m\<bar> < 2 ^ 53" | "?m = 2 ^ 53" | "?m = - (2 ^ 53)" using m by linarith
  then have "binary64 (of_int ?m * ?u) = of_int ?m * ?u"
  proof cases
    case 1
    then show ?thesis using E by (intro binary64_exact [of _ ?m ?E]) simp_all
  next
    case 2
    have "of_int ?m * ?u = of_int (2 ^ 52) * 2 powi (?E + 1)"
      unfolding 2 p1 by simp
    then show ?thesis using E by (intro binary64_exact [of _ "2 ^ 52" "?E + 1"]) simp_all
  next
    case 3
    have "of_int ?m * ?u = of_int (- (2 ^ 52)) * 2 powi (?E + 1)"
      unfolding 3 p1 by simp
    then show ?thesis using E by (intro binary64_exact [of _ "- (2 ^ 52)" "?E + 1"]) simp_all
  qed
  then show ?thesis unfolding y .
qed

lemma fl_idem:
  "binary64 (fl_add x y) = fl_add x y" "binary64 (fl_sub x y) = fl_sub x y"
  "binary64 (fl_mul x y) = fl_mul x y" "binary64 (fl_div x y) = fl_div x y"
  "binary64 (fl_of_int n) = fl_of_int n" "binary64 (fl_round2 x) = fl_round2 x"
  by (simp_all add: fl_add_def fl_sub_def fl_mul_def fl_div_def fl_of_int_def fl_round2_def
        binary64_idem)

text \<open>The doubles of 0.1 and 0.01, and exact small values.\<close>

lemma binary64_tenth: "binary64 (1 / 10) = 3602879701896397 / 36028797018963968"
  by (subst binary64_eval [of "- 4"]) (simp_all add: fl_eval)

lemma binary64_hundredth: "binary64 (1 / 100) = 5764607523034235 / 576460752303423488"
  by (subst binary64_eval [of "- 7"]) (simp_all add: fl_eval)

lemma binary64_halves:
  "binary64 (1 / 2) = 1 / 2" "binary64 (5 / 2) = 5 / 2" "binary64 (5 / 4) = 5 / 4"
  "binary64 (5 / 8) = 5 / 8" "binary64 (5 / 16) = 5 / 16"
  using binary64_exact [of "1 / 2" 1 "- 1"] binary64_exact [of "5 / 2" 5 "- 1"]
    binary64_exact [of "5 / 4" 5 "- 2"] binary64_exact [of "5 / 8" 5 "- 3"]
    binary64_exact [of "5 / 16" 5 "- 4"]
  by simp_all

lemma binary64_1: "binary64 1 = 1"
  using binary64_of_int [of 1] by simp

section \<open>Levels\<close>

lemma calculate_level_xp_formula: "calculate_level_xp l = 100 * l * (1 + l div 10)"
  by (simp add: calculate_level_xp_def LEVEL_XP_REQUIRED_def)

lemma calculate_level_xp_nonneg: "0 \<le> calculate_level_xp l"
proof (cases "0 \<le> l")
  case True
  then have "0 \<le> l div 10" by simp
  with True have "0 \<le> l * (1 + l div 10)" by simp
  then show ?thesis by (simp add: calculate_level_xp_formula mult.assoc)
next
  case False
  then have "l div 10 < 0" by simp
  then have "1 + l div 10 \<le> 0" by simp
  with False have "0 \<le> l * (1 + l div 10)" by (simp add: mult_nonpos_nonpos)
  then show ?thesis by (simp add: calculate_level_xp_formula mult.assoc)
qed

text \<open>
  C5, as amended. A single call of \<open>check_level_up\<close> compares xp once with the threshold
  \<open>100 * level * (1 + level div 10)\<close>: if xp reaches it, the threshold is subtracted, the
  level rises by exactly one and the call returns True; otherwise nothing changes and the
  call returns False. The level never rises by more than one: for an account whose xp
  covers two consecutive thresholds, the xp left after the call still reaches the
  threshold of the new level. Both programs.
\<close>

theorem check_level_up_single_threshold:
  assumes "users s user_id = Some u" and "user_cache a telegram_id = Some c"
  shows "calculate_level_xp (level u) = 100 * level u * (1 + level u div 10)
       \<and> check_level_up user_id s =
           (if calculate_level_xp (level u) \<le> xp u
            then (Inr True, s\<lparr>users := (users s)(user_id \<mapsto>
                     u\<lparr>level := level u + 1, xp := xp u - calculate_level_xp (level u)\<rparr>)\<rparr>)
            else (Inr False, s))
       \<and> um_check_level_up telegram_id a =
           (if calculate_level_xp (c_level c) \<le> c_xp c
            then (True, a\<lparr>user_cache := (user_cache a)(telegram_id \<mapsto>
                     c\<lparr>c_level := c_level c + 1, c_xp := c_xp c - calculate_level_xp (c_level c)\<rparr>)\<rparr>)
            else (False, a))
       \<and> (calculate_level_xp (level u) + calculate_level_xp (level u + 1) \<le> xp u \<longrightarrow>
            map_option (\<lambda>u'. (level u', calculate_level_xp (level u') \<le> xp u'))
              (users (snd (check_level_up user_id s)) user_id) = Some (level u + 1, True))
       \<and> (calculate_level_xp (c_level c) + calculate_level_xp (c_level c + 1) \<le> c_xp c \<longrightarrow>
            map_option (\<lambda>c'. (c_level c', calculate_level_xp (c_level c') \<le> c_xp c'))
              (user_cache (snd (um_check_level_up telegram_id a)) telegram_id) = Some (c_level c + 1, True))"
proof -
  have "0 \<le> calculate_level_xp (level u + 1)" and "0 \<le> calculate_level_xp (c_level c + 1)"
    by (rule calculate_level_xp_nonneg)+
  then show ?thesis
    using assms
    by (simp add: check_level_up_def um_check_level_up_def Let_def calculate_level_xp_formula)
qed

theorem check_level_up_single_threshold_witness:
  "check_level_up ''42'' (initialize_data\<lparr>users := [''42'' \<mapsto> new_user\<lparr>xp := 150\<rparr>]\<rparr>) =
     (Inr True, initialize_data\<lparr>users := [''42'' \<mapsto> new_user\<lparr>level := 2, xp := 50\<rparr>]\<rparr>)
   \<and> um_check_level_up 42 ((new_app 0)\<lparr>user_cache := [42 \<mapsto> new_session\<lparr>c_xp := 99\<rparr>]\<rparr>) =
     (False, (new_app 0)\<lparr>user_cache := [42 \<mapsto> new_session\<lparr>c_xp := 99\<rparr>]\<rparr>)"
  using check_level_up_single_threshold
    [of "initialize_data\<lparr>users := [''42'' \<mapsto> new_user\<lparr>xp := 150\<rparr>]\<rparr>" "''42''" "new_user\<lparr>xp := 150\<rparr>"
        "(new_app 0)\<lparr>user_cache := [42 \<mapsto> new_session\<lparr>c_xp := 99\<rparr>]\<rparr>" 42 "new_session\<lparr>c_xp := 99\<rparr>"]
  by (simp add: new_user_def new_session_def initialize_data_def)

text \<open>
  C5 as stated fails: at level 1 (threshold 100) with 300 xp, enough for the thresholds of
  levels 1 and 2, one call ends at level 2 with 200 xp, which is not below the threshold
  200 of level 2.
\<close>

theorem check_level_up_no_multi_level_jump:
  "map_option (\<lambda>u. (level u, xp u))
     (users (snd (check_level_up ''42'' (initialize_data\<lparr>users := [''42'' \<mapsto> new_user\<lparr>xp := 300\<rparr>]\<rparr>))) ''42'')
     = Some (2, 200)
   \<and> map_option (\<lambda>c. (c_level c, c_xp c))
     (user_cache (snd (um_check_level_up 42 ((new_app 0)\<lparr>user_cache := [42 \<mapsto> new_session\<lparr>c_xp := 300\<rparr>]\<rparr>))) 42)
     = Some (2, 200)
   \<and> calculate_level_xp 1 = 100 \<and> calculate_level_xp 2 = 200 \<and> \<not> (200 < calculate_level_xp 2)"
  by (simp add: check_level_up_def um_check_level_up_def initialize_data_def new_user_def
      new_session_def new_app_def calculate_level_xp_def LEVEL_XP_REQUIRED_def)

section \<open>Heat score\<close>

lemma py_round2_zero: "py_round2 0 = 0"
  by (simp add: py_round2_def round_half_even_def)

lemma py_round2_5_2: "py_round2 (5 / 2) = 5 / 2"
  by (simp add: py_round2_def round_half_even_def Let_def)

text \<open>Once 24 hours have passed, the hours computed are 24 or more, and the score is 0.\<close>

lemma hours_since_old:
  assumes "86400 \<le> now - t"
  shows "24 \<le> fl_div (fl_sub now t) 3600"
proof -
  have 1: "86400 \<le> binary64 (now - t)"
    using binary64_ge [of 86400 86400 0 "now - t"] assms by simp
  then have "24 \<le> binary64 (now - t) / 3600" by simp
  then show ?thesis
    unfolding fl_div_def fl_sub_def
    using binary64_ge [of 24 24 0 "binary64 (now - t) / 3600"] by simp
qed

lemma heat_value_old:
  assumes "24 \<le> h"
  shows "(if 24 < h then 0 else fl_round2 (fl_mul b (fl_div (fl_sub 24 h) 24))) = 0"
proof (cases "24 < h")
  case True
  then show ?thesis by simp
next
  case False
  then have "h = 24" using assms by simp
  then show ?thesis
    by (simp add: fl_round2_def fl_mul_def fl_div_def fl_sub_def binary64_0 py_round2_zero)
qed

lemma heat_value_no_invites: "fl_round2 (fl_mul (fl_of_int 0) d) = 0"
  by (simp add: fl_round2_def fl_mul_def fl_of_int_def binary64_0 py_round2_zero)

text \<open>
  The score is the double nearest to a number of hundredths, which lies within half a
  hundredth of the product it rounds.
\<close>

lemma fl_round2_hundredths:
  "\<exists>k. fl_round2 x = binary64 (of_int k / 100) \<and> \<bar>of_int k / 100 - x\<bar> \<le> 1 / 200"
proof -
  have "\<bar>of_int (round_half_even (x * 100)) - x * 100\<bar> \<le> 1 / 2"
    by (rule round_half_even_error)
  then have "\<bar>of_int (round_half_even (x * 100)) / 100 - x\<bar> \<le> 1 / 200"
    by (simp add: abs_if field_simps split: if_splits)
  then show ?thesis
    unfolding fl_round2_def py_round2_def by blast
qed

text \<open>Five invites, twelve hours: every step of the computation is exact.\<close>

lemma heat_value_5_12:
  assumes "now - t = 43200"
  shows "fl_div (fl_sub now t) 3600 = 12"
    and "fl_round2 (fl_mul (fl_of_int 5) (fl_div (fl_sub 24 12) 24)) = 5 / 2"
proof -
  have 1: "fl_sub now t = 43200"
    unfolding fl_sub_def assms using binary64_of_int [of 43200] by simp
  show "fl_div (fl_sub now t) 3600 = 12"
    unfolding 1 fl_div_def using binary64_of_int [of 12] by simp
  have 2: "fl_sub 24 12 = 12" unfolding fl_sub_def using binary64_of_int [of 12] by simp
  have 3: "fl_div 12 24 = 1 / 2"
    unfolding fl_div_def using binary64_exact [of "1 / 2" 1 "- 1"] by simp
  have 4: "fl_of_int 5 = 5" unfolding fl_of_int_def using binary64_of_int [of 5] by simp
  have 5: "binary64 (5 / 2) = 5 / 2" using binary64_exact [of "5 / 2" 5 "- 1"] by simp
  show "fl_round2 (fl_mul (fl_of_int 5) (fl_div (fl_sub 24 12) 24)) = 5 / 2"
    unfolding 2 3 4 by (simp add: fl_mul_def fl_round2_def 5 py_round2_5_2)
qed

text \<open>
  One invite, 432 seconds: the hours, the decay and the product are rounded, and the
  product, just below 0.995, is rounded down to the double that Python prints as 0.99.
\<close>

lemma heat_value_1_432:
  assumes "now - t = 432"
  shows "fl_div (fl_sub now t) 3600 = 1080863910568919 / 9007199254740992"
    and "fl_round2 (fl_mul (fl_of_int 1)
           (fl_div (fl_sub 24 (1080863910568919 / 9007199254740992)) 24)) =
         4458563631096791 / 4503599627370496"
proof -
  have 1: "fl_sub now t = 432"
    unfolding fl_sub_def assms using binary64_of_int [of 432] by simp
  show "fl_div (fl_sub now t) 3600 = 1080863910568919 / 9007199254740992"
    unfolding 1 fl_div_def by (subst binary64_eval [of "- 4"]) (simp_all add: fl_eval)
  have 2: "fl_sub 24 (1080863910568919 / 9007199254740992) = 6721622443850465 / 281474976710656"
    unfolding fl_sub_def by (subst binary64_eval [of 4]) (simp_all add: fl_eval)
  have 3: "fl_div (6721622443850465 / 281474976710656) 24 = 8962163258467287 / 9007199254740992"
    unfolding fl_div_def by (subst binary64_eval [of "- 1"]) (simp_all add: fl_eval)
  have 4: "fl_of_int 1 = 1" unfolding fl_of_int_def using binary64_of_int [of 1] by simp
  have 5: "fl_mul 1 (8962163258467287 / 9007199254740992) = 8962163258467287 / 9007199254740992"
    unfolding fl_mul_def by (subst binary64_eval [of "- 1"]) (simp_all add: fl_eval)
  have 6: "py_round2 (8962163258467287 / 9007199254740992) = 99 / 100"
    by (simp add: py_round2_def fl_eval)
  have 7: "binary64 (99 / 100) = 4458563631096791 / 4503599627370496"
    by (subst binary64_eval [of "- 1"]) (simp_all add: fl_eval)
  show "fl_round2 (fl_mul (fl_of_int 1)
           (fl_div (fl_sub 24 (1080863910568919 / 9007199254740992)) 24)) =
         4458563631096791 / 4503599627370496"
    unfolding 2 3 4 5 fl_round2_def 6 7 ..
qed

lemma heat_monolith:
  assumes "users s user_id = Some u"
    and "last_success = (case last_invite_success u of None \<Rightarrow> 0 | Some t \<Rightarrow> t)"
    and "hours_since = fl_div (fl_sub now last_success) 3600"
  shows "(invites_successful u = 0 \<or> 86400 \<le> now - last_success
            \<longrightarrow> calculate_heat_score user_id now s = Inr 0)
       \<and> (24 < hours_since \<longrightarrow> calculate_heat_score user_id now s = Inr 0)
       \<and> (\<not> 24 < hours_since \<longrightarrow> calculate_heat_score user_id now s =
             Inr (fl_round2 (fl_mul (fl_of_int (invites_successful u))
                                   (fl_div (fl_sub 24 hours_since) 24))))
       \<and> (\<exists>k. calculate_heat_score user_id now s = Inr (binary64 (of_int k / 100))
              \<and> (\<not> 24 < hours_since \<longrightarrow>
                   \<bar>of_int k / 100 - fl_mul (fl_of_int (invites_successful u))
                                           (fl_div (fl_sub 24 hours_since) 24)\<bar> \<le> 1 / 200))
       \<and> (invites_successful u = 5 \<and> now - last_success = 43200
            \<longrightarrow> calculate_heat_score user_id now s = Inr (5 / 2))
       \<and> (invites_successful u = 1 \<and> now - last_success = 432
            \<longrightarrow> calculate_heat_score user_id now s = Inr (4458563631096791 / 4503599627370496))"
proof -
  let ?v = "fl_round2 (fl_mul (fl_of_int (invites_successful u)) (fl_div (fl_sub 24 hours_since) 24))"
  have c: "calculate_heat_score user_id now s = Inr (if 24 < hours_since then 0 else ?v)"
    using assms by (simp add: calculate_heat_score_def HEAT_DECAY_HOURS_def Let_def)
  have 1: "invites_successful u = 0 \<or> 86400 \<le> now - last_success
            \<longrightarrow> calculate_heat_score user_id now s = Inr 0"
  proof
    assume "invites_successful u = 0 \<or> 86400 \<le> now - last_success"
    then show "calculate_heat_score user_id now s = Inr 0"
    proof
      assume "invites_successful u = 0"
      then show ?thesis unfolding c by (simp add: heat_value_no_invites)
    next
      assume "86400 \<le> now - last_success"
      then have "24 \<le> hours_since" unfolding assms(3) by (rule hours_since_old)
      then show ?thesis unfolding c by (simp only: heat_value_old)
    qed
  qed
  have 2: "\<exists>k. calculate_heat_score user_id now s = Inr (binary64 (of_int k / 100))
              \<and> (\<not> 24 < hours_since \<longrightarrow>
                   \<bar>of_int k / 100 - fl_mul (fl_of_int (invites_successful u))
                                           (fl_div (fl_sub 24 hours_since) 24)\<bar> \<le> 1 / 200)"
  proof (cases "24 < hours_since")
    case True
    then have "calculate_heat_score user_id now s = Inr (binary64 (of_int 0 / 100))"
      unfolding c by (simp add: binary64_0)
    with True show ?thesis by blast
  next
    case False
    from fl_round2_hundredths
    obtain k where "?v = binary64 (of_int k / 100)"
      "\<bar>of_int k / 100 - fl_mul (fl_of_int (invites_successful u))
                                (fl_div (fl_sub 24 hours_since) 24)\<bar> \<le> 1 / 200"
      by blast
    with False show ?thesis unfolding c by auto
  qed
  have 3: "invites_successful u = 5 \<and> now - last_success = 43200
            \<longrightarrow> calculate_heat_score user_id now s = Inr (5 / 2)"
    unfolding c assms(3) by (auto simp add: heat_value_5_12)
  have 4: "invites_successful u = 1 \<and> now - last_success = 432
            \<longrightarrow> calculate_heat_score user_id now s = Inr (4458563631096791 / 4503599627370496)"
    unfolding c assms(3) by (auto simp add: heat_value_1_432)
  show ?thesis using 1 2 3 4 c by simp
qed

lemma heat_modular:
  assumes "user_cache a telegram_id = Some c"
    and "last_success = (case c_last_invite_success c of None \<Rightarrow> 0 | Some t \<Rightarrow> t)"
    and "hours_since = fl_div (fl_sub now last_success) 3600"
  shows "(c_invites_successful c = 0 \<or> 86400 \<le> now - last_success
            \<longrightarrow> um_calculate_heat_score telegram_id now a = 0)
       \<and> (24 < hours_since \<longrightarrow> um_calculate_heat_score telegram_id now a = 0)
       \<and> (\<not> 24 < hours_since \<longrightarrow> um_calculate_heat_score telegram_id now a =
             fl_round2 (fl_mul (fl_of_int (c_invites_successful c))
                              (fl_div (fl_sub 24 hours_since) 24)))
       \<and> (\<exists>k. um_calculate_heat_score telegram_id now a = binary64 (of_int k / 100)
              \<and> (\<not> 24 < hours_since \<longrightarrow>
                   \<bar>of_int k / 100 - fl_mul (fl_of_int (c_invites_successful c))
                                           (fl_div (fl_sub 24 hours_since) 24)\<bar> \<le> 1 / 200))
       \<and> (c_invites_successful c = 5 \<and> now - last_success = 43200
            \<longrightarrow> um_calculate_heat_score telegram_id now a = 5 / 2)
       \<and> (c_invites_successful c = 1 \<and> now - last_success = 432
            \<longrightarrow> um_calculate_heat_score telegram_id now a = 4458563631096791 / 4503599627370496)"
proof -
  let ?v = "fl_round2 (fl_mul (fl_of_int (c_invites_successful c)) (fl_div (fl_sub 24 hours_since) 24))"
  have c: "um_calculate_heat_score telegram_id now a = (if 24 < hours_since then 0 else ?v)"
    using assms by (simp add: um_calculate_heat_score_def HEAT_DECAY_HOURS_def Let_def)
  have 1: "c_invites_successful c = 0 \<or> 86400 \<le> now - last_success
            \<longrightarrow> um_calculate_heat_score telegram_id now a = 0"
  proof
    assume "c_invites_successful c = 0 \<or> 86400 \<le> now - last_success"
    then show "um_calculate_heat_score telegram_id now a = 0"
    proof
      assume "c_invites_successful c = 0"
      then show ?thesis unfolding c by (simp add: heat_value_no_invites)
    next
      assume "86400 \<le> now - last_success"
      then have "24 \<le> hours_since" unfolding assms(3) by (rule hours_since_old)
      then show ?thesis unfolding c by (simp only: heat_value_old)
    qed
  qed
  have 2: "\<exists>k. um_calculate_heat_score telegram_id now a = binary64 (of_int k / 100)
              \<and> (\<not> 24 < hours_since \<longrightarrow>
                   \<bar>of_int k / 100 - fl_mul (fl_of_int (c_invites_successful c))
                                           (fl_div (fl_sub 24 hours_since) 24)\<bar> \<le> 1 / 200)"
  proof (cases "24 < hours_since")
    case True
    then have "um_calculate_heat_score telegram_id now a = binary64 (of_int 0 / 100)"
      unfolding c by (simp add: binary64_0)
    with True show ?thesis by blast
  next
    case False
    from fl_round2_hundredths
    obtain k where "?v = binary64 (of_int k / 100)"
      "\<bar>of_int k / 100 - fl_mul (fl_of_int (c_invites_successful c))
                                (fl_div (fl_sub 24 hours_since) 24)\<bar> \<le> 1 / 200"
      by blast
    with False show ?thesis unfolding c by auto
  qed
  have 3: "c_invites_successful c = 5 \<and> now - last_success = 43200
            \<longrightarrow> um_calculate_heat_score telegram_id now a = 5 / 2"
    unfolding c assms(3) by (auto simp add: heat_value_5_12)
  have 4: "c_invites_successful c = 1 \<and> now - last_success = 432
            \<longrightarrow> um_calculate_heat_score telegram_id now a = 4458563631096791 / 4503599627370496"
    unfolding c assms(3) by (auto simp add: heat_value_1_432)
  show ?thesis using 1 2 3 4 c by simp
qed

text \<open>
  C6. The heat score is 0 for an account without a successful invite (its counter is 0,
  and with no stored \<^verbatim>\<open>last_invite_success\<close> the default 0 lies 24 hours before every
  clock reading after 2 January 1970) and for one whose last success is 24 hours old or
  older. Otherwise it is \<open>round(invites_successful * (24 - hours_since) / 24, 2)\<close> as the
  code computes it, in doubles: the hours, the decay and the product are each rounded to
  the nearest double, and the score is the double nearest to a number of hundredths that
  lies within half a hundredth of the product. With 5 successful invites and a last
  success exactly 12 hours ago the score is 2.5. With 1 invite and a last success 432
  seconds ago the product falls just below 0.995 and the score is the double that prints
  as 0.99. Both programs; the modular program never stores a last success (the statement
  that would raises NameError), so for it the cases with a stored one speak of the
  function \<open>calculate_heat_score\<close> alone.
\<close>

theorem heat_score_linear_decay:
  assumes "users s user_id = Some u"
    and "last_success = (case last_invite_success u of None \<Rightarrow> 0 | Some t \<Rightarrow> t)"
    and "hours_since = fl_div (fl_sub now last_success) 3600"
    and "user_cache a telegram_id = Some c"
    and "m_last_success = (case c_last_invite_success c of None \<Rightarrow> 0 | Some t \<Rightarrow> t)"
    and "m_hours_since = fl_div (fl_sub now m_last_success) 3600"
  shows "((invites_successful u = 0 \<or> 86400 \<le> now - last_success
            \<longrightarrow> calculate_heat_score user_id now s = Inr 0)
       \<and> (24 < hours_since \<longrightarrow> calculate_heat_score user_id now s = Inr 0)
       \<and> (\<not> 24 < hours_since \<longrightarrow> calculate_heat_score user_id now s =
             Inr (fl_round2 (fl_mul (fl_of_int (invites_successful u))
                                   (fl_div (fl_sub 24 hours_since) 24))))
       \<and> (\<exists>k. calculate_heat_score user_id now s = Inr (binary64 (of_int k / 100))
              \<and> (\<not> 24 < hours_since \<longrightarrow>
                   \<bar>of_int k / 100 - fl_mul (fl_of_int (invites_successful u))
                                           (fl_div (fl_sub 24 hours_since) 24)\<bar> \<le> 1 / 200))
       \<and> (invites_successful u = 5 \<and> now - last_success = 43200
            \<longrightarrow> calculate_heat_score user_id now s = Inr (5 / 2))
       \<and> (invites_successful u = 1 \<and> now - last_success = 432
            \<longrightarrow> calculate_heat_score user_id now s = Inr (4458563631096791 / 4503599627370496)))
     \<and> ((c_invites_successful c = 0 \<or> 86400 \<le> now - m_last_success
            \<longrightarrow> um_calculate_heat_score telegram_id now a = 0)
       \<and> (24 < m_hours_since \<longrightarrow> um_calculate_heat_score telegram_id now a = 0)
       \<and> (\<not> 24 < m_hours_since \<longrightarrow> um_calculate_heat_score telegram_id now a =
             fl_round2 (fl_mul (fl_of_int (c_invites_successful c))
                              (fl_div (fl_sub 24 m_hours_since) 24)))
       \<and> (\<exists>k. um_calculate_heat_score telegram_id now a = binary64 (of_int k / 100)
              \<and> (\<not> 24 < m_hours_since \<longrightarrow>
                   \<bar>of_int k / 100 - fl_mul (fl_of_int (c_invites_successful c))
                                           (fl_div (fl_sub 24 m_hours_since) 24)\<bar> \<le> 1 / 200))
       \<and> (c_invites_successful c = 5 \<and> now - m_last_success = 43200
            \<longrightarrow> um_calculate_heat_score telegram_id now a = 5 / 2)
       \<and> (c_invites_successful c = 1 \<and> now - m_last_success = 432
            \<longrightarrow> um_calculate_heat_score telegram_id now a = 4458563631096791 / 4503599627370496))"
  using heat_monolith [OF assms(1-3)] heat_modular [OF assms(4-6)] by (rule conjI)

theorem heat_score_linear_decay_witness:
  "calculate_heat_score ''42'' 1700043200
     (initialize_data\<lparr>users := [''42'' \<mapsto>
        new_user\<lparr>invites_successful := 5, last_invite_success := Some 1700000000\<rparr>]\<rparr>) = Inr (5 / 2)
   \<and> calculate_heat_score ''42'' 1700086400
     (initialize_data\<lparr>users := [''42'' \<mapsto>
        new_user\<lparr>invites_successful := 5, last_invite_success := Some 1700000000\<rparr>]\<rparr>) = Inr 0
   \<and> calculate_heat_score ''7'' 1700000432
     (initialize_data\<lparr>users := [''7'' \<mapsto>
        new_user\<lparr>invites_successful := 1, last_invite_success := Some 1700000000\<rparr>]\<rparr>)
       = Inr (4458563631096791 / 4503599627370496)
   \<and> 4458563631096791 / 4503599627370496 = binary64 (99 / 100)
   \<and> um_calculate_heat_score 42 1700000000
     ((new_app 0)\<lparr>user_cache := [42 \<mapsto> new_session\<lparr>c_invites_successful := 3\<rparr>]\<rparr>) = 0"
proof -
  let ?u = "new_user\<lparr>invites_successful := 5, last_invite_success := Some 1700000000\<rparr>"
  let ?s = "initialize_data\<lparr>users := [''42'' \<mapsto> ?u]\<rparr>"
  let ?v = "new_user\<lparr>invites_successful := 1, last_invite_success := Some 1700000000\<rparr>"
  let ?r = "initialize_data\<lparr>users := [''7'' \<mapsto> ?v]\<rparr>"
  let ?c = "new_session\<lparr>c_invites_successful := 3\<rparr>"
  let ?a = "(new_app 0)\<lparr>user_cache := [42 \<mapsto> ?c]\<rparr>"
  have 1: "users ?s ''42'' = Some ?u" "users ?r ''7'' = Some ?v" "user_cache ?a 42 = Some ?c"
    by simp_all
  have 2: "(1700000000::rat) = (case last_invite_success ?u of None \<Rightarrow> 0 | Some t \<Rightarrow> t)"
    "(1700000000::rat) = (case last_invite_success ?v of None \<Rightarrow> 0 | Some t \<Rightarrow> t)"
    "(0::rat) = (case c_last_invite_success ?c of None \<Rightarrow> 0 | Some t \<Rightarrow> t)"
    by (simp_all add: new_session_def)
  have 3: "binary64 (99 / 100) = 4458563631096791 / 4503599627370496"
    by (subst binary64_eval [of "- 1"]) (simp_all add: fl_eval)
  show ?thesis
    using heat_score_linear_decay [OF 1(1) 2(1) refl 1(3) 2(3) refl, of 1700043200]
      heat_score_linear_decay [OF 1(1) 2(1) refl 1(3) 2(3) refl, of 1700086400]
      heat_score_linear_decay [OF 1(2) 2(2) refl 1(3) 2(3) refl, of 1700000432]
      heat_score_linear_decay [OF 1(1) 2(1) refl 1(3) 2(3) refl, of 1700000000]
      3
    by simp
qed

section \<open>Verification\<close>

lemma verify_wrong_monolith:
  assumes "users s user_id = Some u" and "verifications s user_id = Some v"
    and "\<not> v_expires_at v < now"
    and "remove_spaces (strip ans) \<noteq> remove_spaces (answer v)"
  shows "verify_answer user_id ans now s =
           (if 3 \<le> attempts v + 1
            then (Inr (False, None),
                  s\<lparr>users := (users s)(user_id \<mapsto> u\<lparr>blacklisted_until := now + 86400\<rparr>),
                    verifications := (verifications s)(user_id := None)\<rparr>)
            else (Inr (False, None),
                  s\<lparr>verifications := (verifications s)(user_id \<mapsto> v\<lparr>attempts := attempts v + 1\<rparr>)\<rparr>))"
  using assms
  by (simp add: verify_answer_def blacklist_user_def BLACKLIST_DURATION_def Let_def)

lemma verify_none_monolith:
  "verifications s user_id = None \<Longrightarrow> verify_answer user_id ans now s = (Inr (False, None), s)"
  by (simp add: verify_answer_def)

lemma three_wrong_monolith:
  assumes u: "users s user_id = Some u"
    and v: "verifications s user_id = Some v" "attempts v = 0"
    and w: "remove_spaces (strip a1) \<noteq> remove_spaces (answer v)"
           "remove_spaces (strip a2) \<noteq> remove_spaces (answer v)"
           "remove_spaces (strip a3) \<noteq> remove_spaces (answer v)"
    and t: "\<not> v_expires_at v < t1" "\<not> v_expires_at v < t2" "\<not> v_expires_at v < t3"
    and r: "verify_answer user_id a1 t1 s = (r1, s1)"
           "verify_answer user_id a2 t2 s1 = (r2, s2)"
           "verify_answer user_id a3 t3 s2 = (r3, s3)"
  shows "r1 = Inr (False, None) \<and> verifications s1 user_id = Some (v\<lparr>attempts := 1\<rparr>)
       \<and> r2 = Inr (False, None) \<and> verifications s2 user_id = Some (v\<lparr>attempts := 2\<rparr>)
       \<and> r3 = Inr (False, None) \<and> verifications s3 user_id = None
       \<and> map_option blacklisted_until (users s3 user_id) = Some (t3 + 86400)
       \<and> verify_answer user_id a4 t4 s3 = (Inr (False, None), s3)"
proof -
  have 1: "r1 = Inr (False, None)"
    "s1 = s\<lparr>verifications := (verifications s)(user_id \<mapsto> v\<lparr>attempts := 1\<rparr>)\<rparr>"
    using r(1) verify_wrong_monolith [OF u v(1) t(1) w(1)] v(2) by auto
  have u1: "users s1 user_id = Some u" and v1: "verifications s1 user_id = Some (v\<lparr>attempts := 1\<rparr>)"
    using 1 u by auto
  have 2: "r2 = Inr (False, None)"
    "s2 = s1\<lparr>verifications := (verifications s1)(user_id \<mapsto> v\<lparr>attempts := 2\<rparr>)\<rparr>"
    using r(2) verify_wrong_monolith [OF u1 v1, of t2 a2] t(2) w(2) by auto
  have u2: "users s2 user_id = Some u" and v2: "verifications s2 user_id = Some (v\<lparr>attempts := 2\<rparr>)"
    using 2 u1 by auto
  have 3: "r3 = Inr (False, None)"
    "s3 = s2\<lparr>users := (users s2)(user_id \<mapsto> u\<lparr>blacklisted_until := t3 + 86400\<rparr>),
             verifications := (verifications s2)(user_id := None)\<rparr>"
    using r(3) verify_wrong_monolith [OF u2 v2, of t3 a3] t(3) w(3) by auto
  have v3: "verifications s3 user_id = None" using 3 by simp
  show ?thesis
    using 1 v1 2 v2 3 v3 verify_none_monolith [OF v3] by simp
qed

lemma verify_wrong_modular:
  assumes "user_cache a telegram_id = Some c" and "verification_cache a telegram_id = Some v"
    and "\<not> v_expires_at v < now"
    and "remove_spaces (strip ans) \<noteq> remove_spaces (answer v)"
  shows "um_verify_answer telegram_id ans now a =
           (if 3 \<le> attempts v + 1
            then ((False, None),
                  a\<lparr>user_cache := (user_cache a)(telegram_id \<mapsto> c\<lparr>c_blacklisted_until := now + 86400\<rparr>),
                    verification_cache := (verification_cache a)(telegram_id := None)\<rparr>)
            else ((False, None),
                  a\<lparr>verification_cache := (verification_cache a)(telegram_id \<mapsto> v\<lparr>attempts := attempts v + 1\<rparr>)\<rparr>))"
  using assms
  by (simp add: um_verify_answer_def um_blacklist_user_def BLACKLIST_DURATION_def Let_def)

lemma verify_none_modular:
  "verification_cache a telegram_id = None \<Longrightarrow> um_verify_answer telegram_id ans now a = ((False, None), a)"
  by (simp add: um_verify_answer_def)

lemma three_wrong_modular:
  assumes u: "user_cache a telegram_id = Some c"
    and v: "verification_cache a telegram_id = Some v" "attempts v = 0"
    and w: "remove_spaces (strip a1) \<noteq> remove_spaces (answer v)"
           "remove_spaces (strip a2) \<noteq> remove_spaces (answer v)"
           "remove_spaces (strip a3) \<noteq> remove_spaces (answer v)"
    and t: "\<not> v_expires_at v < t1" "\<not> v_expires_at v < t2" "\<not> v_expires_at v < t3"
    and r: "um_verify_answer telegram_id a1 t1 a = (r1, b1)"
           "um_verify_answer telegram_id a2 t2 b1 = (r2, b2)"
           "um_verify_answer telegram_id a3 t3 b2 = (r3, b3)"
  shows "r1 = (False, None) \<and> verification_cache b1 telegram_id = Some (v\<lparr>attempts := 1\<rparr>)
       \<and> r2 = (False, None) \<and> verification_cache b2 telegram_id = Some (v\<lparr>attempts := 2\<rparr>)
       \<and> r3 = (False, None) \<and> verification_cache b3 telegram_id = None
       \<and> map_option c_blacklisted_until (user_cache b3 telegram_id) = Some (t3 + 86400)
       \<and> um_verify_answer telegram_id a4 t4 b3 = ((False, None), b3)"
proof -
  have 1: "r1 = (False, None)"
    "b1 = a\<lparr>verification_cache := (verification_cache a)(telegram_id \<mapsto> v\<lparr>attempts := 1\<rparr>)\<rparr>"
    using r(1) verify_wrong_modular [OF u v(1) t(1) w(1)] v(2) by auto
  have u1: "user_cache b1 telegram_id = Some c"
    and v1: "verification_cache b1 telegram_id = Some (v\<lparr>attempts := 1\<rparr>)"
    using 1 u by auto
  have 2: "r2 = (False, None)"
    "b2 = b1\<lparr>verification_cache := (verification_cache b1)(telegram_id \<mapsto> v\<lparr>attempts := 2\<rparr>)\<rparr>"
    using r(2) verify_wrong_modular [OF u1 v1, of t2 a2] t(2) w(2) by auto
  have u2: "user_cache b2 telegram_id = Some c"
    and v2: "verification_cache b2 telegram_id = Some (v\<lparr>attempts := 2\<rparr>)"
    using 2 u1 by auto
  have 3: "r3 = (False, None)"
    "b3 = b2\<lparr>user_cache := (user_cache b2)(telegram_id \<mapsto> c\<lparr>c_blacklisted_until := t3 + 86400\<rparr>),
             verification_cache := (verification_cache b2)(telegram_id := None)\<rparr>"
    using r(3) verify_wrong_modular [OF u2 v2, of t3 a3] t(3) w(3) by auto
  have v3: "verification_cache b3 telegram_id = None" using 3 by simp
  show ?thesis
    using 1 v1 2 v2 3 v3 verify_none_modular [OF v3] by simp
qed

text \<open>
  C4. For an account with a pending, unexpired challenge (no attempt counted yet), the
  first and the second wrong answer leave the challenge pending with the attempt counter
  at 1 and 2; the third wrong answer discards the challenge and sets
  \<open>blacklisted_until\<close> to the time of that answer plus 24 hours; any fourth submission,
  the expected sequence itself included, returns not verified and no invite code, and
  changes nothing. Both programs.
\<close>

theorem three_wrong_answers_blacklist:
  assumes "users s user_id = Some u"
    and "verifications s user_id = Some v" and "attempts v = 0"
    and "remove_spaces (strip a1) \<noteq> remove_spaces (answer v)"
    and "remove_spaces (strip a2) \<noteq> remove_spaces (answer v)"
    and "remove_spaces (strip a3) \<noteq> remove_spaces (answer v)"
    and "\<not> v_expires_at v < t1" and "\<not> v_expires_at v < t2" and "\<not> v_expires_at v < t3"
    and "verify_answer user_id a1 t1 s = (r1, s1)"
    and "verify_answer user_id a2 t2 s1 = (r2, s2)"
    and "verify_answer user_id a3 t3 s2 = (r3, s3)"
    and "user_cache a telegram_id = Some c"
    and "verification_cache a telegram_id = Some v" 
    and "um_verify_answer telegram_id a1 t1 a = (q1, b1)"
    and "um_verify_answer telegram_id a2 t2 b1 = (q2, b2)"
    and "um_verify_answer telegram_id a3 t3 b2 = (q3, b3)"
  shows "(r1 = Inr (False, None) \<and> verifications s1 user_id = Some (v\<lparr>attempts := 1\<rparr>)
       \<and> r2 = Inr (False, None) \<and> verifications s2 user_id = Some (v\<lparr>attempts := 2\<rparr>)
       \<and> r3 = Inr (False, None) \<and> verifications s3 user_id = None
       \<and> map_option blacklisted_until (users s3 user_id) = Some (t3 + 86400)
       \<and> verify_answer user_id a4 t4 s3 = (Inr (False, None), s3))
     \<and> (q1 = (False, None) \<and> verification_cache b1 telegram_id = Some (v\<lparr>attempts := 1\<rparr>)
       \<and> q2 = (False, None) \<and> verification_cache b2 telegram_id = Some (v\<lparr>attempts := 2\<rparr>)
       \<and> q3 = (False, None) \<and> verification_cache b3 telegram_id = None
       \<and> map_option c_blacklisted_until (user_cache b3 telegram_id) = Some (t3 + 86400)
       \<and> um_verify_answer telegram_id a4 t4 b3 = ((False, None), b3))"
  using three_wrong_monolith [OF assms(1-12)] three_wrong_modular [OF assms(13,14,3-9,15-17)]
  by blast
theorem three_wrong_answers_blacklist_witness:
  "(let s = initialize_data\<lparr>users := [''42'' \<mapsto> new_user], verifications := [''42'' \<mapsto> pending_example]\<rparr>;
        s1 = snd (verify_answer ''42'' [0x41] 900 s);
        s2 = snd (verify_answer ''42'' [0x42] 910 s1);
        s3 = snd (verify_answer ''42'' [0x43] 920 s2)
    in map_option attempts (verifications s1 ''42'') = Some 1
     \<and> map_option attempts (verifications s2 ''42'') = Some 2
     \<and> verifications s3 ''42'' = None
     \<and> map_option blacklisted_until (users s3 ''42'') = Some 87320
     \<and> verify_answer ''42'' (answer pending_example) 930 s3 = (Inr (False, None), s3))
   \<and> (let a = (new_app 0)\<lparr>user_cache := [42 \<mapsto> new_session], verification_cache := [42 \<mapsto> pending_example]\<rparr>;
        b1 = snd (um_verify_answer 42 [0x41] 900 a);
        b2 = snd (um_verify_answer 42 [0x42] 910 b1);
        b3 = snd (um_verify_answer 42 [0x43] 920 b2)
    in verification_cache b3 42 = None
     \<and> map_option c_blacklisted_until (user_cache b3 42) = Some 87320
     \<and> um_verify_answer 42 (answer pending_example) 930 b3 = ((False, None), b3))"
proof -
  define s where "s = initialize_data\<lparr>users := [''42'' \<mapsto> new_user], verifications := [''42'' \<mapsto> pending_example]\<rparr>"
  define a where "a = (new_app 0)\<lparr>user_cache := [42 \<mapsto> new_session], verification_cache := [42 \<mapsto> pending_example]\<rparr>"
  have ws: "remove_spaces (strip [0x41]) \<noteq> remove_spaces (answer pending_example)"
     "remove_spaces (strip [0x42]) \<noteq> remove_spaces (answer pending_example)"
     "remove_spaces (strip [0x43]) \<noteq> remove_spaces (answer pending_example)"
    by (simp_all add: pending_example_def emojis_def remove_spaces_def strip_def py_isspace_def)
  have ts: "\<not> v_expires_at pending_example < 900" "\<not> v_expires_at pending_example < 910"
      "\<not> v_expires_at pending_example < 920" "attempts pending_example = 0"
    by (simp_all add: pending_example_def)
  have us: "users s ''42'' = Some new_user" "verifications s ''42'' = Some pending_example"
     "user_cache a 42 = Some new_session" "verification_cache a 42 = Some pending_example"
    by (simp_all add: s_def a_def)
  note th = three_wrong_answers_blacklist [OF us(1) us(2) ts(4) ws ts(1-3) surjective_pairing surjective_pairing surjective_pairing
      us(3) us(4) surjective_pairing surjective_pairing surjective_pairing, of "answer pending_example" 930]
  show ?thesis
    unfolding Let_def s_def [symmetric] a_def [symmetric]
    using th by simp
qed

text \<open>
  C10. For an account that is not blacklisted, \<open>create_verification\<close> replaces a pending
  challenge, whatever its attempt counter, by a new one: the expected answer is the newly
  sampled sequence of 4 different symbols of the palette, \<open>expires_at\<close> is the clock
  reading plus 300 seconds, and the attempt counter is 0. Both programs.
\<close>

theorem create_verification_replaces_pending:
  assumes "users s user_id = Some u" and "\<not> now < blacklisted_until u"
    and "verifications s user_id = Some old"
    and "is_sample emojis 4 selected"
    and "\<not> um_is_blacklisted telegram_id now a"
    and "verification_cache a telegram_id = Some old'"
    and "is_sample um_emojis 4 selected'"
  shows "(fst (create_verification user_id code now selected s) =
            Inr (Some (str_of ''Type these emojis in order: '' @ join [0x20] selected))
        \<and> verifications (snd (create_verification user_id code now selected s)) user_id =
            Some \<lparr>answer = concat selected, invite_code = code,
                  v_expires_at = now + 300, attempts = 0\<rparr>)
       \<and> (fst (um_create_verification telegram_id code' now selected' a) =
            Some (str_of ''Type these emojis in order: '' @ join [0x20] selected')
        \<and> verification_cache (snd (um_create_verification telegram_id code' now selected' a)) telegram_id =
            Some \<lparr>answer = concat selected', invite_code = code',
                  v_expires_at = now + 300, attempts = 0\<rparr>)"
  using assms
  by (simp add: create_verification_def is_blacklisted_def um_create_verification_def
      VERIFICATION_TIMEOUT_def Let_def)
theorem create_verification_replaces_pending_witness:
  "verifications (snd (create_verification ''42'' ''LOVE99887766'' 950 (drop 4 emojis)
       (initialize_data\<lparr>users := [''42'' \<mapsto> new_user], verifications := [''42'' \<mapsto> half_used]\<rparr>))) ''42''
     = Some \<lparr>answer = [0x1F49D, 0x1F498, 0x1F49C, 0x1F499], invite_code = ''LOVE99887766'',
             v_expires_at = 1250, attempts = 0\<rparr>
   \<and> verification_cache (snd (um_create_verification 42 ''LOVE99887766'' 950 (drop 4 um_emojis)
       ((new_app 0)\<lparr>user_cache := [42 \<mapsto> new_session], verification_cache := [42 \<mapsto> half_used]\<rparr>))) 42
     = Some \<lparr>answer = concat (drop 4 um_emojis), invite_code = ''LOVE99887766'',
             v_expires_at = 1250, attempts = 0\<rparr>"
proof -
  have h: "is_sample emojis 4 (drop 4 emojis)" "is_sample um_emojis 4 (drop 4 um_emojis)"
    by (simp_all add: is_sample_def emojis_def um_emojis_def)
  have b: "\<not> (950::rat) < blacklisted_until new_user"
    "\<not> um_is_blacklisted 42 950 ((new_app 0)\<lparr>user_cache := [42 \<mapsto> new_session], verification_cache := [42 \<mapsto> half_used]\<rparr>)"
    by (simp_all add: new_user_def um_is_blacklisted_def new_session_def)
  show ?thesis
    using create_verification_replaces_pending [OF _ b(1) _ h(1) b(2) _ h(2),
        of "initialize_data\<lparr>users := [''42'' \<mapsto> new_user], verifications := [''42'' \<mapsto> half_used]\<rparr>"
           "''42''" half_used half_used "''LOVE99887766''" "''LOVE99887766''"]
    by (simp add: emojis_def)
qed

section \<open>The referral relation\<close>

text \<open>The stores a handler leaves alone.\<close>

lemma init_user_frame [simp]:
  "invites (init_user u s) = invites s" "verifications (init_user u s) = verifications s"
  "relationships (init_user u s) = relationships s" "pending_wagers (init_user u s) = pending_wagers s"
  by (simp_all add: init_user_def)

lemma verify_answer_frame:
  assumes "verify_answer u ans now s = (r, s1)"
  shows "relationships s1 = relationships s \<and> invites s1 = invites s
       \<and> (\<forall>x v1. verifications s1 x = Some v1 \<longrightarrow>
             (\<exists>v. verifications s x = Some v \<and> invite_code v1 = invite_code v))
       \<and> (\<forall>c. r = Inr (True, Some c) \<longrightarrow> (\<exists>v. verifications s u = Some v \<and> invite_code v = c))"
  using assms
  by (auto simp add: verify_answer_def blacklist_user_def Let_def split: option.splits if_splits)

lemma create_verification_frame:
  assumes "create_verification u code now sel s = (r, s1)"
  shows "relationships s1 = relationships s \<and> invites s1 = invites s
       \<and> (\<forall>x v1. verifications s1 x = Some v1 \<longrightarrow>
             verifications s x = Some v1 \<or> (x = u \<and> invite_code v1 = code))"
  using assms
  by (auto simp add: create_verification_def is_blacklisted_def Let_def split: option.splits if_splits sum.splits bool.splits)

text \<open>What \<^verbatim>\<open>/start <code>\<close> does to the three stores.\<close>

lemma cmd_start_effect:
  "relationships (redeem (Start u code now sel) s) = relationships s
 \<and> invites (redeem (Start u code now sel) s) = invites s
 \<and> (\<forall>x v1. verifications (redeem (Start u code now sel) s) x = Some v1 \<longrightarrow>
        verifications s x = Some v1 \<or>
        (x = u \<and> invite_code v1 = code \<and> (\<exists>i. invites s code = Some i \<and> inviter_id i \<noteq> u)))"
proof -
  obtain r s1 where c: "create_verification u code now sel (init_user u s) = (r, s1)"
    by (cases "create_verification u code now sel (init_user u s)")
  note f = create_verification_frame [OF c, simplified]
  show ?thesis
  proof (cases "invites s code")
    case None
    then show ?thesis by (simp add: cmd_start_def Let_def)
  next
    case (Some i)
    show ?thesis
    proof (cases "\<not> active i \<or> relationships s u = Some (inviter_id i) \<or> inviter_id i = u")
      case True
      then show ?thesis using Some by (auto simp add: cmd_start_def Let_def)
    next
      case False
      then have "redeem (Start u code now sel) s = s1"
        using Some c by (auto simp add: cmd_start_def Let_def split: sum.splits option.splits)
      then show ?thesis using f Some False by auto
    qed
  qed
qed

text \<open>
  What an answer does to the three stores: the bookkeeping of the challenge only, or the
  recording of the parent for an account that has none.
\<close>

lemma answer_effect:
  assumes c: "verify_answer u (strip msg) now (init_user u s) = (r, s1)"
  shows "redeem (Answer u msg now ok) s = s1
       \<or> (\<exists>code i. r = Inr (True, Some code) \<and> invites s code = Some i \<and> relationships s u = None
            \<and> redeem (Answer u msg now ok) s =
                s1\<lparr>invites := (invites s1)(code \<mapsto>
                       i\<lparr>total_uses := total_uses i + 1, used_by_list := used_by_list i @ [u]\<rparr>),
                   relationships := (relationships s1)(u \<mapsto> inviter_id i)\<rparr>)"
proof -
  note f = verify_answer_frame [OF c, simplified]
  show ?thesis
  proof (cases r)
    case (Inl e)
    then show ?thesis using c by (simp add: handle_private_message_def Let_def)
  next
    case (Inr vc)
    obtain verified code where vc: "vc = (verified, code)" by (cases vc)
    show ?thesis
    proof (cases "verified \<and> code \<noteq> None \<and> code \<noteq> Some []")
      case False
      then show ?thesis using c Inr vc
        by (auto simp add: handle_private_message_def Let_def split: option.splits)
    next
      case True
      then obtain cd where cd: "code = Some cd" by auto
      show ?thesis
      proof (cases "invites s cd")
        case None
        then show ?thesis using c Inr vc cd True f by (simp add: handle_private_message_def Let_def)
      next
        case (Some i)
        then show ?thesis using c Inr vc cd True f
          by (cases "relationships s u") (auto simp add: handle_private_message_def Let_def domIff)
      qed
    qed
  qed
qed

lemma redeem_stable:
  assumes "relationships s u = Some p" shows "relationships (redeem st s) u = Some p"
proof (cases st)
  case (Start user_id code now selected)
  then show ?thesis using assms cmd_start_effect [of user_id code now selected s] by simp
next
  case (Answer user_id msg now link_created)
  obtain r s1 where c: "verify_answer user_id (strip msg) now (init_user user_id s) = (r, s1)"
    by (cases "verify_answer user_id (strip msg) now (init_user user_id s)")
  note f = verify_answer_frame [OF c, simplified]
  from answer_effect [OF c, of link_created] show ?thesis
  proof
    assume "redeem (Answer user_id msg now link_created) s = s1"
    then show ?thesis using Answer f assms by simp
  next
    assume "\<exists>code i. r = Inr (True, Some code) \<and> invites s code = Some i \<and> relationships s user_id = None
            \<and> redeem (Answer user_id msg now link_created) s =
                s1\<lparr>invites := (invites s1)(code \<mapsto>
                       i\<lparr>total_uses := total_uses i + 1, used_by_list := used_by_list i @ [user_id]\<rparr>),
                   relationships := (relationships s1)(user_id \<mapsto> inviter_id i)\<rparr>"
    then show ?thesis using Answer f assms by auto
  qed
qed

lemma redeem_linkable:
  assumes "linkable s" shows "linkable (redeem st s)"
proof (cases st)
  case (Start user_id code now selected)
  note e = cmd_start_effect [of user_id code now selected s]
  have 1: "\<forall>x. relationships (redeem st s) x \<noteq> Some x"
    using assms e Start by (simp add: linkable_def)
  have 2: "inviter_id i \<noteq> x" if "verifications (redeem st s) x = Some v"
     and "invites (redeem st s) (invite_code v) = Some i" for x v i
  proof -
    from that(1) e Start have "verifications s x = Some v \<or>
        (x = user_id \<and> invite_code v = code \<and> (\<exists>i. invites s code = Some i \<and> inviter_id i \<noteq> user_id))"
      by simp
    then show ?thesis
    proof
      assume "verifications s x = Some v"
      then show ?thesis using assms that(2) e Start by (auto simp add: linkable_def)
    next
      assume "x = user_id \<and> invite_code v = code \<and> (\<exists>i. invites s code = Some i \<and> inviter_id i \<noteq> user_id)"
      then show ?thesis using that(2) e Start by auto
    qed
  qed
  show ?thesis unfolding linkable_def using 1 2 by blast
next
  case (Answer user_id msg now link_created)
  obtain r s1 where c: "verify_answer user_id (strip msg) now (init_user user_id s) = (r, s1)"
    by (cases "verify_answer user_id (strip msg) now (init_user user_id s)")
  note f = verify_answer_frame [OF c, simplified]
  have l1: "linkable s1"
    unfolding linkable_def
  proof (intro conjI allI impI)
    fix x v i assume "verifications s1 x = Some v \<and> invites s1 (invite_code v) = Some i"
    then obtain v0 where "verifications s x = Some v0" "invite_code v = invite_code v0"
       "invites s (invite_code v0) = Some i" using f by force
    then show "inviter_id i \<noteq> x" using assms by (auto simp add: linkable_def)
  next
    fix x show "relationships s1 x \<noteq> Some x" using f assms by (simp add: linkable_def)
  qed
  from answer_effect [OF c, of link_created] show ?thesis
  proof
    assume "redeem (Answer user_id msg now link_created) s = s1"
    then show ?thesis using Answer l1 by simp
  next
    assume "\<exists>code i. r = Inr (True, Some code) \<and> invites s code = Some i \<and> relationships s user_id = None
            \<and> redeem (Answer user_id msg now link_created) s =
                s1\<lparr>invites := (invites s1)(code \<mapsto>
                       i\<lparr>total_uses := total_uses i + 1, used_by_list := used_by_list i @ [user_id]\<rparr>),
                   relationships := (relationships s1)(user_id \<mapsto> inviter_id i)\<rparr>"
    then obtain code i where h: "r = Inr (True, Some code)" "invites s code = Some i"
       "redeem (Answer user_id msg now link_created) s =
                s1\<lparr>invites := (invites s1)(code \<mapsto>
                       i\<lparr>total_uses := total_uses i + 1, used_by_list := used_by_list i @ [user_id]\<rparr>),
                   relationships := (relationships s1)(user_id \<mapsto> inviter_id i)\<rparr>" by blast
    from h(1) f obtain v0 where v0: "verifications s user_id = Some v0" "invite_code v0 = code" by auto
    have ne: "inviter_id i \<noteq> user_id" using assms v0 h(2) by (auto simp add: linkable_def)
    show ?thesis
      unfolding Answer h(3) linkable_def
    proof (intro conjI allI impI)
      fix x v j
      assume a: "verifications (s1\<lparr>invites := (invites s1)(code \<mapsto>
                       i\<lparr>total_uses := total_uses i + 1, used_by_list := used_by_list i @ [user_id]\<rparr>),
                   relationships := (relationships s1)(user_id \<mapsto> inviter_id i)\<rparr>) x = Some v \<and>
                 invites (s1\<lparr>invites := (invites s1)(code \<mapsto>
                       i\<lparr>total_uses := total_uses i + 1, used_by_list := used_by_list i @ [user_id]\<rparr>),
                   relationships := (relationships s1)(user_id \<mapsto> inviter_id i)\<rparr>) (invite_code v) = Some j"
      then have vx: "verifications s1 x = Some v" by simp
      show "inviter_id j \<noteq> x"
      proof (cases "invite_code v = code")
        case True
        then have "inviter_id j = inviter_id i" using a by auto
        moreover have "invites s1 (invite_code v) = Some i" using True h(2) f by simp
        ultimately show ?thesis using l1 vx by (auto simp add: linkable_def)
      next
        case False
        then have "invites s1 (invite_code v) = Some j" using a by simp
        then show ?thesis using l1 vx by (auto simp add: linkable_def)
      qed
    next
      fix x
      show "relationships (s1\<lparr>invites := (invites s1)(code \<mapsto>
                       i\<lparr>total_uses := total_uses i + 1, used_by_list := used_by_list i @ [user_id]\<rparr>),
                   relationships := (relationships s1)(user_id \<mapsto> inviter_id i)\<rparr>) x \<noteq> Some x"
        using l1 ne by (auto simp add: linkable_def)
    qed
  qed
qed

text \<open>The same for the modular program.\<close>

lemma um_get_or_create_user_frame [simp]:
  "im_invites (snd (um_get_or_create_user u a)) = im_invites a"
  "verification_cache (snd (um_get_or_create_user u a)) = verification_cache a"
  "im_relationships (snd (um_get_or_create_user u a)) = im_relationships a"
  "im_pending_wagers (snd (um_get_or_create_user u a)) = im_pending_wagers a"
  "points_default (snd (um_get_or_create_user u a)) = points_default a"
  by (simp_all add: um_get_or_create_user_def Let_def)

lemma um_verify_answer_frame:
  assumes "um_verify_answer u ans now a = (r, a1)"
  shows "im_relationships a1 = im_relationships a \<and> im_invites a1 = im_invites a
       \<and> (\<forall>x v1. verification_cache a1 x = Some v1 \<longrightarrow>
             (\<exists>v. verification_cache a x = Some v \<and> invite_code v1 = invite_code v))
       \<and> (\<forall>c. r = (True, Some c) \<longrightarrow> (\<exists>v. verification_cache a u = Some v \<and> invite_code v = c))"
  using assms
  by (auto simp add: um_verify_answer_def um_blacklist_user_def Let_def split: option.splits if_splits)

lemma um_create_verification_frame:
  assumes "um_create_verification u code now sel a = (r, a1)"
  shows "im_relationships a1 = im_relationships a \<and> im_invites a1 = im_invites a
       \<and> (\<forall>x v1. verification_cache a1 x = Some v1 \<longrightarrow>
             verification_cache a x = Some v1 \<or> (x = u \<and> invite_code v1 = code))"
  using assms
  by (auto simp add: um_create_verification_def Let_def split: if_splits)

lemma ch_cmd_start_effect:
  "im_relationships (m_redeem (M_start u code now sel) a) = im_relationships a
 \<and> im_invites (m_redeem (M_start u code now sel) a) = im_invites a
 \<and> (\<forall>x v1. verification_cache (m_redeem (M_start u code now sel) a) x = Some v1 \<longrightarrow>
        verification_cache a x = Some v1 \<or>
        (x = u \<and> invite_code v1 = code \<and> (\<exists>i. im_invites a code = Some i \<and> inviter_id i \<noteq> u)))"
proof -
  obtain usr a0 where g: "um_get_or_create_user u a = (usr, a0)"
    by (cases "um_get_or_create_user u a")
  have f0: "im_invites a0 = im_invites a" "verification_cache a0 = verification_cache a"
    "im_relationships a0 = im_relationships a"
    using um_get_or_create_user_frame [of u a] g by simp_all
  obtain r a1 where c: "um_create_verification u code now sel a0 = (r, a1)"
    by (cases "um_create_verification u code now sel a0")
  note f = um_create_verification_frame [OF c, unfolded f0]
  show ?thesis
  proof (cases "im_invites a code")
    case None
    then show ?thesis using g f0 by (simp add: ch_cmd_start_def im_is_invite_active_def)
  next
    case (Some i)
    show ?thesis
    proof (cases "\<not> active i \<or> inviter_id i = u \<or> truthy (im_get_inviter u a0)")
      case True
      then show ?thesis using Some g f0 by (auto simp add: ch_cmd_start_def im_is_invite_active_def)
    next
      case False
      then have "m_redeem (M_start u code now sel) a = a1"
        using Some c g f0 by (auto simp add: ch_cmd_start_def im_is_invite_active_def split: option.splits)
      then show ?thesis using f Some False by auto
    qed
  qed
qed

lemma mh_answer_effect:
  assumes c: "um_verify_answer u (strip msg) now (snd (um_get_or_create_user u a)) = (r, a1)"
  shows "m_redeem (M_answer u msg now ok) a = a1
       \<or> (\<exists>code i. r = (True, Some code) \<and> im_invites a code = Some i
            \<and> \<not> truthy (im_relationships a u)
            \<and> m_redeem (M_answer u msg now ok) a =
                a1\<lparr>im_invites := (im_invites a1)(code \<mapsto>
                       i\<lparr>used_by_list := used_by_list i @ [u], total_uses := total_uses i + 1\<rparr>),
                   im_relationships := (im_relationships a1)(u \<mapsto> inviter_id i)\<rparr>)"
proof -
  obtain usr a0 where g: "um_get_or_create_user u a = (usr, a0)"
    by (cases "um_get_or_create_user u a")
  have f0: "im_invites a0 = im_invites a" "verification_cache a0 = verification_cache a"
    "im_relationships a0 = im_relationships a"
    using um_get_or_create_user_frame [of u a] g by simp_all
  have c': "um_verify_answer u (strip msg) now a0 = (r, a1)" using c g by simp
  note f = um_verify_answer_frame [OF c', unfolded f0]
  obtain verified code where vc: "r = (verified, code)" by (cases r)
  show ?thesis
  proof (cases "verified \<and> code \<noteq> None \<and> code \<noteq> Some []")
    case False
    then show ?thesis using c' g vc
      by (auto simp add: mh_handle_private_message_def split: option.splits)
  next
    case True
    then obtain cd where cd: "code = Some cd" by auto
    show ?thesis
    proof (cases "im_invites a cd")
      case None
      then show ?thesis using c' g vc cd True f
        by (simp add: mh_handle_private_message_def mh_handle_successful_verification_def)
    next
      case (Some i)
      then show ?thesis using c' g vc cd True f
        by (auto simp add: mh_handle_private_message_def mh_handle_successful_verification_def
            im_get_inviter_def im_use_invite_def)
    qed
  qed
qed

lemma m_redeem_stable:
  assumes "m_linkable a" and "im_relationships a u = Some p"
  shows "im_relationships (m_redeem st a) u = Some p"
proof (cases st)
  case (M_start user_id code now selected)
  then show ?thesis using assms ch_cmd_start_effect [of user_id code now selected a] by simp
next
  case (M_answer user_id msg now link_created)
  obtain r a1 where c: "um_verify_answer user_id (strip msg) now (snd (um_get_or_create_user user_id a)) = (r, a1)"
    by (cases "um_verify_answer user_id (strip msg) now (snd (um_get_or_create_user user_id a))")
  note f = um_verify_answer_frame [OF c, simplified]
  have t: "truthy (im_relationships a u)"
    using assms by (simp add: m_linkable_def truthy_def)
  from mh_answer_effect [OF c, of link_created] show ?thesis
  proof
    assume "m_redeem (M_answer user_id msg now link_created) a = a1"
    then show ?thesis using M_answer f assms by simp
  next
    assume "\<exists>code i. r = (True, Some code) \<and> im_invites a code = Some i
            \<and> \<not> truthy (im_relationships a user_id)
            \<and> m_redeem (M_answer user_id msg now link_created) a =
                a1\<lparr>im_invites := (im_invites a1)(code \<mapsto>
                       i\<lparr>used_by_list := used_by_list i @ [user_id], total_uses := total_uses i + 1\<rparr>),
                   im_relationships := (im_relationships a1)(user_id \<mapsto> inviter_id i)\<rparr>"
    then show ?thesis using M_answer f assms t by auto
  qed
qed

lemma m_redeem_linkable:
  assumes "m_linkable a" shows "m_linkable (m_redeem st a)"
proof (cases st)
  case (M_start user_id code now selected)
  note e = ch_cmd_start_effect [of user_id code now selected a]
  have 1: "\<forall>x p. im_relationships (m_redeem st a) x = Some p \<longrightarrow> p \<noteq> 0 \<and> p \<noteq> x"
    and 3: "\<forall>c i. im_invites (m_redeem st a) c = Some i \<longrightarrow> inviter_id i \<noteq> 0"
    using assms e M_start by (simp_all add: m_linkable_def)
  have 2: "inviter_id i \<noteq> x" if "verification_cache (m_redeem st a) x = Some v"
     and "im_invites (m_redeem st a) (invite_code v) = Some i" for x v i
  proof -
    from that(1) e M_start have "verification_cache a x = Some v \<or>
        (x = user_id \<and> invite_code v = code \<and> (\<exists>i. im_invites a code = Some i \<and> inviter_id i \<noteq> user_id))"
      by simp
    then show ?thesis
    proof
      assume "verification_cache a x = Some v"
      then show ?thesis using assms that(2) e M_start by (auto simp add: m_linkable_def)
    next
      assume "x = user_id \<and> invite_code v = code \<and> (\<exists>i. im_invites a code = Some i \<and> inviter_id i \<noteq> user_id)"
      then show ?thesis using that(2) e M_start by auto
    qed
  qed
  show ?thesis unfolding m_linkable_def using 1 2 3 by blast
next
  case (M_answer user_id msg now link_created)
  obtain r a1 where c: "um_verify_answer user_id (strip msg) now (snd (um_get_or_create_user user_id a)) = (r, a1)"
    by (cases "um_verify_answer user_id (strip msg) now (snd (um_get_or_create_user user_id a))")
  note f = um_verify_answer_frame [OF c, simplified]
  have l1: "m_linkable a1"
    unfolding m_linkable_def
  proof (intro conjI allI impI)
    fix x v i assume "verification_cache a1 x = Some v \<and> im_invites a1 (invite_code v) = Some i"
    then obtain v0 where "verification_cache a x = Some v0" "invite_code v = invite_code v0"
       "im_invites a (invite_code v0) = Some i" using f by force
    then show "inviter_id i \<noteq> x" using assms by (auto simp add: m_linkable_def)
  next
    fix cd i assume "im_invites a1 cd = Some i"
    then show "inviter_id i \<noteq> 0" using f assms by (auto simp add: m_linkable_def)
  next
    fix x p assume "im_relationships a1 x = Some p"
    then show "p \<noteq> 0" "p \<noteq> x" using f assms by (auto simp add: m_linkable_def)
  qed
  from mh_answer_effect [OF c, of link_created] show ?thesis
  proof
    assume "m_redeem (M_answer user_id msg now link_created) a = a1"
    then show ?thesis using M_answer l1 by simp
  next
    assume "\<exists>code i. r = (True, Some code) \<and> im_invites a code = Some i
            \<and> \<not> truthy (im_relationships a user_id)
            \<and> m_redeem (M_answer user_id msg now link_created) a =
                a1\<lparr>im_invites := (im_invites a1)(code \<mapsto>
                       i\<lparr>used_by_list := used_by_list i @ [user_id], total_uses := total_uses i + 1\<rparr>),
                   im_relationships := (im_relationships a1)(user_id \<mapsto> inviter_id i)\<rparr>"
    then obtain code i where h: "r = (True, Some code)" "im_invites a code = Some i"
       "m_redeem (M_answer user_id msg now link_created) a =
                a1\<lparr>im_invites := (im_invites a1)(code \<mapsto>
                       i\<lparr>used_by_list := used_by_list i @ [user_id], total_uses := total_uses i + 1\<rparr>),
                   im_relationships := (im_relationships a1)(user_id \<mapsto> inviter_id i)\<rparr>" by blast
    from h(1) f obtain v0 where v0: "verification_cache a user_id = Some v0" "invite_code v0 = code" by auto
    have ne: "inviter_id i \<noteq> user_id" "inviter_id i \<noteq> 0"
      using assms v0 h(2) by (auto simp add: m_linkable_def)
    show ?thesis
      unfolding M_answer h(3) m_linkable_def
    proof (intro conjI allI impI)
      fix x v j
      assume b: "verification_cache (a1\<lparr>im_invites := (im_invites a1)(code \<mapsto>
                       i\<lparr>used_by_list := used_by_list i @ [user_id], total_uses := total_uses i + 1\<rparr>),
                   im_relationships := (im_relationships a1)(user_id \<mapsto> inviter_id i)\<rparr>) x = Some v \<and>
                 im_invites (a1\<lparr>im_invites := (im_invites a1)(code \<mapsto>
                       i\<lparr>used_by_list := used_by_list i @ [user_id], total_uses := total_uses i + 1\<rparr>),
                   im_relationships := (im_relationships a1)(user_id \<mapsto> inviter_id i)\<rparr>) (invite_code v) = Some j"
      then have vx: "verification_cache a1 x = Some v" by simp
      show "inviter_id j \<noteq> x"
      proof (cases "invite_code v = code")
        case True
        then have "inviter_id j = inviter_id i" using b by auto
        moreover have "im_invites a1 (invite_code v) = Some i" using True h(2) f by simp
        ultimately show ?thesis using l1 vx by (auto simp add: m_linkable_def)
      next
        case False
        then have "im_invites a1 (invite_code v) = Some j" using b by simp
        then show ?thesis using l1 vx by (auto simp add: m_linkable_def)
      qed
    next
      fix cd j
      assume "im_invites (a1\<lparr>im_invites := (im_invites a1)(code \<mapsto>
                       i\<lparr>used_by_list := used_by_list i @ [user_id], total_uses := total_uses i + 1\<rparr>),
                   im_relationships := (im_relationships a1)(user_id \<mapsto> inviter_id i)\<rparr>) cd = Some j"
      then show "inviter_id j \<noteq> 0" using l1 ne
        by (cases "cd = code") (auto simp add: m_linkable_def)
    next
      fix x p
      assume "im_relationships (a1\<lparr>im_invites := (im_invites a1)(code \<mapsto>
                       i\<lparr>used_by_list := used_by_list i @ [user_id], total_uses := total_uses i + 1\<rparr>),
                   im_relationships := (im_relationships a1)(user_id \<mapsto> inviter_id i)\<rparr>) x = Some p"
      then show "p \<noteq> 0" "p \<noteq> x" using l1 ne
        by (cases "x = user_id"; auto simp add: m_linkable_def)+
    qed
  qed
qed

lemma fold_redeem_linkable: "linkable s \<Longrightarrow> linkable (fold redeem steps s)"
  by (induction steps arbitrary: s) (simp_all add: redeem_linkable)

lemma fold_redeem_stable:
  "relationships s u = Some p \<Longrightarrow> relationships (fold redeem steps s) u = Some p"
  by (induction steps arbitrary: s) (simp_all add: redeem_stable)

lemma fold_m_redeem_linkable: "m_linkable a \<Longrightarrow> m_linkable (fold m_redeem steps a)"
  by (induction steps arbitrary: a) (simp_all add: m_redeem_linkable)

lemma fold_m_redeem_stable:
  "m_linkable a \<Longrightarrow> im_relationships a u = Some p \<Longrightarrow> im_relationships (fold m_redeem steps a) u = Some p"
  by (induction steps arbitrary: a) (simp_all add: m_redeem_stable m_redeem_linkable)

text \<open>The state with the two invites is such a state.\<close>

lemma linkable_two_inviters: "linkable two_inviters" "m_linkable m_two_inviters"
  by (simp_all add: linkable_def m_linkable_def two_inviters_def m_two_inviters_def
      initialize_data_def new_app_def)

text \<open>
  C7, as amended. Started in a state where nobody is their own parent and every pending
  challenge belongs to somebody else's invite (the empty state is one), any sequence of
  redeem steps keeps these three facts: a parent pointer that is set stays as it is
  through every later step, whatever invite code the account redeems; nobody is their
  own parent; an account has at most one parent. Both programs. Nothing is said of
  longer cycles.
\<close>

theorem redeem_keeps_parent:
  assumes "linkable s" and "m_linkable a"
  shows "(\<forall>u p. relationships (fold redeem steps s) u = Some p \<longrightarrow>
            relationships (fold redeem (steps @ later) s) u = Some p)
       \<and> (\<forall>u. relationships (fold redeem steps s) u \<noteq> Some u)
       \<and> (\<forall>u p q. (u, p) \<in> parent_rel (relationships (fold redeem steps s))
               \<and> (u, q) \<in> parent_rel (relationships (fold redeem steps s)) \<longrightarrow> p = q)
       \<and> (\<forall>u p. im_relationships (fold m_redeem msteps a) u = Some p \<longrightarrow>
            im_relationships (fold m_redeem (msteps @ mlater) a) u = Some p)
       \<and> (\<forall>u. im_relationships (fold m_redeem msteps a) u \<noteq> Some u)
       \<and> (\<forall>u p q. (u, p) \<in> parent_rel (im_relationships (fold m_redeem msteps a))
               \<and> (u, q) \<in> parent_rel (im_relationships (fold m_redeem msteps a)) \<longrightarrow> p = q)"
proof -
  have l: "linkable (fold redeem steps s)" and m: "m_linkable (fold m_redeem msteps a)"
    using assms by (simp_all add: fold_redeem_linkable fold_m_redeem_linkable)
  have 1: "\<forall>u p. relationships (fold redeem steps s) u = Some p \<longrightarrow>
            relationships (fold redeem (steps @ later) s) u = Some p"
    by (simp add: fold_redeem_stable)
  have 2: "\<forall>u. relationships (fold redeem steps s) u \<noteq> Some u"
    using l by (simp add: linkable_def)
  have 3: "\<forall>u p. im_relationships (fold m_redeem msteps a) u = Some p \<longrightarrow>
            im_relationships (fold m_redeem (msteps @ mlater) a) u = Some p"
    using m by (simp add: fold_m_redeem_stable)
  have 4: "\<forall>u. im_relationships (fold m_redeem msteps a) u \<noteq> Some u"
    using m by (auto simp add: m_linkable_def)
  show ?thesis using 1 2 3 4 by (auto simp add: parent_rel_def)
qed

theorem redeem_keeps_parent_witness:
  "relationships (fold redeem
      ([Start ''3'' ''LOVEAAAAAAAA'' 1000 (take 4 emojis), Answer ''3'' (concat (take 4 emojis)) 1010 True]
       @ [Start ''3'' ''LOVEBBBBBBBB'' 1020 (drop 4 emojis), Answer ''3'' (concat (drop 4 emojis)) 1030 True])
      two_inviters) ''3'' = Some ''1''
   \<and> im_relationships (fold m_redeem
      ([M_start 3 ''LOVEAAAAAAAA'' 1000 (take 4 um_emojis), M_answer 3 (concat (take 4 um_emojis)) 1010 True]
       @ [M_start 3 ''LOVEBBBBBBBB'' 1020 (drop 4 um_emojis), M_answer 3 (concat (drop 4 um_emojis)) 1030 True])
      m_two_inviters) 3 = Some 1"
proof -
  have 1: "relationships (fold redeem
      [Start ''3'' ''LOVEAAAAAAAA'' 1000 (take 4 emojis), Answer ''3'' (concat (take 4 emojis)) 1010 True]
      two_inviters) ''3'' = Some ''1''"
    by (simp add: two_inviters_def initialize_data_def new_user_def cmd_start_def init_user_def
      create_verification_def is_blacklisted_def handle_private_message_def verify_answer_def
      Let_def emojis_def strip_def remove_spaces_def py_isspace_def VERIFICATION_TIMEOUT_def)
  have 2: "im_relationships (fold m_redeem
      [M_start 3 ''LOVEAAAAAAAA'' 1000 (take 4 um_emojis), M_answer 3 (concat (take 4 um_emojis)) 1010 True]
      m_two_inviters) 3 = Some 1"
    by (simp add: m_two_inviters_def new_app_def new_session_def ch_cmd_start_def
      um_get_or_create_user_def im_is_invite_active_def im_get_inviter_def truthy_def
      um_create_verification_def um_is_blacklisted_def mh_handle_private_message_def
      um_verify_answer_def mh_handle_successful_verification_def im_use_invite_def
      Let_def um_emojis_def strip_def remove_spaces_def py_isspace_def VERIFICATION_TIMEOUT_def)
  show ?thesis
    using redeem_keeps_parent [OF linkable_two_inviters, 
        of "[Start ''3'' ''LOVEAAAAAAAA'' 1000 (take 4 emojis), Answer ''3'' (concat (take 4 emojis)) 1010 True]"
           "[Start ''3'' ''LOVEBBBBBBBB'' 1020 (drop 4 emojis), Answer ''3'' (concat (drop 4 emojis)) 1030 True]"
           "[M_start 3 ''LOVEAAAAAAAA'' 1000 (take 4 um_emojis), M_answer 3 (concat (take 4 um_emojis)) 1010 True]"
           "[M_start 3 ''LOVEBBBBBBBB'' 1020 (drop 4 um_emojis), M_answer 3 (concat (drop 4 um_emojis)) 1030 True]"]
      1 2
    by blast
qed

lemma two_inviters_cycle:
  "fold redeem
     [Start ''2'' ''LOVEAAAAAAAA'' 1000 (take 4 emojis), Answer ''2'' (concat (take 4 emojis)) 1010 True,
      Start ''1'' ''LOVEBBBBBBBB'' 1020 (take 4 emojis), Answer ''1'' (concat (take 4 emojis)) 1030 True]
     two_inviters
   = two_inviters
       \<lparr>invites :=
          [''LOVEAAAAAAAA'' \<mapsto>
             \<lparr>inviter_id = ''1'', group_id = - 1001, active = True, total_uses = 1, used_by_list = [''2'']\<rparr>,
           ''LOVEBBBBBBBB'' \<mapsto>
             \<lparr>inviter_id = ''2'', group_id = - 1001, active = True, total_uses = 1, used_by_list = [''1'']\<rparr>],
        relationships := [''2'' \<mapsto> ''1'', ''1'' \<mapsto> ''2'']\<rparr>"
  by (simp add: two_inviters_def initialize_data_def new_user_def cmd_start_def init_user_def
      create_verification_def is_blacklisted_def handle_private_message_def verify_answer_def
      Let_def emojis_def strip_def remove_spaces_def py_isspace_def VERIFICATION_TIMEOUT_def fun_upd_twist)

lemma m_two_inviters_cycle:
  "im_relationships (fold m_redeem
     [M_start 2 ''LOVEAAAAAAAA'' 1000 (take 4 um_emojis), M_answer 2 (concat (take 4 um_emojis)) 1010 True,
      M_start 1 ''LOVEBBBBBBBB'' 1020 (take 4 um_emojis), M_answer 1 (concat (take 4 um_emojis)) 1030 True]
     m_two_inviters)
   = [2 \<mapsto> 1, 1 \<mapsto> 2]"
  by (simp add: m_two_inviters_def new_app_def new_session_def ch_cmd_start_def
      um_get_or_create_user_def im_is_invite_active_def im_get_inviter_def truthy_def
      um_create_verification_def um_is_blacklisted_def mh_handle_private_message_def
      um_verify_answer_def mh_handle_successful_verification_def im_use_invite_def
      Let_def um_emojis_def strip_def remove_spaces_def py_isspace_def VERIFICATION_TIMEOUT_def)

text \<open>
  C7 as stated fails: no handler looks further than the direct parent. When account 2
  redeems the invite of account 1 and account 1 then redeems the invite of account 2,
  each is the parent of the other, so each is its own ancestor. Both programs.
\<close>

theorem redeem_admits_cycle:
  "linkable two_inviters
   \<and> (''1'', ''1'') \<in> (parent_rel (relationships (fold redeem
        [Start ''2'' ''LOVEAAAAAAAA'' 1000 (take 4 emojis), Answer ''2'' (concat (take 4 emojis)) 1010 True,
         Start ''1'' ''LOVEBBBBBBBB'' 1020 (take 4 emojis), Answer ''1'' (concat (take 4 emojis)) 1030 True]
        two_inviters)))\<^sup>+
   \<and> m_linkable m_two_inviters
   \<and> (1, 1) \<in> (parent_rel (im_relationships (fold m_redeem
        [M_start 2 ''LOVEAAAAAAAA'' 1000 (take 4 um_emojis), M_answer 2 (concat (take 4 um_emojis)) 1010 True,
         M_start 1 ''LOVEBBBBBBBB'' 1020 (take 4 um_emojis), M_answer 1 (concat (take 4 um_emojis)) 1030 True]
        m_two_inviters)))\<^sup>+"
proof -
  have "(''1'', ''2'') \<in> parent_rel [''2'' \<mapsto> ''1'', ''1'' \<mapsto> ''2'']"
    and "(''2'', ''1'') \<in> parent_rel [''2'' \<mapsto> ''1'', ''1'' \<mapsto> ''2'']"
    by (simp_all add: parent_rel_def)
  then have 1: "(''1'', ''1'') \<in> (parent_rel [''2'' \<mapsto> ''1'', ''1'' \<mapsto> ''2''])\<^sup>+"
    by (rule trancl_trans [OF r_into_trancl r_into_trancl])
  have "(1, 2) \<in> parent_rel [2 \<mapsto> 1, 1 \<mapsto> (2::int)]"
    and "(2, 1) \<in> parent_rel [2 \<mapsto> 1, 1 \<mapsto> (2::int)]"
    by (simp_all add: parent_rel_def)
  then have 2: "(1, 1) \<in> (parent_rel [2 \<mapsto> 1, 1 \<mapsto> (2::int)])\<^sup>+"
    by (rule trancl_trans [OF r_into_trancl r_into_trancl])
  show ?thesis
    unfolding two_inviters_cycle m_two_inviters_cycle
    using 1 2 linkable_two_inviters by simp
qed

section \<open>The invite streak\<close>

text \<open>
  The monolith does what C8 asks for, for an account whose streak key exists or whose
  first invite succeeds a day or more after the epoch: the streak is incremented within
  24 hours of the last success and set to 1 otherwise, and the time of the success is
  stored.
\<close>

lemma update_invite_streak_conforms:
  assumes "users s user_id = Some u"
    and "invite_streak u = None \<longrightarrow> last_invite_success u = None \<and> 86400 \<le> now"
  shows "fst (update_invite_streak user_id now s) = Inr ()
       \<and> map_option invite_streak (users (snd (update_invite_streak user_id now s)) user_id) =
           Some (Some (if now - (case last_invite_success u of None \<Rightarrow> 0 | Some t \<Rightarrow> t) < 86400
                       then (case invite_streak u of None \<Rightarrow> 0 | Some k \<Rightarrow> k) + 1 else 1))
       \<and> map_option last_invite_success (users (snd (update_invite_streak user_id now s)) user_id) =
           Some (Some now)"
  using assms
  by (cases "invite_streak u"; cases "last_invite_success u")
     (auto simp add: update_invite_streak_def calculate_heat_score_def Let_def HEAT_DECAY_HOURS_def
           split: option.splits sum.splits)

text \<open>
  The reward of a streak of 1: \<open>1 * (1 + 1 * 0.1)\<close> in doubles, the double that prints
  as 1.1.
\<close>

lemma streak_bonus_1:
  "fl_mul 1 (fl_add 1 (fl_mul (fl_of_int 1) STREAK_BONUS_MULTIPLIER)) =
     2476979795053773 / 2251799813685248"
proof -
  have 1: "fl_mul (fl_of_int 1) STREAK_BONUS_MULTIPLIER = 3602879701896397 / 36028797018963968"
    by (simp add: fl_mul_def fl_of_int_def STREAK_BONUS_MULTIPLIER_def binary64_1 binary64_idem)
      (simp add: binary64_tenth)
  have 2: "fl_add 1 (3602879701896397 / 36028797018963968) = 2476979795053773 / 2251799813685248"
    unfolding fl_add_def by (subst binary64_eval [of 0]) (simp_all add: fl_eval)
  have 3: "fl_mul 1 (2476979795053773 / 2251799813685248) = 2476979795053773 / 2251799813685248"
    unfolding fl_mul_def
    using binary64_exact [of "2476979795053773 / 2251799813685248" 2476979795053773 "- 51"]
    by (simp add: power_int_minus_divide)
  show ?thesis unfolding 1 2 3 ..
qed

lemma streak_bonus_1_credited:
  "fl_add 0 (2476979795053773 / 2251799813685248) = 2476979795053773 / 2251799813685248"
  "binary64 (1 / 100) \<le> 2476979795053773 / 2251799813685248"
  using binary64_exact [of "2476979795053773 / 2251799813685248" 2476979795053773 "- 51"]
  by (simp_all add: fl_add_def power_int_minus_divide binary64_hundredth)

lemmas fl_small = fl_add_def fl_sub_def fl_mul_def fl_div_def fl_of_int_def fl_round2_def
  binary64_0 binary64_1 binary64_numeral binary64_halves py_round2_def round_half_even_def

text \<open>
  In \<open>handle_new_member\<close> the streak is updated before the cascade: two days after a
  streak of 5, the inviter is credited the reward of a streak of 1.
\<close>

lemma handle_new_member_updates_streak_first:
  "(let s = initialize_data\<lparr>users := [''1'' \<mapsto> new_user\<lparr>invite_streak := Some 5,
                 last_invite_success := Some 1700000000\<rparr>], relationships := [''2'' \<mapsto> ''1'']\<rparr>;
        r = handle_new_member ''2'' 1700200000 s
    in fst r = Member_welcomed []
     \<and> map_option (\<lambda>u. (invite_streak u, last_invite_success u, lover_points u)) (users (snd r) ''1'')
         = Some (Some 1, Some 1700200000, Finite (2476979795053773 / 2251799813685248)))"
proof -
  have h: "fl_round2 (fl_mul (fl_of_int 0) d) = 0" "fl_div (fl_sub x x) 3600 = 0" for d x
    by (simp_all add: fl_small)
  show ?thesis
    by (simp add: Let_def handle_new_member_def init_user_def initialize_data_def new_user_def
        update_invite_streak_def calculate_heat_score_def HEAT_DECAY_HOURS_def h
        award_points_cascade_def INVITE_BASE_POINTS_def streak_bonus_1 streak_bonus_1_credited
        binary64_hundredth
        cascade_loop.simps award_points_def check_milestones_def MILESTONE_ANNOUNCES_def)
qed

text \<open>
  C8 fails in the modular program. For an inviter with a streak of 1 and no invite
  success on record, \<open>_process_successful_invite\<close> raises the streak to 2 where C8
  asks for 1, and ends with NameError at \<^verbatim>\<open>time.time()\<close>: the time of the success is
  not stored and the cascade does not run.
\<close>

theorem mh_streak_incremented_without_reset:
  "(let a = (new_app 0)\<lparr>points_table := [1 \<mapsto> 0],
               user_cache := [1 \<mapsto> new_session\<lparr>c_invite_streak := 1, c_invites_successful := 1\<rparr>],
               im_relationships := [2 \<mapsto> 1]\<rparr>;
        r = mh_handle_new_member 2 a
    in fst r = Raised NameError
     \<and> map_option (\<lambda>c. (c_invite_streak c, c_last_invite_success c)) (user_cache (snd r) 1) = Some (2, None)
     \<and> points_table (snd r) 1 = Some 0)"
  by (simp add: Let_def mh_handle_new_member_def um_get_or_create_user_def new_app_def
      im_get_inviter_def mh_process_successful_invite_def new_session_def)

section \<open>Milestones\<close>

text \<open>
  \<open>_check_milestones\<close> of the modular program appends the thresholds reached and not
  recorded yet, in the order of the configuration, and announces them; a second call
  announces nothing and changes nothing.
\<close>

lemma mh_milestones_loop_filter:
  "distinct ms \<Longrightarrow>
   mh_milestones_loop ms successful reached hit =
     (reached @ filter (\<lambda>m. m \<le> successful \<and> m \<notin> set reached) ms,
      hit @ filter (\<lambda>m. m \<le> successful \<and> m \<notin> set reached) ms)"
proof (induction ms arbitrary: reached hit)
  case Nil
  then show ?case by simp
next
  case (Cons m ms)
  have "filter (\<lambda>x. x \<le> successful \<and> x \<notin> set (reached @ [m])) ms
      = filter (\<lambda>x. x \<le> successful \<and> x \<notin> set reached) ms"
    using Cons.prems by (intro filter_cong) auto
  with Cons show ?case by simp
qed

lemma mh_check_milestones_idempotent:
  assumes "user_cache a inviter = Some c" and "inviter \<in> dom (points_table a)"
    and "mh_check_milestones inviter a = (announced, a1)"
  shows "announced = filter (\<lambda>m. m \<le> c_invites_successful c \<and> m \<notin> set (c_milestones_reached c))
                      MILESTONE_ANNOUNCES
       \<and> map_option c_milestones_reached (user_cache a1 inviter) =
           Some (c_milestones_reached c @ announced)
       \<and> mh_check_milestones inviter a1 = ([], a1)"
proof -
  have dist: "distinct MILESTONE_ANNOUNCES" by (simp add: MILESTONE_ANNOUNCES_def)
  let ?new = "filter (\<lambda>m. m \<le> c_invites_successful c \<and> m \<notin> set (c_milestones_reached c)) MILESTONE_ANNOUNCES"
  have 1: "announced = ?new"
    "a1 = a\<lparr>user_cache := (user_cache a)(inviter \<mapsto> c\<lparr>c_milestones_reached := c_milestones_reached c @ ?new\<rparr>)\<rparr>"
    using assms by (auto simp add: mh_check_milestones_def mh_milestones_loop_filter [OF dist])
  have 2: "filter (\<lambda>m. m \<le> c_invites_successful c \<and> m \<notin> set (c_milestones_reached c @ ?new)) MILESTONE_ANNOUNCES = []"
    by (auto simp add: filter_empty_conv)
  have 3: "mh_check_milestones inviter a1 = ([], a1)"
    unfolding 1(2) using assms(2)
    by (simp add: mh_check_milestones_def mh_milestones_loop_filter [OF dist] 2 del: set_append)
  show ?thesis using 1 3 by simp
qed

text \<open>
  C9 fails in the monolith. \<open>init_user\<close> does not create the key
  \<^verbatim>\<open>milestones_reached\<close> and nothing else does: \<open>check_milestones\<close> raises KeyError for
  an account with 10 successful invites, and the tenth invite of an inviter ends in
  \<open>handle_new_member\<close> with that KeyError, the milestone neither recorded nor announced.
\<close>

theorem check_milestones_raises_key_error:
  "(let s = (init_user ''1'' initialize_data)\<lparr>relationships := [''2'' \<mapsto> ''1'']\<rparr>;
        s9 = s\<lparr>users := (users s)(''1'' \<mapsto> new_user\<lparr>invites_successful := 9\<rparr>)\<rparr>;
        s10 = s\<lparr>users := (users s)(''1'' \<mapsto> new_user\<lparr>invites_successful := 10\<rparr>)\<rparr>;
        r = handle_new_member ''2'' 1700000000 s9
    in check_milestones ''1'' s10 = (Inl KeyError, s10)
     \<and> fst r = Raised KeyError
     \<and> map_option (\<lambda>u. (invites_successful u, milestones_reached u)) (users (snd r) ''1'') = Some (10, None))"
  by (simp add: Let_def handle_new_member_def init_user_def initialize_data_def new_user_def
      update_invite_streak_def calculate_heat_score_def HEAT_DECAY_HOURS_def py_round2_def
      round_half_even_def award_points_cascade_def STREAK_BONUS_MULTIPLIER_def INVITE_BASE_POINTS_def
      cascade_loop.simps award_points_def check_milestones_def MILESTONE_ANNOUNCES_def)

section \<open>The reward cascade\<close>

text \<open>
  The monolith on a chain of five accounts, the last one without a parent, with base
  reward 10 and no streak: the credits are 10, 5, 5/2, 5/4 and 5/8, each added in full.
\<close>

lemma award_points_cascade_depth_5:
  assumes d: "distinct [u0, u1, u2, u3, u4]"
    and ne: "u0 \<noteq> []" "u1 \<noteq> []" "u2 \<noteq> []" "u3 \<noteq> []" "u4 \<noteq> []"
    and us: "users s u0 = Some x0" "users s u1 = Some x1" "users s u2 = Some x2"
            "users s u3 = Some x3" "users s u4 = Some x4"
    and rel: "relationships s u0 = Some u1" "relationships s u1 = Some u2"
             "relationships s u2 = Some u3" "relationships s u3 = Some u4"
             "relationships s u4 = None"
    and streak: "invite_streak x0 = None \<or> invite_streak x0 = Some 0"
  shows "award_points_cascade u0 10 s =
           (Inr (),
            s\<lparr>users := (users s)
              (u0 \<mapsto> x0\<lparr>lover_points := pf_add (lover_points x0) (Finite (10)),
                        total_points_earned := pf_add (total_points_earned x0) (Finite (10))\<rparr>,
               u1 \<mapsto> x1\<lparr>lover_points := pf_add (lover_points x1) (Finite (5)),
                        total_points_earned := pf_add (total_points_earned x1) (Finite (5))\<rparr>,
               u2 \<mapsto> x2\<lparr>lover_points := pf_add (lover_points x2) (Finite (5 / 2)),
                        total_points_earned := pf_add (total_points_earned x2) (Finite (5 / 2))\<rparr>,
               u3 \<mapsto> x3\<lparr>lover_points := pf_add (lover_points x3) (Finite (5 / 4)),
                        total_points_earned := pf_add (total_points_earned x3) (Finite (5 / 4))\<rparr>,
               u4 \<mapsto> x4\<lparr>lover_points := pf_add (lover_points x4) (Finite (5 / 8)),
                        total_points_earned := pf_add (total_points_earned x4) (Finite (5 / 8))\<rparr>)\<rparr>)"
proof -
  have start: "award_points_cascade u0 10 s = cascade_loop u0 10 0 s"
    using us(1) streak by (auto simp add: award_points_cascade_def fl_small)
  have d': "distinct [u4, u3, u2, u1, u0]"
    using d by auto
  have halves: "fl_div 10 2 = 5" "fl_div 5 2 = 5 / 2" "fl_div (5 / 2) 2 = 5 / 4"
    "fl_div (5 / 4) 2 = 5 / 8" "fl_div (5 / 8) 2 = 5 / 16"
    by (simp_all add: fl_small)
  show ?thesis
    unfolding start using d d' ne us rel
    by (simp add: cascade_loop.simps award_points_def halves binary64_hundredth)
qed

text \<open>
  C3 fails in the modular program. On a chain of five accounts with balance 0, base
  reward 10 and no streak, the amounts of the walk are 10, 5, 5/2, 5/4 and 5/8 (the
  sessions' \<^verbatim>\<open>total_points_earned\<close> record them), but every balance is stored as
  \<^verbatim>\<open>int(new_points)\<close>: the balances after the walk are 10, 5, 2, 1 and 0.
\<close>

theorem mh_cascade_truncates_credits:
  "(let a = (new_app 0)\<lparr>points_table := [1 \<mapsto> 0, 2 \<mapsto> 0, 3 \<mapsto> 0, 4 \<mapsto> 0, 5 \<mapsto> 0],
               user_cache := [1 \<mapsto> new_session, 2 \<mapsto> new_session, 3 \<mapsto> new_session,
                              4 \<mapsto> new_session, 5 \<mapsto> new_session],
               im_relationships := [1 \<mapsto> 2, 2 \<mapsto> 3, 3 \<mapsto> 4, 4 \<mapsto> 5]\<rparr>;
        r = mh_award_cascade_points 1 10 a
    in fst r = Inr ()
     \<and> map (\<lambda>t. m_balance t (snd r)) [1, 2, 3, 4, 5] = [10, 5, 2, 1, 0]
     \<and> map (\<lambda>t. map_option c_total_points_earned (user_cache (snd r) t)) [1, 2, 3, 4, 5]
         = [Some 10, Some 5, Some (5 / 2), Some (5 / 4), Some (5 / 8)])"
  by (simp add: Let_def mh_award_cascade_points_def new_app_def new_session_def
      fl_small binary64_hundredth mh_cascade_loop.simps um_award_points_def
      um_update_user_points_def im_get_inviter_def py_int_def m_balance_def floor_eq_iff)

section \<open>Wagers\<close>


lemma balance_init_user [simp]: "balance x (init_user u s) = balance x s"
  by (simp add: balance_def init_user_def new_user_def domIff)

lemma balance_pending_wagers [simp]: "balance x (s\<lparr>pending_wagers := ws\<rparr>) = balance x s"
  by (simp add: balance_def)



lemma pending_add_xp [simp]: "pending_wagers (snd (add_xp u n s)) = pending_wagers s"
  by (simp add: add_xp_def Let_def split: option.splits)

lemma pending_check_level_up [simp]: "pending_wagers (snd (check_level_up u s)) = pending_wagers s"
  by (simp add: check_level_up_def Let_def split: option.splits)


lemma balance_refund_stake:
  assumes "refund_stake w s = Inr s'"
  shows "balance x s' = (if x = challenger_id w then pf_add (balance x s) (points w) else balance x s)"
  using assms
  by (auto simp add: refund_stake_def balance_def split: option.splits)


lemma balance_users:
  "balance x (s\<lparr>users := m\<rparr>) = (case m x of None \<Rightarrow> Finite 0 | Some u \<Rightarrow> lover_points u)"
  by (simp add: balance_def)








lemma m_balance_get_or_create [simp]:
  "m_balance x (snd (um_get_or_create_user u a)) = m_balance x a"
  by (auto simp add: m_balance_def um_get_or_create_user_def Let_def split: option.splits)

lemma upd_session_frame [simp]:
  "points_table (upd_session u f a) = points_table a"
  "points_default (upd_session u f a) = points_default a"
  "im_pending_wagers (upd_session u f a) = im_pending_wagers a"
  by (simp_all add: upd_session_def split: option.splits)

lemma um_check_level_up_frame [simp]:
  "points_table (snd (um_check_level_up u a)) = points_table a"
  "points_default (snd (um_check_level_up u a)) = points_default a"
  "im_pending_wagers (snd (um_check_level_up u a)) = im_pending_wagers a"
  by (simp_all add: um_check_level_up_def Let_def split: option.splits)








lemma duel_xp_450:
  "fl_mul (fl_mul 450 WAGER_XP_MULTIPLIER) (fl_add 1 (fl_div 40 100)) =
     8866461766385663 / 140737488355328"
proof -
  have 1: "fl_mul 450 WAGER_XP_MULTIPLIER = 45"
    unfolding fl_mul_def WAGER_XP_MULTIPLIER_def binary64_tenth
    by (subst binary64_eval [of 5]) (simp_all add: fl_eval)
  have 2: "fl_div 40 100 = 3602879701896397 / 9007199254740992"
    unfolding fl_div_def by (subst binary64_eval [of "- 2"]) (simp_all add: fl_eval)
  have 3: "fl_add 1 (3602879701896397 / 9007199254740992) = 3152519739159347 / 2251799813685248"
    unfolding fl_add_def by (subst binary64_eval [of 0]) (simp_all add: fl_eval)
  have 4: "fl_mul 45 (3152519739159347 / 2251799813685248) = 8866461766385663 / 140737488355328"
    unfolding fl_mul_def by (subst binary64_eval [of 5]) (simp_all add: fl_eval)
  show ?thesis unfolding 1 2 3 4 ..
qed


lemma wager_xp_450: "wager_xp (Finite 450) 40 = Inr 62"
  by (simp add: wager_xp_def duel_xp_450 py_int_def floor_numeral_div)


























end
